theory Spec2Isabelle
  imports Complex_Main
begin

section \<open>Errors\<close>

text \<open>
  The notebooks raise Python exceptions (an \<^verbatim>\<open>assert\<close>, a division by zero, a failed
  tuple unpacking, an index out of range, a missing key) and the libraries they call raise
  their own (\<^verbatim>\<open>RuntimeError\<close> from the tensor library, \<^verbatim>\<open>EinopsError\<close> from einops).
  Every function that can raise returns \<open>error + 'a\<close>, with \<open>Inl\<close> for the exception.
\<close>

datatype error =
  AssertionError | ZeroDivisionError | OverflowError | ValueError | IndexError | KeyError
  | TypeError | RuntimeError | EinopsError

definition ebind :: "error + 'a \<Rightarrow> ('a \<Rightarrow> error + 'b) \<Rightarrow> error + 'b" where
  "ebind m f = (case m of Inl e \<Rightarrow> Inl e | Inr v \<Rightarrow> f v)"

section \<open>Tensors\<close>

text \<open>
  A tensor is a shape and its elements in row-major order, as the tensor library stores a
  contiguous tensor. Elements are exact reals (or integers for label tensors): rounding
  of the floating-point formats is outside this model, except at the last activation of
  the decoder, where the range of the output depends on it.
\<close>

record 'a tensor =
  shape :: "nat list"
  elems :: "'a list"

definition wf_tensor :: "'a tensor \<Rightarrow> bool" where
  "wf_tensor t = (length (elems t) = prod_list (shape t))"

text \<open>Row-major position of a multi-index, and the multi-index of a position.\<close>

fun ravel :: "nat list \<Rightarrow> nat list \<Rightarrow> nat" where
  "ravel (d # ds) (i # is) = i * prod_list ds + ravel ds is"
| "ravel _ _ = 0"

fun unravel :: "nat list \<Rightarrow> nat \<Rightarrow> nat list" where
  "unravel [] k = []"
| "unravel (d # ds) k = (k div prod_list ds) # unravel ds (k mod prod_list ds)"

definition valid_index :: "nat list \<Rightarrow> nat list \<Rightarrow> bool" where
  "valid_index sh idx = list_all2 (\<lambda>i d. i < d) idx sh"

definition elem_at :: "'a tensor \<Rightarrow> nat list \<Rightarrow> 'a" where
  "elem_at t idx = elems t ! ravel (shape t) idx"

definition tabulate :: "nat list \<Rightarrow> (nat list \<Rightarrow> 'a) \<Rightarrow> 'a tensor" where
  "tabulate sh f = \<lparr>shape = sh, elems = map (\<lambda>k. f (unravel sh k)) [0..<prod_list sh]\<rparr>"

definition tmap :: "('a \<Rightarrow> 'b) \<Rightarrow> 'a tensor \<Rightarrow> 'b tensor" where
  "tmap f t = \<lparr>shape = shape t, elems = map f (elems t)\<rparr>"

definition zeros :: "nat list \<Rightarrow> real tensor" where
  "zeros sh = \<lparr>shape = sh, elems = replicate (prod_list sh) 0\<rparr>"

text \<open>Sum of \<open>f 0, \<dots>, f (n - 1)\<close>, in this order.\<close>

definition sum_upto :: "nat \<Rightarrow> (nat \<Rightarrow> real) \<Rightarrow> real" where
  "sum_upto n f = sum_list (map f [0..<n])"

text \<open>A Python number: a float, or a complex number.\<close>

datatype scalar = PyFloat real | PyComplex complex

section \<open>Operations of the tensor library\<close>

text \<open>
  The notebooks call these operations of the tensor library; their meaning here is the
  documented one, over exact reals. Where the library accepts more than the notebooks
  use (batch dimensions of \<^verbatim>\<open>matmul\<close> that differ and are broadcast, vectors as
  operands), the model raises RuntimeError.
\<close>

text \<open>
  \<^verbatim>\<open>t.reshape(dims)\<close>: the elements stay in row-major order and the shape is replaced.
  One dimension may be \<open>-1\<close> and is then inferred.
\<close>

definition torch_reshape :: "'a tensor \<Rightarrow> int list \<Rightarrow> error + 'a tensor" where
  "torch_reshape t dims =
     (if \<exists>d\<in>set dims. d < - 1 then Inl RuntimeError
      else case filter (\<lambda>d. d = - 1) dims of
        [] \<Rightarrow> if prod_list (map nat dims) = prod_list (shape t)
              then Inr (t\<lparr>shape := map nat dims\<rparr>) else Inl RuntimeError
      | [_] \<Rightarrow> (let p = prod_list (map nat (filter (\<lambda>d. d \<noteq> - 1) dims));
                    n = prod_list (shape t)
                in if p \<noteq> 0 \<and> n mod p = 0
                   then Inr (t\<lparr>shape := map (\<lambda>d. if d = - 1 then n div p else nat d) dims\<rparr>)
                   else Inl RuntimeError)
      | _ \<Rightarrow> Inl RuntimeError)"

text \<open>
  \<^verbatim>\<open>t.permute(perm)\<close>: dimension \<open>i\<close> of the result is dimension \<open>perm ! i\<close> of \<open>t\<close>.
\<close>

definition index_of :: "nat \<Rightarrow> nat list \<Rightarrow> nat" where
  "index_of j perm = length (takeWhile (\<lambda>p. p \<noteq> j) perm)"

definition torch_permute :: "'a tensor \<Rightarrow> nat list \<Rightarrow> error + 'a tensor" where
  "torch_permute t perm =
     (let r = length (shape t) in
      if length perm = r \<and> distinct perm \<and> (\<forall>p\<in>set perm. p < r)
      then Inr (tabulate (map (\<lambda>p. shape t ! p) perm)
                  (\<lambda>idx. elem_at t (map (\<lambda>j. idx ! index_of j perm) [0..<r])))
      else Inl RuntimeError)"

text \<open>\<^verbatim>\<open>t.transpose(d0, d1)\<close> swaps two dimensions; a negative one counts from the end.\<close>

definition norm_dim :: "nat \<Rightarrow> int \<Rightarrow> error + nat" where
  "norm_dim r d =
     (if - int r \<le> d \<and> d < int r then Inr (nat (if d < 0 then d + int r else d))
      else Inl IndexError)"

definition torch_transpose :: "'a tensor \<Rightarrow> int \<Rightarrow> int \<Rightarrow> error + 'a tensor" where
  "torch_transpose t d0 d1 =
     (let r = length (shape t) in
      ebind (norm_dim r d0) (\<lambda>a.
      ebind (norm_dim r d1) (\<lambda>b.
      torch_permute t (([0..<r])[a := b, b := a]))))"

text \<open>\<^verbatim>\<open>t.unbind(0)\<close>: the slices of \<open>t\<close> along its first dimension.\<close>

definition torch_unbind0 :: "'a tensor \<Rightarrow> error + 'a tensor list" where
  "torch_unbind0 t =
     (case shape t of
        [] \<Rightarrow> Inl RuntimeError
      | d # ds \<Rightarrow> Inr (map (\<lambda>s. tabulate ds (\<lambda>idx. elem_at t (s # idx))) [0..<d]))"

text \<open>
  \<^verbatim>\<open>a @ b\<close> for operands of the same rank, at least 2, with the same leading (batch)
  dimensions: a matrix product over the last two dimensions.
\<close>

definition torch_matmul :: "real tensor \<Rightarrow> real tensor \<Rightarrow> error + real tensor" where
  "torch_matmul a b =
     (let r = length (shape a) in
      if r < 2 \<or> length (shape b) \<noteq> r then Inl RuntimeError
      else let bs = take (r - 2) (shape a); n = shape a ! (r - 2); m = shape a ! (r - 1);
               p = shape b ! (r - 1)
           in if shape b = bs @ [m, p]
              then Inr (tabulate (bs @ [n, p])
                     (\<lambda>idx. let bi = take (r - 2) idx; i = idx ! (r - 2); j = idx ! (r - 1)
                            in sum_upto m (\<lambda>k. elem_at a (bi @ [i, k]) * elem_at b (bi @ [k, j]))))
              else Inl RuntimeError)"

text \<open>
  \<^verbatim>\<open>t * s\<close> for a Python number \<open>s\<close>. A complex \<open>s\<close> gives a complex tensor, on which
  the library's softmax raises; the model has real tensors only and raises here.
\<close>

fun tensor_mul_scalar :: "real tensor \<Rightarrow> scalar \<Rightarrow> error + real tensor" where
  "tensor_mul_scalar t (PyFloat s) = Inr (tmap (\<lambda>v. v * s) t)"
| "tensor_mul_scalar t (PyComplex z) = Inl RuntimeError"

text \<open>\<^verbatim>\<open>t.softmax(dim=-1)\<close>: along the last dimension, \<open>exp x\<^sub>i / (\<Sum>j. exp x\<^sub>j)\<close>.\<close>

definition torch_softmax_last :: "real tensor \<Rightarrow> real tensor" where
  "torch_softmax_last t =
     (if shape t = [] then tmap (\<lambda>v. 1) t
      else tabulate (shape t)
             (\<lambda>idx. exp (elem_at t idx) /
                    sum_upto (last (shape t)) (\<lambda>j. exp (elem_at t (butlast idx @ [j])))))"

text \<open>
  \<^verbatim>\<open>a + b\<close> with broadcasting: the shapes are aligned at their last dimensions, and a
  dimension of size 1 (or a missing one) is stretched.
\<close>

fun broadcast_rev :: "nat list \<Rightarrow> nat list \<Rightarrow> nat list option" where
  "broadcast_rev [] ys = Some ys"
| "broadcast_rev xs [] = Some xs"
| "broadcast_rev (x # xs) (y # ys) =
     (if x = y \<or> y = 1 then map_option ((#) x) (broadcast_rev xs ys)
      else if x = 1 then map_option ((#) y) (broadcast_rev xs ys)
      else None)"

definition broadcast_shapes :: "nat list \<Rightarrow> nat list \<Rightarrow> nat list option" where
  "broadcast_shapes a b = map_option rev (broadcast_rev (rev a) (rev b))"

definition bcast_index :: "nat list \<Rightarrow> nat list \<Rightarrow> nat list" where
  "bcast_index sh idx =
     map2 (\<lambda>d i. if d = 1 then 0 else i) sh (drop (length idx - length sh) idx)"

definition torch_add :: "real tensor \<Rightarrow> real tensor \<Rightarrow> error + real tensor" where
  "torch_add a b =
     (case broadcast_shapes (shape a) (shape b) of
        None \<Rightarrow> Inl RuntimeError
      | Some sh \<Rightarrow> Inr (tabulate sh (\<lambda>idx. elem_at a (bcast_index (shape a) idx)
                                        + elem_at b (bcast_index (shape b) idx))))"

text \<open>
  \<^verbatim>\<open>F.linear(x, w, b)\<close>, which \<^verbatim>\<open>nn.Linear\<close> applies: for \<open>w\<close> of shape \<open>(out, in)\<close> and \<open>x\<close>
  with last dimension \<open>in\<close>, the output replaces the last dimension by \<open>out\<close> and holds
  \<open>(\<Sum>k. x[\<dots>, k] * w[j, k]) + b[j]\<close>.
\<close>

definition F_linear :: "real tensor \<Rightarrow> real tensor \<Rightarrow> real tensor option \<Rightarrow> error + real tensor" where
  "F_linear x w b =
     (case shape w of
        [n_out, n_in] \<Rightarrow>
          if shape x = [] \<or> last (shape x) \<noteq> n_in then Inl RuntimeError
          else (case b of
                  None \<Rightarrow> Inr (tabulate (butlast (shape x) @ [n_out])
                     (\<lambda>idx. sum_upto n_in (\<lambda>k. elem_at x (butlast idx @ [k]) * elem_at w [last idx, k])))
                | Some bv \<Rightarrow>
                    if shape bv = [n_out]
                    then Inr (tabulate (butlast (shape x) @ [n_out])
                     (\<lambda>idx. sum_upto n_in (\<lambda>k. elem_at x (butlast idx @ [k]) * elem_at w [last idx, k])
                            + elem_at bv [last idx]))
                    else Inl RuntimeError)
      | _ \<Rightarrow> Inl RuntimeError)"

section \<open>Linear layers\<close>

text \<open>
  \<^verbatim>\<open>nn.Linear(in_features, out_features, bias)\<close> holds a weight of shape
  \<open>(out_features, in_features)\<close> and, unless \<open>bias\<close> is false, a bias of shape
  \<open>(out_features)\<close>. A negative size is rejected by the library.

  The library allocates a parameter tensor of a given shape and draws its initial values
  at random, and it raises when it cannot build a tensor of that shape: a size or a number
  of entries that does not fit its 64-bit integers, more memory than the machine has.
  The model takes this step from \<open>init\<close>, a function from a shape to a tensor or an error,
  so that it holds for whatever the library can build and whatever values it draws.
  \<open>zeros_init\<close> is one such function: it fills with zeros and builds every tensor of less
  than \<open>2\<^sup>6\<^sup>3\<close> entries.
\<close>

type_synonym initializer = "nat list \<Rightarrow> error + real tensor"

definition zeros_init :: initializer where
  "zeros_init sh =
     (if prod_list sh < 9223372036854775808 then Inr (zeros sh) else Inl RuntimeError)"

record Linear =
  in_features :: int
  out_features :: int
  weight :: "real tensor"
  bias :: "real tensor option"

definition nn_Linear :: "initializer \<Rightarrow> int \<Rightarrow> int \<Rightarrow> bool \<Rightarrow> error + Linear" where
  "nn_Linear init n_in n_out with_bias =
     (if n_in < 0 \<or> n_out < 0 then Inl RuntimeError
      else ebind (init [nat n_out, nat n_in]) (\<lambda>w.
           if with_bias
           then ebind (init [nat n_out]) (\<lambda>b.
                Inr \<lparr>in_features = n_in, out_features = n_out, weight = w, bias = Some b\<rparr>)
           else Inr \<lparr>in_features = n_in, out_features = n_out, weight = w, bias = None\<rparr>))"

definition Linear_forward :: "Linear \<Rightarrow> real tensor \<Rightarrow> error + real tensor" where
  "Linear_forward l x = F_linear x (weight l) (bias l)"

section \<open>Attention: construction\<close>

text \<open>
  \<^verbatim>\<open>
  class Attention(nn.Module):
      def __init__(self, dim, num_heads=8, qkv_bias=False):
          super().__init__()
          assert dim % num_heads == 0, 'dim should be divisible by num_heads'
          self.num_heads = num_heads
          head_dim = dim // num_heads
          self.scale = head_dim ** -0.5
          self.qkv = nn.Linear(dim, dim * 3, bias=qkv_bias)
          self.proj = nn.Linear(dim, dim)
  \<close>
  Python's \<^verbatim>\<open>%\<close> and \<^verbatim>\<open>//\<close> on integers are floored, as \<open>mod\<close> and \<open>div\<close> on \<open>int\<close>
  are, and raise ZeroDivisionError on a zero divisor. \<^verbatim>\<open>head_dim ** -0.5\<close> converts the
  integer to a float first, which raises OverflowError from \<open>2\<^sup>1\<^sup>0\<^sup>2\<^sup>4 - 2\<^sup>9\<^sup>7\<^sup>0\<close> on (the least
  integer that rounds to no finite float); the power is a float for a positive
  \<open>head_dim\<close>, raises ZeroDivisionError for zero, and is a complex number for a negative
  one.
\<close>

definition float_overflow :: int where
  "float_overflow = 2 ^ 1024 - 2 ^ 970"

definition py_mod :: "int \<Rightarrow> int \<Rightarrow> error + int" where
  "py_mod a b = (if b = 0 then Inl ZeroDivisionError else Inr (a mod b))"

definition py_floordiv :: "int \<Rightarrow> int \<Rightarrow> error + int" where
  "py_floordiv a b = (if b = 0 then Inl ZeroDivisionError else Inr (a div b))"

definition pow_neg_half :: "int \<Rightarrow> error + scalar" where
  "pow_neg_half n =
     (if float_overflow \<le> \<bar>n\<bar> then Inl OverflowError
      else if n = 0 then Inl ZeroDivisionError
      else if 0 < n then Inr (PyFloat (real_of_int n powr (- 1 / 2)))
      else Inr (PyComplex (Complex 0 (- (real_of_int (- n) powr (- 1 / 2))))))"

record Attention =
  num_heads :: int
  scale :: scalar
  qkv :: Linear
  proj :: Linear

definition Attention_init :: "initializer \<Rightarrow> int \<Rightarrow> int \<Rightarrow> bool \<Rightarrow> error + Attention" where
  "Attention_init init dimn n_heads qkv_bias =
     ebind (py_mod dimn n_heads) (\<lambda>r.
     if r \<noteq> 0 then Inl AssertionError else
     ebind (py_floordiv dimn n_heads) (\<lambda>head_dim.
     ebind (pow_neg_half head_dim) (\<lambda>sc.
     ebind (nn_Linear init dimn (dimn * 3) qkv_bias) (\<lambda>l_qkv.
     ebind (nn_Linear init dimn dimn True) (\<lambda>l_proj.
     Inr \<lparr>num_heads = n_heads, scale = sc, qkv = l_qkv, proj = l_proj\<rparr>)))))"

section \<open>Attention: forward\<close>

text \<open>
  \<^verbatim>\<open>
  def forward(self, x):
      B, N, C = x.shape
      qkv = self.qkv(x).reshape(B, N, 3, self.num_heads, C // self.num_heads).permute(2, 0, 3, 1, 4)
      q, k, v = qkv.unbind(0)
      attn = (q @ k.transpose(-2, -1)) * self.scale
      attn = attn.softmax(dim=-1)
      x = (attn @ v).transpose(1, 2).reshape(B, N, C)
      x = self.proj(x)
      return x
  \<close>
\<close>

definition Attention_forward :: "Attention \<Rightarrow> real tensor \<Rightarrow> error + real tensor" where
  "Attention_forward self x =
     (case shape x of
        [B, N, C] \<Rightarrow>
          ebind (Linear_forward (qkv self) x) (\<lambda>y.
          ebind (py_floordiv (int C) (num_heads self)) (\<lambda>head_dim.
          ebind (torch_reshape y [int B, int N, 3, num_heads self, head_dim]) (\<lambda>r.
          ebind (torch_permute r [2, 0, 3, 1, 4]) (\<lambda>qkv_t.
          ebind (torch_unbind0 qkv_t) (\<lambda>qs.
          case qs of
            [q, k, v] \<Rightarrow>
              ebind (torch_transpose k (- 2) (- 1)) (\<lambda>kT.
              ebind (torch_matmul q kT) (\<lambda>qk.
              ebind (tensor_mul_scalar qk (scale self)) (\<lambda>attn.
              ebind (torch_matmul (torch_softmax_last attn) v) (\<lambda>av.
              ebind (torch_transpose av 1 2) (\<lambda>avT.
              ebind (torch_reshape avT [int B, int N, int C]) (\<lambda>z.
              Linear_forward (proj self) z))))))
          | _ \<Rightarrow> Inl ValueError)))))
      | _ \<Rightarrow> Inl ValueError)"

text \<open>
  A module as \<^verbatim>\<open>Attention(dim, num_heads)\<close> builds it for a positive number of heads,
  whatever values its parameters have taken since.
\<close>

definition Linear_ok :: "Linear \<Rightarrow> nat \<Rightarrow> nat \<Rightarrow> bool" where
  "Linear_ok l n_in n_out =
     (shape (weight l) = [n_out, n_in] \<and>
      (case bias l of None \<Rightarrow> True | Some b \<Rightarrow> shape b = [n_out]))"

definition Attention_ok :: "Attention \<Rightarrow> nat \<Rightarrow> nat \<Rightarrow> bool" where
  "Attention_ok self dimn H =
     (0 < H \<and> 0 < dimn \<and> dimn mod H = 0 \<and> num_heads self = int H \<and>
      scale self = PyFloat (real (dimn div H) powr (- 1 / 2)) \<and>
      Linear_ok (qkv self) dimn (dimn * 3) \<and> Linear_ok (proj self) dimn dimn)"

subsection \<open>Multi-head scaled dot-product attention, as the textbook states it\<close>

text \<open>
  For an input of shape \<open>(B, N, C)\<close> and \<open>H\<close> heads of width \<open>D = C / H\<close>: the output \<open>y\<close>
  of the qkv layer, of shape \<open>(B, N, 3C)\<close>, is split into query, key and value, each
  split into \<open>H\<close> heads. Per batch entry and head, the attention matrix is the row-wise
  softmax of \<open>Q K\<^sup>T * D\<^sup>-\<^sup>1\<^sup>/\<^sup>2\<close>, the head's output is the attention matrix times \<open>V\<close>, the
  heads' outputs are laid side by side, and the projection layer is applied.
\<close>

definition head_query :: "real tensor \<Rightarrow> nat \<Rightarrow> nat \<Rightarrow> nat \<Rightarrow> nat \<Rightarrow> nat \<Rightarrow> nat \<Rightarrow> real" where
  "head_query y C D b h n d = elem_at y [b, n, h * D + d]"

definition head_key :: "real tensor \<Rightarrow> nat \<Rightarrow> nat \<Rightarrow> nat \<Rightarrow> nat \<Rightarrow> nat \<Rightarrow> nat \<Rightarrow> real" where
  "head_key y C D b h n d = elem_at y [b, n, C + h * D + d]"

definition head_value :: "real tensor \<Rightarrow> nat \<Rightarrow> nat \<Rightarrow> nat \<Rightarrow> nat \<Rightarrow> nat \<Rightarrow> nat \<Rightarrow> real" where
  "head_value y C D b h n d = elem_at y [b, n, 2 * C + h * D + d]"

definition head_score :: "real tensor \<Rightarrow> nat \<Rightarrow> nat \<Rightarrow> nat \<Rightarrow> nat \<Rightarrow> nat \<Rightarrow> nat \<Rightarrow> real" where
  "head_score y C D b h i j =
     sum_upto D (\<lambda>d. head_query y C D b h i d * head_key y C D b h j d) * real D powr (- 1 / 2)"

definition head_attn :: "real tensor \<Rightarrow> nat \<Rightarrow> nat \<Rightarrow> nat \<Rightarrow> nat \<Rightarrow> nat \<Rightarrow> nat \<Rightarrow> nat \<Rightarrow> real" where
  "head_attn y C D N b h i j =
     exp (head_score y C D b h i j) / sum_upto N (\<lambda>j'. exp (head_score y C D b h i j'))"

definition head_out :: "real tensor \<Rightarrow> nat \<Rightarrow> nat \<Rightarrow> nat \<Rightarrow> nat \<Rightarrow> nat \<Rightarrow> nat \<Rightarrow> nat \<Rightarrow> real" where
  "head_out y C D N b h i d =
     sum_upto N (\<lambda>j. head_attn y C D N b h i j * head_value y C D b h j d)"

definition textbook_attention :: "Linear \<Rightarrow> Linear \<Rightarrow> nat \<Rightarrow> real tensor \<Rightarrow> error + real tensor" where
  "textbook_attention l_qkv l_proj H x =
     (case shape x of
        [B, N, C] \<Rightarrow>
          ebind (Linear_forward l_qkv x) (\<lambda>y.
          Linear_forward l_proj
            (tabulate [B, N, C]
               (\<lambda>idx. head_out y C (C div H) N (idx ! 0) ((idx ! 2) div (C div H)) (idx ! 1)
                        ((idx ! 2) mod (C div H)))))
      | _ \<Rightarrow> Inl ValueError)"

subsection \<open>An example module and input\<close>

definition example_attention :: Attention where
  "example_attention =
     \<lparr>num_heads = 2, scale = PyFloat (real (4 div 2) powr (- 1 / 2)),
      qkv = \<lparr>in_features = 4, out_features = 12, weight = zeros [12, 4], bias = None\<rparr>,
      proj = \<lparr>in_features = 4, out_features = 4, weight = zeros [4, 4], bias = Some (zeros [4])\<rparr>\<rparr>"

section \<open>The transformer encoder\<close>

text \<open>
  \<^verbatim>\<open>nn.LayerNorm(dim)\<close> normalises along the last dimension, which has to have size
  \<open>dim\<close>: it subtracts the mean, divides by the square root of the (biased) variance plus
  \<open>eps = 1e-5\<close>, and applies a learnt scale and offset of shape \<open>(dim)\<close>.
\<close>

record LayerNorm =
  normalized_shape :: nat
  eps :: real
  ln_weight :: "real tensor"
  ln_bias :: "real tensor"

definition nn_LayerNorm :: "initializer \<Rightarrow> int \<Rightarrow> error + LayerNorm" where
  "nn_LayerNorm init dimn =
     (if dimn < 0 then Inl RuntimeError
      else ebind (init [nat dimn]) (\<lambda>w.
           ebind (init [nat dimn]) (\<lambda>b.
           Inr \<lparr>normalized_shape = nat dimn, eps = 1 / 100000, ln_weight = w, ln_bias = b\<rparr>)))"

definition LayerNorm_forward :: "LayerNorm \<Rightarrow> real tensor \<Rightarrow> error + real tensor" where
  "LayerNorm_forward l x =
     (let n = normalized_shape l in
      if shape x = [] \<or> last (shape x) \<noteq> n \<or> shape (ln_weight l) \<noteq> [n] \<or> shape (ln_bias l) \<noteq> [n]
      then Inl RuntimeError
      else Inr (tabulate (shape x)
             (\<lambda>idx. let row = (\<lambda>j. elem_at x (butlast idx @ [j]));
                        mean = sum_upto n row / real n;
                        var = sum_upto n (\<lambda>j. (row j - mean)\<^sup>2) / real n
                    in (elem_at x idx - mean) / sqrt (var + eps l) * elem_at (ln_weight l) [last idx]
                       + elem_at (ln_bias l) [last idx])))"

text \<open>
  \<^verbatim>\<open>
  class Mlp(nn.Module):
      def __init__(self, in_features, hidden_features=None, out_features=None, act_layer=nn.GELU):
          super().__init__()
          out_features = out_features or in_features
          hidden_features = hidden_features or in_features
          self.fc1 = nn.Linear(in_features, hidden_features)
          self.act = act_layer()
          self.fc2 = nn.Linear(hidden_features, out_features)

      def forward(self, x):
          x = self.fc1(x)
          x = self.act(x)
          x = self.fc2(x)
          return x
  \<close>
  \<^verbatim>\<open>a or b\<close> is \<open>b\<close> when \<open>a\<close> is \<^verbatim>\<open>None\<close> or zero. The activation layer is a parameter of
  the constructor; the model takes it as the function it applies to each entry (GELU by
  default).
\<close>

fun py_or :: "int option \<Rightarrow> int \<Rightarrow> int" where
  "py_or None d = d"
| "py_or (Some v) d = (if v = 0 then d else v)"

record Mlp =
  fc1 :: Linear
  act :: "real \<Rightarrow> real"
  fc2 :: Linear

definition Mlp_init ::
  "initializer \<Rightarrow> int \<Rightarrow> int option \<Rightarrow> int option \<Rightarrow> (real \<Rightarrow> real) \<Rightarrow> error + Mlp" where
  "Mlp_init init n_in hidden_features n_out act_layer =
     (let out_f = py_or n_out n_in; hidden_f = py_or hidden_features n_in in
      ebind (nn_Linear init n_in hidden_f True) (\<lambda>l1.
      ebind (nn_Linear init hidden_f out_f True) (\<lambda>l2.
      Inr \<lparr>fc1 = l1, act = act_layer, fc2 = l2\<rparr>)))"

definition Mlp_forward :: "Mlp \<Rightarrow> real tensor \<Rightarrow> error + real tensor" where
  "Mlp_forward self x =
     ebind (Linear_forward (fc1 self) x) (\<lambda>x1.
     Linear_forward (fc2 self) (tmap (act self) x1))"

text \<open>
  \<^verbatim>\<open>
  class Block(nn.Module):
      def __init__(self, dim, num_heads, mlp_ratio=4., qkv_bias=False,
                   act_layer=nn.GELU, norm_layer=nn.LayerNorm):
          super().__init__()
          self.norm1 = norm_layer(dim)
          self.attn = Attention(dim, num_heads=num_heads, qkv_bias=qkv_bias)
          self.norm2 = norm_layer(dim)
          self.mlp = Mlp(in_features=dim, hidden_features=int(dim * mlp_ratio), act_layer=act_layer)

      def forward(self, x):
          x = x + self.attn(self.norm1(x))
          x = x + self.mlp(self.norm2(x))
          return x
  \<close>
  The norm layer is the default, \<^verbatim>\<open>nn.LayerNorm\<close>, which is what the notebook passes.
  \<^verbatim>\<open>int(r)\<close> truncates towards zero.
\<close>

definition py_int :: "real \<Rightarrow> int" where
  "py_int r = (if 0 \<le> r then \<lfloor>r\<rfloor> else \<lceil>r\<rceil>)"

record Block =
  norm1 :: LayerNorm
  attn :: Attention
  norm2 :: LayerNorm
  mlp :: Mlp

definition Block_init ::
  "initializer \<Rightarrow> int \<Rightarrow> int \<Rightarrow> real \<Rightarrow> bool \<Rightarrow> (real \<Rightarrow> real) \<Rightarrow> error + Block" where
  "Block_init init dimn n_heads mlp_ratio qkv_bias act_layer =
     ebind (nn_LayerNorm init dimn) (\<lambda>n1.
     ebind (Attention_init init dimn n_heads qkv_bias) (\<lambda>a.
     ebind (nn_LayerNorm init dimn) (\<lambda>n2.
     ebind (Mlp_init init dimn (Some (py_int (real_of_int dimn * mlp_ratio))) None act_layer) (\<lambda>m.
     Inr \<lparr>norm1 = n1, attn = a, norm2 = n2, mlp = m\<rparr>))))"

definition Block_forward :: "Block \<Rightarrow> real tensor \<Rightarrow> error + real tensor" where
  "Block_forward self x =
     ebind (LayerNorm_forward (norm1 self) x) (\<lambda>n1.
     ebind (Attention_forward (attn self) n1) (\<lambda>a.
     ebind (torch_add x a) (\<lambda>x1.
     ebind (LayerNorm_forward (norm2 self) x1) (\<lambda>n2.
     ebind (Mlp_forward (mlp self) n2) (\<lambda>m.
     torch_add x1 m)))))"

text \<open>
  \<^verbatim>\<open>
  class Transformer(nn.Module):
      def __init__(self, dim, num_heads, num_blocks, mlp_ratio=4., qkv_bias=False,
                   act_layer=nn.GELU, norm_layer=nn.LayerNorm):
          super().__init__()
          self.blocks = nn.ModuleList([Block(dim, num_heads, mlp_ratio, qkv_bias,
                                       act_layer, norm_layer) for _ in range(num_blocks)])

      def forward(self, x):
          for block in self.blocks:
              x = block(x)
          return x
  \<close>
\<close>

record Transformer =
  blocks :: "Block list"

definition Transformer_init ::
  "initializer \<Rightarrow> int \<Rightarrow> int \<Rightarrow> int \<Rightarrow> real \<Rightarrow> bool \<Rightarrow> (real \<Rightarrow> real) \<Rightarrow> error + Transformer" where
  "Transformer_init init dimn n_heads num_blocks mlp_ratio qkv_bias act_layer =
     (if num_blocks \<le> 0 then Inr \<lparr>blocks = []\<rparr>
      else ebind (Block_init init dimn n_heads mlp_ratio qkv_bias act_layer) (\<lambda>b.
           Inr \<lparr>blocks = replicate (nat num_blocks) b\<rparr>))"

fun forward_blocks :: "Block list \<Rightarrow> real tensor \<Rightarrow> error + real tensor" where
  "forward_blocks [] x = Inr x"
| "forward_blocks (b # bs) x = ebind (Block_forward b x) (forward_blocks bs)"

definition Transformer_forward :: "Transformer \<Rightarrow> real tensor \<Rightarrow> error + real tensor" where
  "Transformer_forward self x = forward_blocks (blocks self) x"

text \<open>
  Modules as the constructors build them for \<open>dim\<close> and a positive number of heads that
  divides it, whatever values their parameters hold.
\<close>

definition LayerNorm_ok :: "LayerNorm \<Rightarrow> nat \<Rightarrow> bool" where
  "LayerNorm_ok l dimn =
     (normalized_shape l = dimn \<and> shape (ln_weight l) = [dimn] \<and> shape (ln_bias l) = [dimn])"

definition Mlp_ok :: "Mlp \<Rightarrow> nat \<Rightarrow> bool" where
  "Mlp_ok m dimn =
     (case shape (weight (fc1 m)) of
        [hidden, n_in] \<Rightarrow> Linear_ok (fc1 m) dimn hidden \<and> Linear_ok (fc2 m) hidden dimn
      | _ \<Rightarrow> False)"

definition Block_ok :: "Block \<Rightarrow> nat \<Rightarrow> nat \<Rightarrow> bool" where
  "Block_ok b dimn H =
     (LayerNorm_ok (norm1 b) dimn \<and> Attention_ok (attn b) dimn H \<and>
      LayerNorm_ok (norm2 b) dimn \<and> Mlp_ok (mlp b) dimn)"

definition Transformer_ok :: "Transformer \<Rightarrow> nat \<Rightarrow> nat \<Rightarrow> bool" where
  "Transformer_ok t dimn H = list_all (\<lambda>b. Block_ok b dimn H) (blocks t)"

text \<open>\<^verbatim>\<open>nn.ReLU\<close>, applied to each entry.\<close>

definition relu :: "real \<Rightarrow> real" where
  "relu v = max 0 v"

subsection \<open>An example block and transformer\<close>

definition example_norm :: LayerNorm where
  "example_norm = \<lparr>normalized_shape = 4, eps = 1 / 100000, ln_weight = zeros [4], ln_bias = zeros [4]\<rparr>"

definition example_mlp :: Mlp where
  "example_mlp =
     \<lparr>fc1 = \<lparr>in_features = 4, out_features = 16, weight = zeros [16, 4], bias = Some (zeros [16])\<rparr>,
      act = relu,
      fc2 = \<lparr>in_features = 16, out_features = 4, weight = zeros [4, 16], bias = Some (zeros [4])\<rparr>\<rparr>"

definition example_block :: Block where
  "example_block =
     \<lparr>norm1 = example_norm, attn = example_attention, norm2 = example_norm, mlp = example_mlp\<rparr>"

definition example_transformer :: Transformer where
  "example_transformer = \<lparr>blocks = [example_block, example_block]\<rparr>"

section \<open>The two MLP classifiers\<close>

text \<open>
  \<^verbatim>\<open>rearrange(x, 'b c h w -> b (c h w)')\<close> flattens all but the first dimension of a
  tensor of rank 4; einops rejects any other rank.
\<close>

definition rearrange_flatten :: "'a tensor \<Rightarrow> error + 'a tensor" where
  "rearrange_flatten x =
     (case shape x of
        [b, c, h, w] \<Rightarrow> Inr (x\<lparr>shape := [b, c * h * w]\<rparr>)
      | _ \<Rightarrow> Inl EinopsError)"

text \<open>
  \<^verbatim>\<open>
  class SimpleMLP(nn.Module):
      def __init__(self, n_features=3*32*32, n_hidden=512, num_classes=10):
          super().__init__()
          self.fc1 = nn.Linear(n_features, n_hidden)
          self.fc2 = nn.Linear(n_hidden, n_hidden)
          self.fc3 = nn.Linear(n_hidden, num_classes)

      def forward(self, x):
          y = rearrange(x, 'b c h w -> b (c h w)')
          y = nn.GELU()(self.fc1(y))
          y = nn.GELU()(self.fc2(y))
          y = self.fc3(y)
          return y
  \<close>
  GELU, \<open>x * \<Phi>(x)\<close> with \<open>\<Phi>\<close> the standard normal distribution function, is the
  library's; the model takes it as the parameter \<open>gelu\<close>, applied to each entry.
\<close>

record SimpleMLP =
  fc1 :: Linear
  fc2 :: Linear
  fc3 :: Linear

definition SimpleMLP_init :: "initializer \<Rightarrow> int \<Rightarrow> int \<Rightarrow> int \<Rightarrow> error + SimpleMLP" where
  "SimpleMLP_init init n_features n_hidden num_classes =
     ebind (nn_Linear init n_features n_hidden True) (\<lambda>l1.
     ebind (nn_Linear init n_hidden n_hidden True) (\<lambda>l2.
     ebind (nn_Linear init n_hidden num_classes True) (\<lambda>l3.
     Inr \<lparr>fc1 = l1, fc2 = l2, fc3 = l3\<rparr>)))"

definition SimpleMLP_forward :: "(real \<Rightarrow> real) \<Rightarrow> SimpleMLP \<Rightarrow> real tensor \<Rightarrow> error + real tensor" where
  "SimpleMLP_forward gelu self x =
     ebind (rearrange_flatten x) (\<lambda>y.
     ebind (Linear_forward (fc1 self) y) (\<lambda>y1.
     ebind (Linear_forward (fc2 self) (tmap gelu y1)) (\<lambda>y2.
     Linear_forward (fc3 self) (tmap gelu y2))))"

text \<open>
  \<^verbatim>\<open>
  class TensorMLP(nn.Module):
      def __init__(self, n_features=3*32*32, n_hidden=512, num_classes=10):
          super().__init__()
          self.w1 = nn.Parameter(torch.empty((n_hidden, n_features)))
          self.b1 = nn.Parameter(torch.empty((n_hidden,)))
          self.w2 = nn.Parameter(torch.empty((n_hidden, n_hidden)))
          self.b2 = nn.Parameter(torch.empty((n_hidden,)))
          self.w3 = nn.Parameter(torch.empty((num_classes, n_hidden)))
          self.b3 = nn.Parameter(torch.empty((num_classes,)))
          self.reset_parameters()

      def reset_parameters(self):
          nn.init.kaiming_uniform_(self.w1, a=math.sqrt(5))
          nn.init.constant_(self.b1, 0)
          (the same for w2, b2, w3, b3)

      def forward(self, x):
          y = rearrange(x, 'b c h w -> b (c h w)')
          y = y @ self.w1.T + self.b1
          y = nn.GELU()(y)
          y = y @ self.w2.T + self.b2
          y = nn.GELU()(y)
          y = y @ self.w3.T + self.b3
          return y
  \<close>
  \<^verbatim>\<open>torch.empty\<close> rejects a negative size and builds the six tensors through \<open>init\<close>, in
  this order. The weights keep the random values \<open>init\<close> gave them; the biases are set to
  zero.
\<close>

record TensorMLP =
  w1 :: "real tensor"
  b1 :: "real tensor"
  w2 :: "real tensor"
  b2 :: "real tensor"
  w3 :: "real tensor"
  b3 :: "real tensor"

definition torch_empty :: "initializer \<Rightarrow> int list \<Rightarrow> error + real tensor" where
  "torch_empty init sizes =
     (if \<exists>d\<in>set sizes. d < 0 then Inl RuntimeError else init (map nat sizes))"

definition TensorMLP_init :: "initializer \<Rightarrow> int \<Rightarrow> int \<Rightarrow> int \<Rightarrow> error + TensorMLP" where
  "TensorMLP_init init n_features n_hidden num_classes =
     ebind (torch_empty init [n_hidden, n_features]) (\<lambda>e1.
     ebind (torch_empty init [n_hidden]) (\<lambda>c1.
     ebind (torch_empty init [n_hidden, n_hidden]) (\<lambda>e2.
     ebind (torch_empty init [n_hidden]) (\<lambda>c2.
     ebind (torch_empty init [num_classes, n_hidden]) (\<lambda>e3.
     ebind (torch_empty init [num_classes]) (\<lambda>c3.
     Inr \<lparr>w1 = e1, b1 = zeros (shape c1), w2 = e2, b2 = zeros (shape c2),
          w3 = e3, b3 = zeros (shape c3)\<rparr>))))))"

text \<open>\<^verbatim>\<open>w.T\<close> reverses the dimensions of \<open>w\<close>.\<close>

definition torch_T :: "'a tensor \<Rightarrow> error + 'a tensor" where
  "torch_T w = torch_permute w (rev [0..<length (shape w)])"

text \<open>One layer of \<^verbatim>\<open>TensorMLP.forward\<close>: \<^verbatim>\<open>y @ w.T + b\<close>.\<close>

definition matmul_T_add :: "real tensor \<Rightarrow> real tensor \<Rightarrow> real tensor \<Rightarrow> error + real tensor" where
  "matmul_T_add y w b =
     ebind (torch_T w) (\<lambda>wT.
     ebind (torch_matmul y wT) (\<lambda>m.
     torch_add m b))"

definition TensorMLP_forward :: "(real \<Rightarrow> real) \<Rightarrow> TensorMLP \<Rightarrow> real tensor \<Rightarrow> error + real tensor" where
  "TensorMLP_forward gelu self x =
     ebind (rearrange_flatten x) (\<lambda>y.
     ebind (matmul_T_add y (w1 self) (b1 self)) (\<lambda>y1.
     ebind (matmul_T_add (tmap gelu y1) (w2 self) (b2 self)) (\<lambda>y2.
     matmul_T_add (tmap gelu y2) (w3 self) (b3 self))))"

text \<open>
  The parameters of a \<^verbatim>\<open>TensorMLP\<close> have the shapes its constructor gives them, and a
  \<^verbatim>\<open>SimpleMLP\<close> has the same parameters when its layers hold these weights and biases.
\<close>

definition TensorMLP_ok :: "TensorMLP \<Rightarrow> nat \<Rightarrow> nat \<Rightarrow> nat \<Rightarrow> bool" where
  "TensorMLP_ok t n_features n_hidden num_classes =
     (shape (w1 t) = [n_hidden, n_features] \<and> shape (b1 t) = [n_hidden] \<and>
      shape (w2 t) = [n_hidden, n_hidden] \<and> shape (b2 t) = [n_hidden] \<and>
      shape (w3 t) = [num_classes, n_hidden] \<and> shape (b3 t) = [num_classes])"

definition same_parameters :: "SimpleMLP \<Rightarrow> TensorMLP \<Rightarrow> bool" where
  "same_parameters s t =
     (weight (fc1 s) = w1 t \<and> bias (fc1 s) = Some (b1 t) \<and>
      weight (fc2 s) = w2 t \<and> bias (fc2 s) = Some (b2 t) \<and>
      weight (fc3 s) = w3 t \<and> bias (fc3 s) = Some (b3 t))"

subsection \<open>Example MLPs with the same parameters\<close>

definition example_tensor_mlp :: TensorMLP where
  "example_tensor_mlp =
     \<lparr>w1 = zeros [5, 12], b1 = zeros [5], w2 = zeros [5, 5], b2 = zeros [5],
      w3 = zeros [2, 5], b3 = zeros [2]\<rparr>"

definition example_simple_mlp :: SimpleMLP where
  "example_simple_mlp =
     \<lparr>fc1 = \<lparr>in_features = 12, out_features = 5, weight = zeros [5, 12], bias = Some (zeros [5])\<rparr>,
      fc2 = \<lparr>in_features = 5, out_features = 5, weight = zeros [5, 5], bias = Some (zeros [5])\<rparr>,
      fc3 = \<lparr>in_features = 5, out_features = 2, weight = zeros [2, 5], bias = Some (zeros [2])\<rparr>\<rparr>"

section \<open>The colorization autoencoder\<close>

text \<open>
  \<^verbatim>\<open>nn.Conv2d(in_channels, out_channels, kernel_size, stride)\<close>, without padding, holds
  a weight of shape \<open>(out, in, k, k)\<close> and a bias of shape \<open>(out)\<close>. On an input of shape
  \<open>(B, in, H, W)\<close> with \<open>H\<close> and \<open>W\<close> at least \<open>k\<close>, the output has shape
  \<open>(B, out, (H - k) div stride + 1, (W - k) div stride + 1)\<close>, and its entry at
  \<open>(b, o, i, j)\<close> is the bias plus the sum of \<open>x[b, c, i * stride + ki, j * stride + kj] *
  w[o, c, ki, kj]\<close>. Sizes are natural numbers: the library rejects negative ones. The
  two parameter tensors are built through \<open>init\<close>, as those of \<^verbatim>\<open>nn.Linear\<close> are.
\<close>

record Conv2d =
  conv_weight :: "real tensor"
  conv_bias :: "real tensor"
  stride :: nat

definition nn_Conv2d :: "initializer \<Rightarrow> nat \<Rightarrow> nat \<Rightarrow> nat \<Rightarrow> nat \<Rightarrow> error + Conv2d" where
  "nn_Conv2d init c_in c_out k s =
     ebind (init [c_out, c_in, k, k]) (\<lambda>w.
     ebind (init [c_out]) (\<lambda>b.
     Inr \<lparr>conv_weight = w, conv_bias = b, stride = s\<rparr>))"

definition Conv2d_forward :: "Conv2d \<Rightarrow> real tensor \<Rightarrow> error + real tensor" where
  "Conv2d_forward l x =
     (case shape x of
        [B, C, H, W] \<Rightarrow>
          (case shape (conv_weight l) of
             [out, c_in, kh, kw] \<Rightarrow>
               if C \<noteq> c_in \<or> H < kh \<or> W < kw \<or> stride l = 0 \<or> shape (conv_bias l) \<noteq> [out]
               then Inl RuntimeError
               else Inr (tabulate [B, out, (H - kh) div stride l + 1, (W - kw) div stride l + 1]
                      (\<lambda>idx. elem_at (conv_bias l) [idx ! 1] +
                         sum_upto C (\<lambda>c. sum_upto kh (\<lambda>ki. sum_upto kw (\<lambda>kj.
                           elem_at x [idx ! 0, c, idx ! 2 * stride l + ki, idx ! 3 * stride l + kj]
                           * elem_at (conv_weight l) [idx ! 1, c, ki, kj])))))
           | _ \<Rightarrow> Inl RuntimeError)
      | _ \<Rightarrow> Inl RuntimeError)"

text \<open>
  \<^verbatim>\<open>nn.ConvTranspose2d(in_channels, out_channels, kernel_size, stride, padding)\<close> holds a
  weight of shape \<open>(in, out, k, k)\<close> and a bias of shape \<open>(out)\<close>. On an input of shape
  \<open>(B, in, H, W)\<close> the output has height \<open>(H - 1) * stride - 2 * padding + k\<close> (and the
  same for the width), and its entry at \<open>(b, o, i, j)\<close> is the bias plus the sum of
  \<open>x[b, c, hi, wi] * w[c, o, ki, kj]\<close> over all \<open>hi * stride + ki = i + padding\<close> and
  \<open>wi * stride + kj = j + padding\<close>.
\<close>

record ConvTranspose2d =
  convT_weight :: "real tensor"
  convT_bias :: "real tensor"
  convT_stride :: nat
  convT_padding :: nat

definition nn_ConvTranspose2d ::
  "initializer \<Rightarrow> nat \<Rightarrow> nat \<Rightarrow> nat \<Rightarrow> nat \<Rightarrow> nat \<Rightarrow> error + ConvTranspose2d" where
  "nn_ConvTranspose2d init c_in c_out k s p =
     ebind (init [c_in, c_out, k, k]) (\<lambda>w.
     ebind (init [c_out]) (\<lambda>b.
     Inr \<lparr>convT_weight = w, convT_bias = b, convT_stride = s, convT_padding = p\<rparr>))"

definition ConvTranspose2d_forward :: "ConvTranspose2d \<Rightarrow> real tensor \<Rightarrow> error + real tensor" where
  "ConvTranspose2d_forward l x =
     (case shape x of
        [B, C, H, W] \<Rightarrow>
          (case shape (convT_weight l) of
             [c_in, out, kh, kw] \<Rightarrow>
               (let s = convT_stride l; p = convT_padding l in
                if C \<noteq> c_in \<or> H = 0 \<or> W = 0 \<or> s = 0 \<or> shape (convT_bias l) \<noteq> [out]
                   \<or> (H - 1) * s + kh \<le> 2 * p \<or> (W - 1) * s + kw \<le> 2 * p
                then Inl RuntimeError
                else Inr (tabulate [B, out, (H - 1) * s + kh - 2 * p, (W - 1) * s + kw - 2 * p]
                       (\<lambda>idx. elem_at (convT_bias l) [idx ! 1] +
                          sum_upto C (\<lambda>c. sum_upto H (\<lambda>hi. sum_upto W (\<lambda>wi.
                          sum_upto kh (\<lambda>ki. sum_upto kw (\<lambda>kj.
                            if hi * s + ki = idx ! 2 + p \<and> wi * s + kj = idx ! 3 + p
                            then elem_at x [idx ! 0, c, hi, wi]
                                 * elem_at (convT_weight l) [c, idx ! 1, ki, kj]
                            else 0))))))))
           | _ \<Rightarrow> Inl RuntimeError)
      | _ \<Rightarrow> Inl RuntimeError)"

definition sigmoid :: "real \<Rightarrow> real" where
  "sigmoid v = 1 / (1 + exp (- v))"

text \<open>
  The library computes in the float32 format, and the range of \<^verbatim>\<open>nn.Sigmoid\<close> depends on
  it: the value of the sigmoid is rounded to the format. The model's tensors hold exact
  reals, and \<^verbatim>\<open>nn.Sigmoid\<close> is modelled in both arithmetics: exactly, and with its value
  rounded to the nearest float32, ties to the even significand. A float32 has a
  significand of 24 bits: between \<open>2\<^sup>e\<close> and \<open>2\<^sup>e\<^sup>+\<^sup>1\<close> the floats are \<open>2\<^sup>e\<^sup>-\<^sup>2\<^sup>3\<close> apart, for \<open>e\<close>
  from \<open>-126\<close> on, and below \<open>2\<^sup>-\<^sup>1\<^sup>2\<^sup>6\<close> they are \<open>2\<^sup>-\<^sup>1\<^sup>4\<^sup>9\<close> apart. (Values beyond the largest
  float32, which round to infinity, do not occur here: a sigmoid lies between 0 and 1.
  The library's kernel evaluates \<open>1 / (1 + exp (- v))\<close> in float32 and may differ from the
  correctly rounded value in the last place; at the arguments 0 and 100, which the
  examples below use, it gives 0.5 and 1.0 as the rounding does.)
\<close>

datatype arithmetic = Exact | Float32

definition round_half_even :: "real \<Rightarrow> int" where
  "round_half_even r =
     (let f = \<lfloor>r\<rfloor>; d = r - of_int f
      in if d < 1 / 2 then f else if 1 / 2 < d then f + 1 else if even f then f else f + 1)"

definition round_f32 :: "real \<Rightarrow> real" where
  "round_f32 x =
     (if x = 0 then 0
      else let e = max \<lfloor>log 2 \<bar>x\<bar>\<rfloor> (- 126); ulp = 2 powr (of_int e - 23)
           in of_int (round_half_even (x / ulp)) * ulp)"

fun nn_Sigmoid :: "arithmetic \<Rightarrow> real \<Rightarrow> real" where
  "nn_Sigmoid Exact v = sigmoid v"
| "nn_Sigmoid Float32 v = round_f32 (sigmoid v)"

text \<open>
  \<^verbatim>\<open>
  class Encoder(nn.Module):
      def __init__(self, n_features=1, kernel_size=3, n_filters=64, feature_dim=256):
          super().__init__()
          self.conv1 = nn.Conv2d(n_features, n_filters, kernel_size=kernel_size, stride=2)
          self.conv2 = nn.Conv2d(n_filters, n_filters*2, kernel_size=kernel_size, stride=2)
          self.conv3 = nn.Conv2d(n_filters*2, n_filters*4, kernel_size=kernel_size, stride=2)
          self.fc1 = nn.Linear(2304, feature_dim)

      def forward(self, x):
          y = nn.ReLU()(self.conv1(x))
          y = nn.ReLU()(self.conv2(y))
          y = nn.ReLU()(self.conv3(y))
          y = rearrange(y, 'b c h w -> b (c h w)')
          y = self.fc1(y)
          return y
  \<close>
\<close>

record Encoder =
  conv1 :: Conv2d
  conv2 :: Conv2d
  conv3 :: Conv2d
  fc1 :: Linear

definition Encoder_init :: "initializer \<Rightarrow> nat \<Rightarrow> nat \<Rightarrow> nat \<Rightarrow> nat \<Rightarrow> error + Encoder" where
  "Encoder_init init n_features kernel_size n_filters feature_dim =
     ebind (nn_Conv2d init n_features n_filters kernel_size 2) (\<lambda>c1.
     ebind (nn_Conv2d init n_filters (n_filters * 2) kernel_size 2) (\<lambda>c2.
     ebind (nn_Conv2d init (n_filters * 2) (n_filters * 4) kernel_size 2) (\<lambda>c3.
     ebind (nn_Linear init 2304 (int feature_dim) True) (\<lambda>l.
     Inr \<lparr>conv1 = c1, conv2 = c2, conv3 = c3, fc1 = l\<rparr>))))"

definition Encoder_forward :: "Encoder \<Rightarrow> real tensor \<Rightarrow> error + real tensor" where
  "Encoder_forward self x =
     ebind (Conv2d_forward (conv1 self) x) (\<lambda>y1.
     ebind (Conv2d_forward (conv2 self) (tmap relu y1)) (\<lambda>y2.
     ebind (Conv2d_forward (conv3 self) (tmap relu y2)) (\<lambda>y3.
     ebind (rearrange_flatten (tmap relu y3)) (\<lambda>y4.
     Linear_forward (fc1 self) y4))))"

text \<open>
  \<^verbatim>\<open>
  class Decoder(nn.Module):
      def __init__(self, kernel_size=3, n_filters=256, feature_dim=256, output_size=32, output_channels=3):
          super().__init__()
          self.init_size = output_size // 2**2
          self.fc1 = nn.Linear(feature_dim, self.init_size**2 * n_filters)
          self.conv1 = nn.ConvTranspose2d(n_filters, n_filters//2, kernel_size=kernel_size, stride=2, padding=1)
          self.conv2 = nn.ConvTranspose2d(n_filters//2, n_filters//4, kernel_size=kernel_size, stride=2, padding=1)
          self.conv3 = nn.ConvTranspose2d(n_filters//4, n_filters//4, kernel_size=kernel_size, padding=1)
          self.conv4 = nn.ConvTranspose2d(n_filters//4, output_channels, kernel_size=kernel_size+1)

      def forward(self, x):
          B, _ = x.shape
          y = self.fc1(x)
          y = rearrange(y, 'b (c h w) -> b c h w', b=B, h=self.init_size, w=self.init_size)
          y = nn.ReLU()(self.conv1(y))
          y = nn.ReLU()(self.conv2(y))
          y = nn.ReLU()(self.conv3(y))
          y = nn.Sigmoid()(self.conv4(y))
          return y
  \<close>
  \<^verbatim>\<open>rearrange(y, 'b (c h w) -> b c h w', b, h, w)\<close> splits the second dimension of a tensor of
  rank 2; einops rejects an input whose second dimension is not a multiple of \<open>h * w\<close>.
\<close>

definition rearrange_unflatten :: "'a tensor \<Rightarrow> nat \<Rightarrow> nat \<Rightarrow> nat \<Rightarrow> error + 'a tensor" where
  "rearrange_unflatten y b h w =
     (case shape y of
        [b', n] \<Rightarrow>
          if b' \<noteq> b \<or> h * w = 0 \<or> n mod (h * w) \<noteq> 0 then Inl EinopsError
          else Inr (y\<lparr>shape := [b, n div (h * w), h, w]\<rparr>)
      | _ \<Rightarrow> Inl EinopsError)"

record Decoder =
  init_size :: nat
  fc1 :: Linear
  conv1 :: ConvTranspose2d
  conv2 :: ConvTranspose2d
  conv3 :: ConvTranspose2d
  conv4 :: ConvTranspose2d

definition Decoder_init ::
  "initializer \<Rightarrow> nat \<Rightarrow> nat \<Rightarrow> nat \<Rightarrow> nat \<Rightarrow> nat \<Rightarrow> error + Decoder" where
  "Decoder_init init kernel_size n_filters feature_dim output_size output_channels =
     (let isz = output_size div 2\<^sup>2 in
      ebind (nn_Linear init (int feature_dim) (int (isz\<^sup>2 * n_filters)) True) (\<lambda>l.
      ebind (nn_ConvTranspose2d init n_filters (n_filters div 2) kernel_size 2 1) (\<lambda>c1.
      ebind (nn_ConvTranspose2d init (n_filters div 2) (n_filters div 4) kernel_size 2 1) (\<lambda>c2.
      ebind (nn_ConvTranspose2d init (n_filters div 4) (n_filters div 4) kernel_size 1 1) (\<lambda>c3.
      ebind (nn_ConvTranspose2d init (n_filters div 4) output_channels (kernel_size + 1) 1 0) (\<lambda>c4.
      Inr \<lparr>init_size = isz, fc1 = l, conv1 = c1, conv2 = c2, conv3 = c3, conv4 = c4\<rparr>))))))"

definition Decoder_forward :: "arithmetic \<Rightarrow> Decoder \<Rightarrow> real tensor \<Rightarrow> error + real tensor" where
  "Decoder_forward ar self x =
     (case shape x of
        [B, _] \<Rightarrow>
          ebind (Linear_forward (fc1 self) x) (\<lambda>y.
          ebind (rearrange_unflatten y B (init_size self) (init_size self)) (\<lambda>y0.
          ebind (ConvTranspose2d_forward (conv1 self) y0) (\<lambda>y1.
          ebind (ConvTranspose2d_forward (conv2 self) (tmap relu y1)) (\<lambda>y2.
          ebind (ConvTranspose2d_forward (conv3 self) (tmap relu y2)) (\<lambda>y3.
          ebind (ConvTranspose2d_forward (conv4 self) (tmap relu y3)) (\<lambda>y4.
          Inr (tmap (nn_Sigmoid ar) y4)))))))
      | _ \<Rightarrow> Inl ValueError)"

text \<open>
  An encoder and a decoder whose parameters have the shapes the constructors give them,
  whatever their values.
\<close>

definition Conv2d_ok :: "Conv2d \<Rightarrow> nat \<Rightarrow> nat \<Rightarrow> nat \<Rightarrow> nat \<Rightarrow> bool" where
  "Conv2d_ok l c_in c_out k s =
     (shape (conv_weight l) = [c_out, c_in, k, k] \<and> shape (conv_bias l) = [c_out] \<and> stride l = s)"

definition ConvTranspose2d_ok :: "ConvTranspose2d \<Rightarrow> nat \<Rightarrow> nat \<Rightarrow> nat \<Rightarrow> nat \<Rightarrow> nat \<Rightarrow> bool" where
  "ConvTranspose2d_ok l c_in c_out k s p =
     (shape (convT_weight l) = [c_in, c_out, k, k] \<and> shape (convT_bias l) = [c_out] \<and>
      convT_stride l = s \<and> convT_padding l = p)"

definition Encoder_ok :: "Encoder \<Rightarrow> nat \<Rightarrow> nat \<Rightarrow> nat \<Rightarrow> nat \<Rightarrow> bool" where
  "Encoder_ok e n_features kernel_size n_filters feature_dim =
     (Conv2d_ok (Encoder.conv1 e) n_features n_filters kernel_size 2 \<and>
      Conv2d_ok (Encoder.conv2 e) n_filters (n_filters * 2) kernel_size 2 \<and>
      Conv2d_ok (Encoder.conv3 e) (n_filters * 2) (n_filters * 4) kernel_size 2 \<and>
      Linear_ok (Encoder.fc1 e) 2304 feature_dim)"

definition Decoder_ok :: "Decoder \<Rightarrow> nat \<Rightarrow> nat \<Rightarrow> nat \<Rightarrow> nat \<Rightarrow> nat \<Rightarrow> bool" where
  "Decoder_ok d kernel_size n_filters feature_dim output_size output_channels =
     (init_size d = output_size div 2\<^sup>2 \<and>
      Linear_ok (fc1 d) feature_dim ((output_size div 2\<^sup>2)\<^sup>2 * n_filters) \<and>
      ConvTranspose2d_ok (conv1 d) n_filters (n_filters div 2) kernel_size 2 1 \<and>
      ConvTranspose2d_ok (conv2 d) (n_filters div 2) (n_filters div 4) kernel_size 2 1 \<and>
      ConvTranspose2d_ok (conv3 d) (n_filters div 4) (n_filters div 4) kernel_size 1 1 \<and>
      ConvTranspose2d_ok (conv4 d) (n_filters div 4) output_channels (kernel_size + 1) 1 0)"

subsection \<open>An example encoder and decoder\<close>

definition example_encoder :: Encoder where
  "example_encoder =
     \<lparr>Encoder.conv1 = \<lparr>conv_weight = zeros [64, 1, 3, 3], conv_bias = zeros [64], stride = 2\<rparr>,
      Encoder.conv2 = \<lparr>conv_weight = zeros [128, 64, 3, 3], conv_bias = zeros [128], stride = 2\<rparr>,
      Encoder.conv3 = \<lparr>conv_weight = zeros [256, 128, 3, 3], conv_bias = zeros [256], stride = 2\<rparr>,
      Encoder.fc1 = \<lparr>in_features = 2304, out_features = 256, weight = zeros [256, 2304],
             bias = Some (zeros [256])\<rparr>\<rparr>"

definition example_decoder :: Decoder where
  "example_decoder =
     \<lparr>init_size = 8,
      fc1 = \<lparr>in_features = 256, out_features = 16384, weight = zeros [16384, 256],
             bias = Some (zeros [16384])\<rparr>,
      conv1 = \<lparr>convT_weight = zeros [256, 128, 3, 3], convT_bias = zeros [128],
               convT_stride = 2, convT_padding = 1\<rparr>,
      conv2 = \<lparr>convT_weight = zeros [128, 64, 3, 3], convT_bias = zeros [64],
               convT_stride = 2, convT_padding = 1\<rparr>,
      conv3 = \<lparr>convT_weight = zeros [64, 64, 3, 3], convT_bias = zeros [64],
               convT_stride = 1, convT_padding = 1\<rparr>,
      conv4 = \<lparr>convT_weight = zeros [64, 3, 4, 4], convT_bias = zeros [3],
               convT_stride = 1, convT_padding = 0\<rparr>\<rparr>"

text \<open>
  A decoder with the default sizes whose last layer has zero weights and the bias 100:
  whatever its input, the last activation is applied to 100 everywhere.
\<close>

definition saturated_decoder :: Decoder where
  "saturated_decoder =
     example_decoder
       \<lparr>conv4 := \<lparr>convT_weight = zeros [64, 3, 4, 4],
                  convT_bias = \<lparr>shape = [3], elems = [100, 100, 100]\<rparr>,
                  convT_stride = 1, convT_padding = 0\<rparr>\<rparr>"

section \<open>Collate functions\<close>

text \<open>
  A batch is a list of samples, each a pair of an image and a label.
  \<^verbatim>\<open>x, y = zip(*batch)\<close> separates the images from the labels; on an empty batch
  \<^verbatim>\<open>zip\<close> yields nothing and the unpacking raises ValueError.
\<close>

definition unzip_batch :: "('a \<times> 'b) list \<Rightarrow> error + ('a list \<times> 'b list)" where
  "unzip_batch batch = (if batch = [] then Inl ValueError else Inr (map fst batch, map snd batch))"

text \<open>
  \<^verbatim>\<open>torch.stack(ts, dim=0)\<close> needs a non-empty sequence of tensors of one shape and lays
  them one after the other along a new first dimension.
\<close>

definition torch_stack :: "'a tensor list \<Rightarrow> error + 'a tensor" where
  "torch_stack ts =
     (case ts of
        [] \<Rightarrow> Inl RuntimeError
      | t # _ \<Rightarrow>
          if \<forall>u\<in>set ts. shape u = shape t
          then Inr \<lparr>shape = length ts # shape t, elems = concat (map elems ts)\<rparr>
          else Inl RuntimeError)"

text \<open>\<^verbatim>\<open>reduce(x, "b c h w -> b 1 h w", 'mean')\<close>: the mean over the channels.\<close>

definition reduce_mean_channels :: "real tensor \<Rightarrow> error + real tensor" where
  "reduce_mean_channels x =
     (case shape x of
        [b, c, h, w] \<Rightarrow>
          Inr (tabulate [b, 1, h, w]
                 (\<lambda>idx. sum_upto c (\<lambda>ch. elem_at x [idx ! 0, ch, idx ! 2, idx ! 3]) / real c))
      | _ \<Rightarrow> Inl EinopsError)"

text \<open>
  \<^verbatim>\<open>
  def gray_collate_fn(batch):
      x, _ = zip(*batch)
      x = torch.stack(x, dim=0)
      xn = reduce(x,"b c h w -> b 1 h w", 'mean')
      return xn, x
  \<close>
\<close>

definition gray_collate_fn :: "(real tensor \<times> int) list \<Rightarrow> error + (real tensor \<times> real tensor)" where
  "gray_collate_fn batch =
     ebind (unzip_batch batch) (\<lambda>(xs, _).
     ebind (torch_stack xs) (\<lambda>x.
     ebind (reduce_mean_channels x) (\<lambda>xn.
     Inr (xn, x))))"

text \<open>
  \<^verbatim>\<open>rearrange(x, 'b c (p1 h) (p2 w) -> b (p1 p2) (c h w)', p1, p2)\<close> cuts every image into
  \<open>p1 * p2\<close> patches and flattens each patch; einops rejects an image whose height is not
  a multiple of \<open>p1\<close> or whose width is not a multiple of \<open>p2\<close>.
\<close>

definition rearrange_patches :: "'a tensor \<Rightarrow> int \<Rightarrow> int \<Rightarrow> error + 'a tensor" where
  "rearrange_patches x p1 p2 =
     (case shape x of
        [b, c, H, W] \<Rightarrow>
          if p1 \<le> 0 \<or> p2 \<le> 0 \<or> H mod nat p1 \<noteq> 0 \<or> W mod nat p2 \<noteq> 0 then Inl EinopsError
          else (let h = H div nat p1; w = W div nat p2 in
                Inr (tabulate [b, nat p1 * nat p2, c * h * w]
                  (\<lambda>idx. elem_at x [idx ! 0, idx ! 2 div (h * w),
                                     (idx ! 1 div nat p2) * h + (idx ! 2 mod (h * w)) div w,
                                     (idx ! 1 mod nat p2) * w + idx ! 2 mod w])))
      | _ \<Rightarrow> Inl EinopsError)"

text \<open>
  \<^verbatim>\<open>torch.LongTensor(y)\<close> for a tuple of integers: a tensor of rank 1 of 64-bit integers.
  The library raises (\<^verbatim>\<open>RuntimeError: Overflow when unpacking long\<close>) for an integer
  outside their range.
\<close>

definition int64 :: "int \<Rightarrow> bool" where
  "int64 v = (- 9223372036854775808 \<le> v \<and> v < 9223372036854775808)"

definition torch_LongTensor :: "int list \<Rightarrow> error + int tensor" where
  "torch_LongTensor ys =
     (if list_all int64 ys then Inr \<lparr>shape = [length ys], elems = ys\<rparr> else Inl RuntimeError)"

text \<open>
  \<^verbatim>\<open>
  class LitCifar10(LightningDataModule):
      def __init__(self, batch_size=32, num_workers=32, patch_num=4, **kwargs):
          super().__init__()
          self.batch_size = batch_size
          self.patch_num = patch_num
          self.num_workers = num_workers

      def collate_fn(self, batch):
          x, y = zip(*batch)
          x = torch.stack(x, dim=0)
          y = torch.LongTensor(y)
          x = rearrange(x, 'b c (p1 h) (p2 w) -> b (p1 p2) (c h w)', p1=self.patch_num, p2=self.patch_num)
          return x, y
  \<close>
\<close>

record LitCifar10 =
  batch_size :: int
  patch_num :: int
  num_workers :: int

definition LitCifar10_init :: "int \<Rightarrow> int \<Rightarrow> int \<Rightarrow> LitCifar10" where
  "LitCifar10_init bs nw pn = \<lparr>batch_size = bs, patch_num = pn, num_workers = nw\<rparr>"

definition collate_fn :: "LitCifar10 \<Rightarrow> (real tensor \<times> int) list \<Rightarrow> error + (real tensor \<times> int tensor)" where
  "collate_fn self batch =
     ebind (unzip_batch batch) (\<lambda>(xs, ys).
     ebind (torch_stack xs) (\<lambda>x.
     ebind (torch_LongTensor ys) (\<lambda>y.
     ebind (rearrange_patches x (patch_num self) (patch_num self)) (\<lambda>x'.
     Inr (x', y)))))"

text \<open>
  A batch of images of one shape \<open>(c, h, w)\<close>, each holding as many entries as its shape
  says; and a batch whose labels are 64-bit integers, as class indices are.
\<close>

definition batch_ok :: "(real tensor \<times> int) list \<Rightarrow> nat \<Rightarrow> nat \<Rightarrow> nat \<Rightarrow> bool" where
  "batch_ok batch c h w =
     (batch \<noteq> [] \<and> 0 < c \<and> list_all (\<lambda>s. shape (fst s) = [c, h, w] \<and> wf_tensor (fst s)) batch)"

definition labels_ok :: "(real tensor \<times> int) list \<Rightarrow> bool" where
  "labels_ok batch = list_all (\<lambda>s. int64 (snd s)) batch"

subsection \<open>An example batch\<close>

definition example_image :: "real tensor" where
  "example_image = \<lparr>shape = [2, 2, 2], elems = [1, 2, 3, 4, 5, 6, 7, 8]\<rparr>"

definition example_batch :: "(real tensor \<times> int) list" where
  "example_batch = [(example_image, 3), (zeros [2, 2, 2], 7)]"

section \<open>Lightning modules\<close>

text \<open>
  What a step hook returns: a tensor, or a dictionary from strings to such values.
\<close>

datatype py_value = PyTensor "real tensor" | PyDict "(string \<times> py_value) list"

text \<open>
  The loss criteria are the library's. \<^verbatim>\<open>nn.MSELoss()\<close> is the mean of the squared
  differences of two tensors; tensors of unequal shapes are broadcast against each other
  as for \<^verbatim>\<open>+\<close> (with a warning), and shapes that cannot be broadcast raise.
  \<^verbatim>\<open>nn.CrossEntropyLoss()\<close> takes scores of shape \<open>(B, K)\<close> and \<open>B\<close> class indices below
  \<open>K\<close> (it raises ValueError for another number of indices and IndexError for an index
  that is no class), and is the mean over the samples of \<open>ln (\<Sum>j. exp s\<^sub>j) - s\<^sub>t\<close> for the
  scores \<open>s\<close> and the index \<open>t\<close> of a sample; samples with the index \<open>-100\<close> are left out. Both
  return a
  tensor of rank 0. (The mean of no entries is not a number in the library; exact reals
  have no such value, and the statements about losses are for tensors with entries.)
\<close>

definition scalar_tensor :: "real \<Rightarrow> real tensor" where
  "scalar_tensor v = \<lparr>shape = [], elems = [v]\<rparr>"

definition nn_MSELoss :: "real tensor \<Rightarrow> real tensor \<Rightarrow> error + real tensor" where
  "nn_MSELoss a b =
     (case broadcast_shapes (shape a) (shape b) of
        None \<Rightarrow> Inl RuntimeError
      | Some sh \<Rightarrow>
          Inr (scalar_tensor
            (sum_list (map (\<lambda>k. (elem_at a (bcast_index (shape a) (unravel sh k))
                                 - elem_at b (bcast_index (shape b) (unravel sh k)))\<^sup>2)
                        [0..<prod_list sh])
             / real (prod_list sh))))"

definition nn_CrossEntropyLoss :: "real tensor \<Rightarrow> int tensor \<Rightarrow> error + real tensor" where
  "nn_CrossEntropyLoss y_hat y =
     (case shape y_hat of
        [B, K] \<Rightarrow>
          if length (shape y) \<noteq> 1 \<or> length (elems y) \<noteq> prod_list (shape y) then Inl RuntimeError
          else if shape y \<noteq> [B] then Inl ValueError
          else if \<exists>t\<in>set (elems y). t \<noteq> - 100 \<and> (t < 0 \<or> int K \<le> t) then Inl IndexError
          else (let kept = filter (\<lambda>b. elems y ! b \<noteq> - 100) [0..<B] in
                Inr (scalar_tensor
                  (sum_list (map (\<lambda>b. ln (sum_upto K (\<lambda>j. exp (elem_at y_hat [b, j])))
                                      - elem_at y_hat [b, nat (elems y ! b)]) kept)
                   / real (length kept))))
      | _ \<Rightarrow> Inl RuntimeError)"

text \<open>
  The optimizer and the scheduler are objects of the library; the model keeps what they
  are built from. \<^verbatim>\<open>Adam(params, lr)\<close> takes the library's defaults for its other
  arguments (\<open>betas = (0.9, 0.999)\<close>, \<open>eps = 1e-8\<close>, \<open>weight_decay = 0\<close>) and raises ValueError
  for a negative learning rate and for an empty list of parameters.
  \<^verbatim>\<open>CosineAnnealingLR(optimizer, T_max)\<close> takes \<open>eta_min = 0\<close>.
\<close>

record Adam =
  params :: "real tensor list"
  adam_lr :: real
  betas :: "real \<times> real"
  adam_eps :: real
  weight_decay :: real

definition torch_Adam :: "real tensor list \<Rightarrow> real \<Rightarrow> error + Adam" where
  "torch_Adam ps l =
     (if l < 0 then Inl ValueError
      else if ps = [] then Inl ValueError
      else Inr \<lparr>params = ps, adam_lr = l, betas = (9 / 10, 999 / 1000), adam_eps = 1 / 100000000,
                weight_decay = 0\<rparr>)"

record CosineAnnealingLR =
  optimizer :: Adam
  T_max :: int
  eta_min :: real

definition torch_CosineAnnealingLR :: "Adam \<Rightarrow> int \<Rightarrow> CosineAnnealingLR" where
  "torch_CosineAnnealingLR opt t = \<lparr>optimizer = opt, T_max = t, eta_min = 0\<rparr>"

text \<open>\<^verbatim>\<open>module.parameters()\<close>: the parameter tensors of a module, in the order of registration.\<close>

definition Linear_parameters :: "Linear \<Rightarrow> real tensor list" where
  "Linear_parameters l = weight l # (case bias l of None \<Rightarrow> [] | Some b \<Rightarrow> [b])"

definition Conv2d_parameters :: "Conv2d \<Rightarrow> real tensor list" where
  "Conv2d_parameters l = [conv_weight l, conv_bias l]"

definition ConvTranspose2d_parameters :: "ConvTranspose2d \<Rightarrow> real tensor list" where
  "ConvTranspose2d_parameters l = [convT_weight l, convT_bias l]"

definition Encoder_parameters :: "Encoder \<Rightarrow> real tensor list" where
  "Encoder_parameters e =
     Conv2d_parameters (Encoder.conv1 e) @ Conv2d_parameters (Encoder.conv2 e) @
     Conv2d_parameters (Encoder.conv3 e) @ Linear_parameters (Encoder.fc1 e)"

definition Decoder_parameters :: "Decoder \<Rightarrow> real tensor list" where
  "Decoder_parameters d =
     Linear_parameters (Decoder.fc1 d) @ ConvTranspose2d_parameters (Decoder.conv1 d) @
     ConvTranspose2d_parameters (Decoder.conv2 d) @ ConvTranspose2d_parameters (Decoder.conv3 d) @
     ConvTranspose2d_parameters (conv4 d)"

definition Attention_parameters :: "Attention \<Rightarrow> real tensor list" where
  "Attention_parameters a = Linear_parameters (qkv a) @ Linear_parameters (proj a)"

definition Block_parameters :: "Block \<Rightarrow> real tensor list" where
  "Block_parameters b =
     [ln_weight (norm1 b), ln_bias (norm1 b)] @ Attention_parameters (attn b) @
     [ln_weight (norm2 b), ln_bias (norm2 b)] @
     Linear_parameters (Mlp.fc1 (mlp b)) @ Linear_parameters (Mlp.fc2 (mlp b))"

definition Transformer_parameters :: "Transformer \<Rightarrow> real tensor list" where
  "Transformer_parameters t = concat (map Block_parameters (blocks t))"

definition SimpleMLP_parameters :: "SimpleMLP \<Rightarrow> real tensor list" where
  "SimpleMLP_parameters s =
     Linear_parameters (SimpleMLP.fc1 s) @ Linear_parameters (SimpleMLP.fc2 s) @
     Linear_parameters (fc3 s)"

definition TensorMLP_parameters :: "TensorMLP \<Rightarrow> real tensor list" where
  "TensorMLP_parameters t = [w1 t, b1 t, w2 t, b2 t, w3 t, b3 t]"

text \<open>
  \<^verbatim>\<open>self.save_hyperparameters()\<close> stores the arguments of \<^verbatim>\<open>__init__\<close> in
  \<^verbatim>\<open>self.hparams\<close>. All three modules have \<open>lr\<close> and \<open>max_epochs\<close>; each adds its own.
\<close>

record hparams =
  lr :: real
  max_epochs :: int

subsection \<open>The colorization module\<close>

text \<open>
  \<^verbatim>\<open>
  class LitColorizeCIFAR10Model(LightningModule):
      def __init__(self, feature_dim=256, lr=0.001, batch_size=64,
                   num_workers=4, max_epochs=30, **kwargs):
          super().__init__()
          self.save_hyperparameters()
          self.encoder = Encoder(feature_dim=feature_dim)
          self.decoder = Decoder(feature_dim=feature_dim)
          self.loss = nn.MSELoss()

      def forward(self, x):
          h = self.encoder(x)
          x_tilde = self.decoder(h)
          return x_tilde

      def training_step(self, batch, batch_idx):
          x_in, x = batch
          x_tilde = self.forward(x_in)
          loss = self.loss(x_tilde, x)
          return {"loss": loss}

      def test_step(self, batch, batch_idx):
          x_in, x = batch
          x_tilde = self.forward(x_in)
          loss = self.loss(x_tilde, x)
          return {"x_in" : x_in, "x": x, "x_tilde" : x_tilde, "test_loss" : loss,}

      def validation_step(self, batch, batch_idx):
         return self.test_step(batch, batch_idx)

      def configure_optimizers(self):
          optimizer = Adam(self.parameters(), lr=self.hparams.lr)
          scheduler = CosineAnnealingLR(optimizer, T_max=self.hparams.max_epochs)
          return [optimizer], [scheduler],
  \<close>
\<close>

record colorize_hparams = hparams +
  feature_dim :: nat
  hp_batch_size :: int
  hp_num_workers :: int

record LitColorizeCIFAR10Model =
  hparams :: colorize_hparams
  encoder :: Encoder
  decoder :: Decoder
  loss :: "real tensor \<Rightarrow> real tensor \<Rightarrow> error + real tensor"

definition LitColorizeCIFAR10Model_init ::
  "initializer \<Rightarrow> nat \<Rightarrow> real \<Rightarrow> int \<Rightarrow> int \<Rightarrow> int \<Rightarrow> error + LitColorizeCIFAR10Model" where
  "LitColorizeCIFAR10Model_init init fd l bs nw me =
     ebind (Encoder_init init 1 3 64 fd) (\<lambda>e.
     ebind (Decoder_init init 3 256 fd 32 3) (\<lambda>d.
     Inr \<lparr>hparams = \<lparr>lr = l, max_epochs = me, feature_dim = fd, hp_batch_size = bs,
                      hp_num_workers = nw\<rparr>,
          encoder = e, decoder = d, loss = nn_MSELoss\<rparr>))"

definition LitColorizeCIFAR10Model_forward ::
  "arithmetic \<Rightarrow> LitColorizeCIFAR10Model \<Rightarrow> real tensor \<Rightarrow> error + real tensor" where
  "LitColorizeCIFAR10Model_forward ar self x =
     ebind (Encoder_forward (encoder self) x) (\<lambda>h. Decoder_forward ar (decoder self) h)"


definition LitColorizeCIFAR10Model_test_step ::
  "arithmetic \<Rightarrow> LitColorizeCIFAR10Model \<Rightarrow> real tensor \<times> real tensor \<Rightarrow> int \<Rightarrow> error + py_value" where
  "LitColorizeCIFAR10Model_test_step ar self batch batch_idx =
     (case batch of (x_in, x) \<Rightarrow>
        ebind (LitColorizeCIFAR10Model_forward ar self x_in) (\<lambda>x_tilde.
        ebind (loss self x_tilde x) (\<lambda>l.
        Inr (PyDict [(''x_in'', PyTensor x_in), (''x'', PyTensor x), (''x_tilde'', PyTensor x_tilde),
                     (''test_loss'', PyTensor l)]))))"

definition LitColorizeCIFAR10Model_validation_step ::
  "arithmetic \<Rightarrow> LitColorizeCIFAR10Model \<Rightarrow> real tensor \<times> real tensor \<Rightarrow> int \<Rightarrow> error + py_value" where
  "LitColorizeCIFAR10Model_validation_step ar self batch batch_idx =
     LitColorizeCIFAR10Model_test_step ar self batch batch_idx"

definition LitColorizeCIFAR10Model_parameters :: "LitColorizeCIFAR10Model \<Rightarrow> real tensor list" where
  "LitColorizeCIFAR10Model_parameters self =
     Encoder_parameters (encoder self) @ Decoder_parameters (decoder self)"

definition LitColorizeCIFAR10Model_configure_optimizers ::
  "LitColorizeCIFAR10Model \<Rightarrow> error + (Adam list \<times> CosineAnnealingLR list)" where
  "LitColorizeCIFAR10Model_configure_optimizers self =
     ebind (torch_Adam (LitColorizeCIFAR10Model_parameters self) (lr (hparams self))) (\<lambda>opt.
     let scheduler = torch_CosineAnnealingLR opt (max_epochs (hparams self))
     in Inr ([opt], [scheduler]))"

subsection \<open>The transformer classifier\<close>

text \<open>
  \<^verbatim>\<open>
  class LitTransformer(LightningModule):
      def __init__(self, num_classes=10, lr=0.001, max_epochs=30, depth=12, embed_dim=64,
                   head=4, patch_dim=192, seqlen=16, **kwargs):
          super().__init__()
          self.save_hyperparameters()
          self.encoder = Transformer(dim=embed_dim, num_heads=head, num_blocks=depth, mlp_ratio=4.,
                                     qkv_bias=False, act_layer=nn.GELU, norm_layer=nn.LayerNorm)
          self.embed = torch.nn.Linear(patch_dim, embed_dim)
          self.fc = nn.Linear(seqlen * embed_dim, num_classes)
          self.loss = torch.nn.CrossEntropyLoss()
          self.reset_parameters()

      def reset_parameters(self):
          init_weights_vit_timm(self)

      def forward(self, x):
          x = self.embed(x)
          x = self.encoder(x)
          x = x.flatten(start_dim=1)
          x = self.fc(x)
          return x

      def configure_optimizers(self):
          optimizer = Adam(self.parameters(), lr=self.hparams.lr)
          scheduler = CosineAnnealingLR(optimizer, T_max=self.hparams.max_epochs)
          return [optimizer], [scheduler]

      def training_step(self, batch, batch_idx):
          x, y = batch
          y_hat = self(x)
          loss = self.loss(y_hat, y)
          return loss

      def test_step(self, batch, batch_idx):
          x, y = batch
          y_hat = self(x)
          loss = self.loss(y_hat, y)
          acc = accuracy(y_hat, y)
          return {"y_hat": y_hat, "test_loss": loss, "test_acc": acc}

      def validation_step(self, batch, batch_idx):
          return self.test_step(batch, batch_idx)
  \<close>
  \<^verbatim>\<open>init_weights_vit_timm(self)\<close> looks at the module it is given only: a
  \<^verbatim>\<open>LitTransformer\<close> is not an \<^verbatim>\<open>nn.Linear\<close> and has no \<^verbatim>\<open>init_weights\<close>, so
  \<^verbatim>\<open>reset_parameters\<close> changes nothing. Further keyword arguments are stored with the
  hyperparameters and read nowhere. \<^verbatim>\<open>accuracy\<close> is the metrics library's and a parameter
  of the model. \<^verbatim>\<open>x.flatten(start_dim=1)\<close> merges all dimensions but the first.
\<close>

definition torch_flatten1 :: "'a tensor \<Rightarrow> error + 'a tensor" where
  "torch_flatten1 x =
     (case shape x of
        d # d' # ds \<Rightarrow> Inr (x\<lparr>shape := [d, prod_list (d' # ds)]\<rparr>)
      | _ \<Rightarrow> Inl IndexError)"

record transformer_hparams = hparams +
  num_classes :: int
  depth :: int
  embed_dim :: int
  head :: int
  patch_dim :: int
  seqlen :: int

record LitTransformer =
  hparams :: transformer_hparams
  encoder :: Transformer
  embed :: Linear
  fc :: Linear
  loss :: "real tensor \<Rightarrow> int tensor \<Rightarrow> error + real tensor"

definition LitTransformer_init ::
  "initializer \<Rightarrow> (real \<Rightarrow> real) \<Rightarrow> int \<Rightarrow> real \<Rightarrow> int \<Rightarrow> int \<Rightarrow> int \<Rightarrow> int \<Rightarrow> int \<Rightarrow> int
     \<Rightarrow> error + LitTransformer" where
  "LitTransformer_init init gelu nc l me dp ed nh pd sl =
     ebind (Transformer_init init ed nh dp 4 False gelu) (\<lambda>enc.
     ebind (nn_Linear init pd ed True) (\<lambda>em.
     ebind (nn_Linear init (sl * ed) nc True) (\<lambda>f.
     Inr \<lparr>hparams = \<lparr>lr = l, max_epochs = me, num_classes = nc, depth = dp, embed_dim = ed,
                      head = nh, patch_dim = pd, seqlen = sl\<rparr>,
          encoder = enc, embed = em, fc = f, loss = nn_CrossEntropyLoss\<rparr>)))"

definition LitTransformer_forward :: "LitTransformer \<Rightarrow> real tensor \<Rightarrow> error + real tensor" where
  "LitTransformer_forward self x =
     ebind (Linear_forward (embed self) x) (\<lambda>x1.
     ebind (Transformer_forward (encoder self) x1) (\<lambda>x2.
     ebind (torch_flatten1 x2) (\<lambda>x3.
     Linear_forward (fc self) x3)))"


definition LitTransformer_test_step ::
  "(real tensor \<Rightarrow> int tensor \<Rightarrow> error + real tensor) \<Rightarrow> LitTransformer \<Rightarrow> real tensor \<times> int tensor
     \<Rightarrow> int \<Rightarrow> error + py_value" where
  "LitTransformer_test_step accuracy self batch batch_idx =
     (case batch of (x, y) \<Rightarrow>
        ebind (LitTransformer_forward self x) (\<lambda>y_hat.
        ebind (loss self y_hat y) (\<lambda>l.
        ebind (accuracy y_hat y) (\<lambda>acc.
        Inr (PyDict [(''y_hat'', PyTensor y_hat), (''test_loss'', PyTensor l),
                     (''test_acc'', PyTensor acc)])))))"

definition LitTransformer_validation_step ::
  "(real tensor \<Rightarrow> int tensor \<Rightarrow> error + real tensor) \<Rightarrow> LitTransformer \<Rightarrow> real tensor \<times> int tensor
     \<Rightarrow> int \<Rightarrow> error + py_value" where
  "LitTransformer_validation_step accuracy self batch batch_idx =
     LitTransformer_test_step accuracy self batch batch_idx"

definition LitTransformer_parameters :: "LitTransformer \<Rightarrow> real tensor list" where
  "LitTransformer_parameters self =
     Transformer_parameters (encoder self) @ Linear_parameters (embed self) @
     Linear_parameters (fc self)"

definition LitTransformer_configure_optimizers ::
  "LitTransformer \<Rightarrow> error + (Adam list \<times> CosineAnnealingLR list)" where
  "LitTransformer_configure_optimizers self =
     ebind (torch_Adam (LitTransformer_parameters self) (lr (hparams self))) (\<lambda>opt.
     let scheduler = torch_CosineAnnealingLR opt (max_epochs (hparams self))
     in Inr ([opt], [scheduler]))"

subsection \<open>The MLP classifier\<close>

text \<open>
  \<^verbatim>\<open>
  class LitCIFAR10Model(LightningModule):
      def __init__(self, num_classes=10, lr=0.001, batch_size=64,
                   num_workers=4, max_epochs=30,
                   model=SimpleMLP):
          super().__init__()
          self.save_hyperparameters()
          self.model = model(num_classes=num_classes)
          self.loss = nn.CrossEntropyLoss()

      def forward(self, x):
          return self.model(x)

      def training_step(self, batch, batch_idx):
          x, y = batch
          y_hat = self.forward(x)
          loss = self.loss(y_hat, y)
          return {"loss": loss}

      def test_step(self, batch, batch_idx):
          x, y = batch
          y_hat = self.forward(x)
          loss = self.loss(y_hat, y)
          acc = accuracy(y_hat, y) * 100.
          return {"y_hat": y_hat, "test_loss": loss, "test_acc": acc}

      def validation_step(self, batch, batch_idx):
         return self.test_step(batch, batch_idx)

      def configure_optimizers(self):
          optimizer = Adam(self.parameters(), lr=self.hparams.lr)
          scheduler = CosineAnnealingLR(optimizer, T_max=self.hparams.max_epochs)
          return [optimizer], [scheduler]
  \<close>
  \<open>model\<close> is one of the two MLP classes of the notebook.
\<close>

datatype model_class = SimpleMLP_class | TensorMLP_class

datatype mlp_model = SimpleMLP_model SimpleMLP | TensorMLP_model TensorMLP

definition model_init :: "initializer \<Rightarrow> model_class \<Rightarrow> int \<Rightarrow> error + mlp_model" where
  "model_init init cls nc =
     (case cls of
        SimpleMLP_class \<Rightarrow> ebind (SimpleMLP_init init (3 * 32 * 32) 512 nc) (\<lambda>s. Inr (SimpleMLP_model s))
      | TensorMLP_class \<Rightarrow> ebind (TensorMLP_init init (3 * 32 * 32) 512 nc) (\<lambda>t. Inr (TensorMLP_model t)))"

fun model_forward :: "(real \<Rightarrow> real) \<Rightarrow> mlp_model \<Rightarrow> real tensor \<Rightarrow> error + real tensor" where
  "model_forward gelu (SimpleMLP_model s) x = SimpleMLP_forward gelu s x"
| "model_forward gelu (TensorMLP_model t) x = TensorMLP_forward gelu t x"

fun model_parameters :: "mlp_model \<Rightarrow> real tensor list" where
  "model_parameters (SimpleMLP_model s) = SimpleMLP_parameters s"
| "model_parameters (TensorMLP_model t) = TensorMLP_parameters t"

fun model_class_name :: "mlp_model \<Rightarrow> string" where
  "model_class_name (SimpleMLP_model s) = ''SimpleMLP''"
| "model_class_name (TensorMLP_model t) = ''TensorMLP''"


record cifar10_hparams = hparams +
  num_classes :: int
  hp_batch_size :: int
  hp_num_workers :: int
  hp_model :: model_class

record LitCIFAR10Model =
  hparams :: cifar10_hparams
  model :: mlp_model
  loss :: "real tensor \<Rightarrow> int tensor \<Rightarrow> error + real tensor"

definition LitCIFAR10Model_init ::
  "initializer \<Rightarrow> int \<Rightarrow> real \<Rightarrow> int \<Rightarrow> int \<Rightarrow> int \<Rightarrow> model_class \<Rightarrow> error + LitCIFAR10Model" where
  "LitCIFAR10Model_init init nc l bs nw me cls =
     ebind (model_init init cls nc) (\<lambda>m.
     Inr \<lparr>hparams = \<lparr>lr = l, max_epochs = me, num_classes = nc, hp_batch_size = bs,
                      hp_num_workers = nw, hp_model = cls\<rparr>,
          model = m, loss = nn_CrossEntropyLoss\<rparr>)"

definition LitCIFAR10Model_forward ::
  "(real \<Rightarrow> real) \<Rightarrow> LitCIFAR10Model \<Rightarrow> real tensor \<Rightarrow> error + real tensor" where
  "LitCIFAR10Model_forward gelu self x = model_forward gelu (model self) x"


definition LitCIFAR10Model_test_step ::
  "(real \<Rightarrow> real) \<Rightarrow> (real tensor \<Rightarrow> int tensor \<Rightarrow> error + real tensor) \<Rightarrow> LitCIFAR10Model
     \<Rightarrow> real tensor \<times> int tensor \<Rightarrow> int \<Rightarrow> error + py_value" where
  "LitCIFAR10Model_test_step gelu accuracy self batch batch_idx =
     (case batch of (x, y) \<Rightarrow>
        ebind (LitCIFAR10Model_forward gelu self x) (\<lambda>y_hat.
        ebind (loss self y_hat y) (\<lambda>l.
        ebind (accuracy y_hat y) (\<lambda>acc.
        Inr (PyDict [(''y_hat'', PyTensor y_hat), (''test_loss'', PyTensor l),
                     (''test_acc'', PyTensor (tmap (\<lambda>v. v * 100) acc))])))))"

definition LitCIFAR10Model_validation_step ::
  "(real \<Rightarrow> real) \<Rightarrow> (real tensor \<Rightarrow> int tensor \<Rightarrow> error + real tensor) \<Rightarrow> LitCIFAR10Model
     \<Rightarrow> real tensor \<times> int tensor \<Rightarrow> int \<Rightarrow> error + py_value" where
  "LitCIFAR10Model_validation_step gelu accuracy self batch batch_idx =
     LitCIFAR10Model_test_step gelu accuracy self batch batch_idx"

definition LitCIFAR10Model_parameters :: "LitCIFAR10Model \<Rightarrow> real tensor list" where
  "LitCIFAR10Model_parameters self = model_parameters (model self)"

definition LitCIFAR10Model_configure_optimizers ::
  "LitCIFAR10Model \<Rightarrow> error + (Adam list \<times> CosineAnnealingLR list)" where
  "LitCIFAR10Model_configure_optimizers self =
     ebind (torch_Adam (LitCIFAR10Model_parameters self) (lr (hparams self))) (\<lambda>opt.
     let scheduler = torch_CosineAnnealingLR opt (max_epochs (hparams self))
     in Inr ([opt], [scheduler]))"

section \<open>The callbacks that log sample predictions\<close>

text \<open>
  The tracking service keeps the tables logged to it. A table has a key, column names
  and rows of cells; a cell is an image or a text. \<^verbatim>\<open>wandb_logger.log_table\<close> adds a table.

  \<^verbatim>\<open>wandb.Image(t)\<close> builds an image from a tensor, and raises for a tensor it cannot read
  as an image. It is the tracking library's; the model takes it as the parameter
  \<open>wandb_Image\<close>, from a tensor to an image or an error. \<open>chw_Image\<close> is one such function:
  it reads a tensor of shape \<open>(C, H, W)\<close> with one or three channels and keeps its entries.
\<close>

datatype 'i cell = Image 'i | Text string

record 'i wandb_table =
  key :: string
  columns :: "string list"
  data :: "'i cell list list"

type_synonym 'i wandb_logger = "'i wandb_table list"

definition log_table ::
  "'i wandb_logger \<Rightarrow> string \<Rightarrow> string list \<Rightarrow> 'i cell list list \<Rightarrow> 'i wandb_logger" where
  "log_table logger k cols rows = logger @ [\<lparr>key = k, columns = cols, data = rows\<rparr>]"

definition chw_Image :: "real tensor \<Rightarrow> error + real tensor" where
  "chw_Image t =
     (case shape t of
        [c, h, w] \<Rightarrow> if (c = 1 \<or> c = 3) \<and> 0 < h \<and> 0 < w then Inr t else Inl TypeError
      | _ \<Rightarrow> Inl TypeError)"

text \<open>
  \<^verbatim>\<open>outputs["name"]\<close> on what a step returned, \<^verbatim>\<open>xs[:n]\<close> on a sequence (a negative \<open>n\<close>
  counts from the end), \<^verbatim>\<open>xs[i]\<close> on a list (a negative \<open>i\<close> counts from the end), and the
  iteration over a tensor, which yields its slices along the first dimension.
\<close>

fun py_getitem :: "py_value \<Rightarrow> string \<Rightarrow> error + py_value" where
  "py_getitem (PyDict d) k = (case map_of d k of None \<Rightarrow> Inl KeyError | Some v \<Rightarrow> Inr v)"
| "py_getitem (PyTensor t) k = Inl IndexError"

fun as_tensor :: "py_value \<Rightarrow> error + real tensor" where
  "as_tensor (PyTensor t) = Inr t"
| "as_tensor (PyDict d) = Inl TypeError"

definition py_slice_to :: "'a list \<Rightarrow> int \<Rightarrow> 'a list" where
  "py_slice_to xs n = (if 0 \<le> n then take (nat n) xs else take (length xs - nat (- n)) xs)"

definition py_list_get :: "'a list \<Rightarrow> int \<Rightarrow> error + 'a" where
  "py_list_get xs i =
     (let n = int (length xs); j = (if i < 0 then n + i else i)
      in if 0 \<le> j \<and> j < n then Inr (xs ! nat j) else Inl IndexError)"

definition tensor_rows :: "'a tensor \<Rightarrow> error + 'a tensor list" where
  "tensor_rows t = (case shape t of [] \<Rightarrow> Inl TypeError | _ \<Rightarrow> torch_unbind0 t)"

text \<open>\<^verbatim>\<open>t[k]\<close>, the slice of \<open>t\<close> at position \<open>k\<close> of its first dimension.\<close>

definition select0 :: "'a tensor \<Rightarrow> nat \<Rightarrow> 'a tensor" where
  "select0 t k = tabulate (tl (shape t)) (\<lambda>idx. elem_at t (k # idx))"

text \<open>The entries of a tensor of rank 1 of integers, as Python integers.\<close>

definition int_rows :: "int tensor \<Rightarrow> error + int list" where
  "int_rows t = (case shape t of [B] \<Rightarrow> Inr (take B (elems t)) | _ \<Rightarrow> Inl TypeError)"

fun emap :: "('a \<Rightarrow> error + 'b) \<Rightarrow> 'a list \<Rightarrow> error + 'b list" where
  "emap f [] = Inr []"
| "emap f (x # xs) = ebind (f x) (\<lambda>y. ebind (emap f xs) (\<lambda>ys. Inr (y # ys)))"

text \<open>
  \<^verbatim>\<open>torch.argmax(t, dim=1)\<close> for scores of shape \<open>(B, K)\<close>, \<open>K\<close> positive: per row, the
  position of the largest score (of the first one, when several are equal).
\<close>

definition argmax_list :: "real list \<Rightarrow> nat" where
  "argmax_list xs = length (takeWhile (\<lambda>v. v < foldr max xs (hd xs)) xs)"

definition torch_argmax1 :: "real tensor \<Rightarrow> error + int tensor" where
  "torch_argmax1 t =
     (case shape t of
        [B, K] \<Rightarrow>
          if K = 0 then Inl IndexError
          else Inr \<lparr>shape = [B],
                    elems = map (\<lambda>b. int (argmax_list (map (\<lambda>j. elem_at t [b, j]) [0..<K]))) [0..<B]\<rparr>
      | _ \<Rightarrow> Inl IndexError)"

text \<open>
  The callback of the colorization notebook:
  \<^verbatim>\<open>
  class WandbCallback(Callback):
      def on_validation_batch_end(self, trainer, pl_module, outputs, batch, batch_idx, dataloader_idx):
          if batch_idx == 0:
              x, c = batch
              n = pl_module.hparams.batch_size // 4
              outputs = outputs["x_tilde"]
              columns = ['gt color', 'gray', 'colorized']
              data = [[wandb.Image(c_i), wandb.Image(x_i), wandb.Image(x_tilde_i)]
                      for c_i, x_i, x_tilde_i in list(zip(c[:n], x[:n], outputs[:n]))]
              wandb_logger.log_table(key="cifar10-colorize-ae", columns=columns, data=data)
  \<close>
  The logger is a global of the notebook; the model passes it in and returns it.
\<close>

definition colorize_row ::
  "(real tensor \<Rightarrow> error + 'i) \<Rightarrow> real tensor \<times> real tensor \<times> real tensor \<Rightarrow> error + 'i cell list" where
  "colorize_row wandb_Image r =
     (case r of (c_i, x_i, x_tilde_i) \<Rightarrow>
        ebind (wandb_Image c_i) (\<lambda>ic.
        ebind (wandb_Image x_i) (\<lambda>ix.
        ebind (wandb_Image x_tilde_i) (\<lambda>io.
        Inr [Image ic, Image ix, Image io]))))"

definition colorize_on_validation_batch_end ::
  "(real tensor \<Rightarrow> error + 'i) \<Rightarrow> 'i wandb_logger \<Rightarrow> LitColorizeCIFAR10Model \<Rightarrow> py_value
     \<Rightarrow> real tensor \<times> real tensor \<Rightarrow> int \<Rightarrow> int \<Rightarrow> error + 'i wandb_logger" where
  "colorize_on_validation_batch_end wandb_Image logger pl_module outputs batch batch_idx dataloader_idx =
     (if batch_idx = 0 then
        (case batch of (x, c) \<Rightarrow>
           let n = colorize_hparams.hp_batch_size (LitColorizeCIFAR10Model.hparams pl_module) div 4 in
           ebind (py_getitem outputs ''x_tilde'') (\<lambda>out.
           ebind (tensor_rows c) (\<lambda>cs.
           ebind (tensor_rows x) (\<lambda>xs.
           ebind (as_tensor out) (\<lambda>out_t.
           ebind (tensor_rows out_t) (\<lambda>os.
           ebind (emap (colorize_row wandb_Image)
                    (zip (py_slice_to cs n) (zip (py_slice_to xs n) (py_slice_to os n)))) (\<lambda>rows.
           Inr (log_table logger ''cifar10-colorize-ae'' [''gt color'', ''gray'', ''colorized'']
                  rows))))))))
      else Inr logger)"

text \<open>
  The callback of the MLP part of the transformer notebook:
  \<^verbatim>\<open>
  class WandbCallback(Callback):
      def on_validation_batch_end(self, trainer, pl_module, outputs, batch, batch_idx, dataloader_idx):
          if batch_idx == 0:
              label_human = ["airplane", "automobile", "bird", "cat",
                             "deer", "dog", "frog", "horse", "ship", "truck"]
              n = 10
              x, y = batch
              outputs = outputs["y_hat"]
              outputs = torch.argmax(outputs, dim=1)
              columns = ['image', 'ground truth', 'prediction']
              data = [[wandb.Image(x_i), label_human[y_i], label_human[y_pred]] for x_i, y_i, y_pred in list(
                  zip(x[:n], y[:n], outputs[:n]))]
              wandb_logger.log_table(
                  key=pl_module.model.__class__.__name__,
                  columns=columns,
                  data=data)
  \<close>
\<close>

definition label_human :: "string list" where
  "label_human = [''airplane'', ''automobile'', ''bird'', ''cat'',
                  ''deer'', ''dog'', ''frog'', ''horse'', ''ship'', ''truck'']"

definition prediction_row ::
  "(real tensor \<Rightarrow> error + 'i) \<Rightarrow> real tensor \<times> int \<times> int \<Rightarrow> error + 'i cell list" where
  "prediction_row wandb_Image r =
     (case r of (x_i, y_i, y_pred) \<Rightarrow>
        ebind (wandb_Image x_i) (\<lambda>ix.
        ebind (py_list_get label_human y_i) (\<lambda>gt.
        ebind (py_list_get label_human y_pred) (\<lambda>pr.
        Inr [Image ix, Text gt, Text pr]))))"

definition mlp_on_validation_batch_end ::
  "(real tensor \<Rightarrow> error + 'i) \<Rightarrow> 'i wandb_logger \<Rightarrow> LitCIFAR10Model \<Rightarrow> py_value
     \<Rightarrow> real tensor \<times> int tensor \<Rightarrow> int \<Rightarrow> int \<Rightarrow> error + 'i wandb_logger" where
  "mlp_on_validation_batch_end wandb_Image logger pl_module outputs batch batch_idx dataloader_idx =
     (if batch_idx = 0 then
        (case batch of (x, y) \<Rightarrow>
           ebind (py_getitem outputs ''y_hat'') (\<lambda>out.
           ebind (as_tensor out) (\<lambda>y_hat.
           ebind (torch_argmax1 y_hat) (\<lambda>preds.
           ebind (tensor_rows x) (\<lambda>xs.
           ebind (int_rows y) (\<lambda>ys.
           ebind (int_rows preds) (\<lambda>ps.
           ebind (emap (prediction_row wandb_Image)
                    (zip (py_slice_to xs 10) (zip (py_slice_to ys 10) (py_slice_to ps 10)))) (\<lambda>rows.
           Inr (log_table logger (model_class_name (model pl_module))
                  [''image'', ''ground truth'', ''prediction''] rows)))))))))
      else Inr logger)"

text \<open>
  The trainer calls the hook after every batch of a validation pass, with \<open>batch_idx\<close>
  counting from 0; each batch comes with what the validation step returned for it.
\<close>

fun validation_batches ::
  "('s \<Rightarrow> 'o \<Rightarrow> 'b \<Rightarrow> int \<Rightarrow> int \<Rightarrow> error + 's) \<Rightarrow> 's \<Rightarrow> ('o \<times> 'b) list \<Rightarrow> int \<Rightarrow> error + 's" where
  "validation_batches hook st [] batch_idx = Inr st"
| "validation_batches hook st ((outputs, batch) # rest) batch_idx =
     ebind (hook st outputs batch batch_idx 0) (\<lambda>st'.
     validation_batches hook st' rest (batch_idx + 1))"

subsection \<open>Example modules\<close>

definition example_lit_colorize :: LitColorizeCIFAR10Model where
  "example_lit_colorize =
     \<lparr>LitColorizeCIFAR10Model.hparams =
        \<lparr>lr = 1 / 1000, max_epochs = 30, feature_dim = 256,
         colorize_hparams.hp_batch_size = 64, colorize_hparams.hp_num_workers = 4\<rparr>,
      LitColorizeCIFAR10Model.encoder = example_encoder,
      LitColorizeCIFAR10Model.decoder = example_decoder,
      LitColorizeCIFAR10Model.loss = nn_MSELoss\<rparr>"

definition example_lit_transformer :: LitTransformer where
  "example_lit_transformer =
     \<lparr>LitTransformer.hparams =
        \<lparr>lr = 1 / 1000, max_epochs = 30, transformer_hparams.num_classes = 10, depth = 2,
         embed_dim = 4, head = 2, patch_dim = 3, seqlen = 2\<rparr>,
      LitTransformer.encoder = example_transformer,
      LitTransformer.embed =
        \<lparr>in_features = 3, out_features = 4, weight = zeros [4, 3], bias = Some (zeros [4])\<rparr>,
      LitTransformer.fc =
        \<lparr>in_features = 8, out_features = 10, weight = zeros [10, 8], bias = Some (zeros [10])\<rparr>,
      LitTransformer.loss = nn_CrossEntropyLoss\<rparr>"

definition example_cifar_mlp :: SimpleMLP where
  "example_cifar_mlp =
     \<lparr>SimpleMLP.fc1 = \<lparr>in_features = 3072, out_features = 512, weight = zeros [512, 3072],
                       bias = Some (zeros [512])\<rparr>,
      SimpleMLP.fc2 = \<lparr>in_features = 512, out_features = 512, weight = zeros [512, 512],
                       bias = Some (zeros [512])\<rparr>,
      fc3 = \<lparr>in_features = 512, out_features = 10, weight = zeros [10, 512],
             bias = Some (zeros [10])\<rparr>\<rparr>"

definition example_lit_mlp :: LitCIFAR10Model where
  "example_lit_mlp =
     \<lparr>hparams = \<lparr>lr = 1 / 1000, max_epochs = 30, num_classes = 10, hp_batch_size = 64,
                  hp_num_workers = 4, hp_model = SimpleMLP_class\<rparr>,
      model = SimpleMLP_model example_cifar_mlp, loss = nn_CrossEntropyLoss\<rparr>"

text \<open>The labels 0 and 1 of a batch of two samples.\<close>

definition example_labels :: "int tensor" where
  "example_labels = \<lparr>shape = [2], elems = [0, 1]\<rparr>"

subsection \<open>The training step as the specification words it\<close>


section \<open>Basic facts\<close>

lemma ebind_Inr [simp]: "ebind (Inr v) f = f v"
  by (simp add: ebind_def)

lemma ebind_Inl [simp]: "ebind (Inl e) f = Inl e"
  by (simp add: ebind_def)

subsection \<open>Indexing\<close>

lemma shape_tabulate [simp]: "shape (tabulate sh f) = sh"
  by (simp add: tabulate_def)

lemma wf_tabulate [simp]: "wf_tensor (tabulate sh f)"
  by (simp add: tabulate_def wf_tensor_def)

lemma valid_index_Nil [simp]: "valid_index [] idx \<longleftrightarrow> idx = []"
  by (simp add: valid_index_def)

lemma valid_index_Cons [simp]:
  "valid_index (d # ds) idx \<longleftrightarrow> (\<exists>i is. idx = i # is \<and> i < d \<and> valid_index ds is)"
  by (cases idx) (auto simp: valid_index_def)

lemma valid_index_length: "valid_index sh idx \<Longrightarrow> length idx = length sh"
  by (simp add: valid_index_def list_all2_lengthD)

lemma ravel_less: "valid_index sh idx \<Longrightarrow> ravel sh idx < prod_list sh"
proof (induction sh arbitrary: idx)
  case Nil
  then show ?case by simp
next
  case (Cons d ds)
  then obtain i "is" where idx: "idx = i # is" and i: "i < d" and v: "valid_index ds is"
    by auto
  have r: "ravel ds is < prod_list ds" using Cons.IH [OF v] .
  have "i * prod_list ds + ravel ds is < (i + 1) * prod_list ds"
    using r by simp
  also have "\<dots> \<le> d * prod_list ds"
    using i by (intro mult_le_mono1) simp
  finally show ?case by (simp add: idx)
qed

lemma unravel_ravel: "valid_index sh idx \<Longrightarrow> unravel sh (ravel sh idx) = idx"
proof (induction sh arbitrary: idx)
  case Nil
  then show ?case by simp
next
  case (Cons d ds)
  then obtain i "is" where idx: "idx = i # is" and i: "i < d" and v: "valid_index ds is"
    by auto
  have r: "ravel ds is < prod_list ds" using ravel_less [OF v] .
  show ?case using Cons.IH [OF v] r by (simp add: idx)
qed

lemma valid_unravel: "k < prod_list sh \<Longrightarrow> valid_index sh (unravel sh k)"
proof (induction sh arbitrary: k)
  case Nil
  then show ?case by simp
next
  case (Cons d ds)
  have pos: "0 < prod_list ds" using Cons.prems by (cases "prod_list ds = 0") auto
  have "k div prod_list ds < d"
    using Cons.prems pos by (simp add: less_mult_imp_div_less mult.commute)
  moreover have "valid_index ds (unravel ds (k mod prod_list ds))"
    using pos by (intro Cons.IH) simp
  ultimately show ?case by simp
qed

lemma ravel_unravel: "k < prod_list sh \<Longrightarrow> ravel sh (unravel sh k) = k"
proof (induction sh arbitrary: k)
  case Nil
  then show ?case by simp
next
  case (Cons d ds)
  have pos: "0 < prod_list ds" using Cons.prems by (cases "prod_list ds = 0") auto
  have "ravel ds (unravel ds (k mod prod_list ds)) = k mod prod_list ds"
    using pos by (intro Cons.IH) simp
  then show ?case by simp
qed

lemma elem_at_tabulate: "valid_index sh idx \<Longrightarrow> elem_at (tabulate sh f) idx = f idx"
  using ravel_less [of sh idx] unravel_ravel [of sh idx]
  by (simp add: elem_at_def tabulate_def)

lemma tabulate_cong:
  "(\<And>idx. valid_index sh idx \<Longrightarrow> f idx = g idx) \<Longrightarrow> tabulate sh f = tabulate sh g"
  by (simp add: tabulate_def valid_unravel)

lemma tabulate_elem_at: "wf_tensor t \<Longrightarrow> tabulate (shape t) (elem_at t) = t"
  by (cases t) (auto simp: tabulate_def elem_at_def wf_tensor_def ravel_unravel intro: nth_equalityI)

lemma sum_upto_cong: "(\<And>k. k < n \<Longrightarrow> f k = g k) \<Longrightarrow> sum_upto n f = sum_upto n g"
  unfolding sum_upto_def by (rule arg_cong [where f = sum_list]) simp

subsection \<open>The operations on tensors of known shape\<close>

lemma reshape_nonneg:
  "\<forall>d\<in>set dims. 0 \<le> d \<Longrightarrow> prod_list (map nat dims) = prod_list (shape t) \<Longrightarrow>
   torch_reshape t dims = Inr (t\<lparr>shape := map nat dims\<rparr>)"
proof -
  assume nn: "\<forall>d\<in>set dims. 0 \<le> d" and p: "prod_list (map nat dims) = prod_list (shape t)"
  have f: "filter (\<lambda>d. d = - 1) dims = []"
    using nn by (auto simp: filter_empty_conv)
  have g: "\<not> (\<exists>d\<in>set dims. d < - 1)" using nn by force
  show ?thesis unfolding torch_reshape_def using f g p by simp
qed

lemma permute_20314:
  assumes "shape t = [B, N, S, H, D]"
  shows "torch_permute t [2, 0, 3, 1, 4] =
         Inr (tabulate [S, B, H, N, D]
               (\<lambda>idx. elem_at t [idx ! 1, idx ! 3, idx ! 0, idx ! 2, idx ! 4]))"
  using assms by (simp add: torch_permute_def index_of_def eval_nat_numeral)

lemma transpose_last2_rank4:
  assumes "shape t = [B, H, N, D]"
  shows "torch_transpose t (- 2) (- 1) =
         Inr (tabulate [B, H, D, N] (\<lambda>idx. elem_at t [idx ! 0, idx ! 1, idx ! 3, idx ! 2]))"
  using assms by (simp add: torch_transpose_def norm_dim_def torch_permute_def index_of_def eval_nat_numeral)

lemma transpose_12_rank4:
  assumes "shape t = [B, H, N, D]"
  shows "torch_transpose t 1 2 =
         Inr (tabulate [B, N, H, D] (\<lambda>idx. elem_at t [idx ! 0, idx ! 2, idx ! 1, idx ! 3]))"
  using assms by (simp add: torch_transpose_def norm_dim_def torch_permute_def index_of_def eval_nat_numeral)

lemma matmul_rank4:
  assumes "shape a = [B, H, N, M]" "shape b = [B, H, M, P]"
  shows "torch_matmul a b =
         Inr (tabulate [B, H, N, P]
               (\<lambda>idx. sum_upto M (\<lambda>k. elem_at a [idx ! 0, idx ! 1, idx ! 2, k]
                                       * elem_at b [idx ! 0, idx ! 1, k, idx ! 3])))"
proof -
  have "torch_matmul a b =
         Inr (tabulate [B, H, N, P]
               (\<lambda>idx. sum_upto M (\<lambda>k. elem_at a (take 2 idx @ [idx ! 2, k])
                                       * elem_at b (take 2 idx @ [k, idx ! 3]))))"
    using assms by (simp add: torch_matmul_def Let_def eval_nat_numeral)
  also have "\<dots> = Inr (tabulate [B, H, N, P]
               (\<lambda>idx. sum_upto M (\<lambda>k. elem_at a [idx ! 0, idx ! 1, idx ! 2, k]
                                       * elem_at b [idx ! 0, idx ! 1, k, idx ! 3])))"
    by (auto intro!: tabulate_cong simp: eval_nat_numeral)
  finally show ?thesis .
qed

lemma tmap_tabulate: "tmap g (tabulate sh f) = tabulate sh (\<lambda>idx. g (f idx))"
  by (simp add: tmap_def tabulate_def)

lemma shape_tmap [simp]: "shape (tmap g t) = shape t"
  by (simp add: tmap_def)

lemma F_linear_ok:
  assumes "shape w = [n_out, n_in]" "shape x = bs @ [n_in]"
    and "case b of None \<Rightarrow> True | Some bv \<Rightarrow> shape bv = [n_out]"
  shows "F_linear x w b =
     Inr (tabulate (bs @ [n_out])
           (\<lambda>idx. sum_upto n_in (\<lambda>k. elem_at x (butlast idx @ [k]) * elem_at w [last idx, k])
                  + (case b of None \<Rightarrow> 0 | Some bv \<Rightarrow> elem_at bv [last idx])))"
  using assms by (auto simp: F_linear_def split: option.splits)

lemma Linear_forward_ok:
  assumes "Linear_ok l n_in n_out" "shape x = bs @ [n_in]"
  shows "\<exists>y. Linear_forward l x = Inr y \<and> shape y = bs @ [n_out] \<and> wf_tensor y"
  using assms F_linear_ok [of "weight l" n_out n_in x bs "bias l"]
  by (simp add: Linear_forward_def Linear_ok_def)

lemma unbind0_3:
  assumes "shape t = 3 # ds"
  shows "torch_unbind0 t =
     Inr [tabulate ds (\<lambda>idx. elem_at t (0 # idx)), tabulate ds (\<lambda>idx. elem_at t (1 # idx)),
          tabulate ds (\<lambda>idx. elem_at t (2 # idx))]"
  using assms by (simp add: torch_unbind0_def eval_nat_numeral)

lemma elem_at_split_heads:
  assumes "shape y = [B, N, C * 3]" "C = H * D"
  shows "elem_at (y\<lparr>shape := [B, N, 3, H, D]\<rparr>) [b, n, s, h, d] = elem_at y [b, n, s * C + h * D + d]"
  using assms by (simp add: elem_at_def algebra_simps)

lemma merge_heads:
  assumes "0 < D"
  shows "(tabulate [B, N, H, D] f)\<lparr>shape := [B, N, H * D]\<rparr> =
         tabulate [B, N, H * D] (\<lambda>idx. f [idx ! 0, idx ! 1, (idx ! 2) div D, (idx ! 2) mod D])"
  using assms by (simp add: tabulate_def algebra_simps)


lemma reshape_nat:
  "prod_list sh = prod_list (shape t) \<Longrightarrow> torch_reshape t (map int sh) = Inr (t\<lparr>shape := sh\<rparr>)"
  using reshape_nonneg [of "map int sh" t] by (simp add: comp_def)

subsection \<open>Attention is the textbook's multi-head attention\<close>

lemma floordiv_heads: "0 < H \<Longrightarrow> py_floordiv (int C) (int H) = Inr (int (C div H))"
  by (simp add: py_floordiv_def zdiv_int)

lemma Attention_forward_unfold:
  assumes x: "shape x = [B, N, C]" and ok: "Attention_ok self C H"
    and y: "Linear_forward (qkv self) x = Inr y" "shape y = [B, N, C * 3]"
  shows "Attention_forward self x =
         Linear_forward (proj self)
           (tabulate [B, N, C]
              (\<lambda>idx. head_out y C (C div H) N (idx ! 0) ((idx ! 2) div (C div H)) (idx ! 1)
                       ((idx ! 2) mod (C div H))))"
proof -
  define D where "D = C div H"
  from ok have H: "0 < H" and C: "0 < C" and dv: "C mod H = 0"
    and nh: "num_heads self = int H"
    and sc: "scale self = PyFloat (real D powr (- 1 / 2))"
    by (simp_all add: Attention_ok_def D_def)
  have CHD: "C = H * D" using dv by (simp add: D_def mod_eq_0_iff_dvd)
  have D: "0 < D" using C CHD by (cases "D = 0") auto
  define r where "r = y\<lparr>shape := [B, N, 3, H, D]\<rparr>"
  have r: "torch_reshape y [int B, int N, 3, int H, int D] = Inr r"
    unfolding r_def using reshape_nat [of "[B, N, 3, H, D]" y]
    by (simp add: y CHD algebra_simps)
  have r_at: "elem_at r [b, n, s, h, d] = elem_at y [b, n, s * C + h * D + d]" for b n s h d
    unfolding r_def by (rule elem_at_split_heads [OF y(2) CHD])
  define t where "t = tabulate [3, B, H, N, D]
                  (\<lambda>idx. elem_at r [idx ! 1, idx ! 3, idx ! 0, idx ! 2, idx ! 4])"
  have t: "torch_permute r [2, 0, 3, 1, 4] = Inr t"
    unfolding t_def by (rule permute_20314) (simp add: r_def)
  define q where "q = tabulate [B, H, N, D] (\<lambda>idx. head_query y C D (idx ! 0) (idx ! 1) (idx ! 2) (idx ! 3))"
  define k where "k = tabulate [B, H, N, D] (\<lambda>idx. head_key y C D (idx ! 0) (idx ! 1) (idx ! 2) (idx ! 3))"
  define v where "v = tabulate [B, H, N, D] (\<lambda>idx. head_value y C D (idx ! 0) (idx ! 1) (idx ! 2) (idx ! 3))"
  have q_eq: "tabulate [B, H, N, D] (\<lambda>idx. elem_at t (0 # idx)) = q"
    unfolding q_def t_def
    by (rule tabulate_cong) (auto simp: elem_at_tabulate r_at head_query_def)
  have k_eq: "tabulate [B, H, N, D] (\<lambda>idx. elem_at t (1 # idx)) = k"
    unfolding k_def t_def
    by (rule tabulate_cong) (auto simp: elem_at_tabulate r_at head_key_def)
  have v_eq: "tabulate [B, H, N, D] (\<lambda>idx. elem_at t (2 # idx)) = v"
    unfolding v_def t_def
    by (rule tabulate_cong) (auto simp: elem_at_tabulate r_at head_value_def)
  have ub: "torch_unbind0 t = Inr [q, k, v]"
  proof -
    have "shape t = 3 # [B, H, N, D]" by (simp add: t_def)
    from unbind0_3 [OF this] show ?thesis by (simp only: q_eq k_eq v_eq)
  qed
  define kT where "kT = tabulate [B, H, D, N] (\<lambda>idx. head_key y C D (idx ! 0) (idx ! 1) (idx ! 3) (idx ! 2))"
  have kT: "torch_transpose k (- 2) (- 1) = Inr kT"
  proof -
    have "torch_transpose k (- 2) (- 1) =
          Inr (tabulate [B, H, D, N] (\<lambda>idx. elem_at k [idx ! 0, idx ! 1, idx ! 3, idx ! 2]))"
      by (rule transpose_last2_rank4) (simp add: k_def)
    also have "tabulate [B, H, D, N] (\<lambda>idx. elem_at k [idx ! 0, idx ! 1, idx ! 3, idx ! 2]) = kT"
      unfolding kT_def k_def by (rule tabulate_cong) (auto simp: elem_at_tabulate)
    finally show ?thesis .
  qed
  define qk where "qk = tabulate [B, H, N, N]
      (\<lambda>idx. sum_upto D (\<lambda>d. head_query y C D (idx ! 0) (idx ! 1) (idx ! 2) d
                            * head_key y C D (idx ! 0) (idx ! 1) (idx ! 3) d))"
  have qk: "torch_matmul q kT = Inr qk"
  proof -
    have "torch_matmul q kT = Inr (tabulate [B, H, N, N]
               (\<lambda>idx. sum_upto D (\<lambda>d. elem_at q [idx ! 0, idx ! 1, idx ! 2, d]
                                       * elem_at kT [idx ! 0, idx ! 1, d, idx ! 3])))"
      by (rule matmul_rank4) (simp_all add: q_def kT_def)
    also have "tabulate [B, H, N, N]
               (\<lambda>idx. sum_upto D (\<lambda>d. elem_at q [idx ! 0, idx ! 1, idx ! 2, d]
                                       * elem_at kT [idx ! 0, idx ! 1, d, idx ! 3])) = qk"
      unfolding qk_def q_def kT_def
      by (rule tabulate_cong) (auto simp: elem_at_tabulate intro!: sum_upto_cong)
    finally show ?thesis .
  qed
  define attn where "attn = tabulate [B, H, N, N]
      (\<lambda>idx. head_score y C D (idx ! 0) (idx ! 1) (idx ! 2) (idx ! 3))"
  have attn: "tensor_mul_scalar qk (scale self) = Inr attn"
    by (simp add: sc attn_def qk_def tmap_tabulate head_score_def)
  define sm where "sm = tabulate [B, H, N, N]
      (\<lambda>idx. head_attn y C D N (idx ! 0) (idx ! 1) (idx ! 2) (idx ! 3))"
  have sm: "torch_softmax_last attn = sm"
    unfolding sm_def attn_def torch_softmax_last_def
    by (simp, rule tabulate_cong) (auto simp: elem_at_tabulate head_attn_def intro!: sum_upto_cong arg_cong2 [where f = "(/)"])
  define av where "av = tabulate [B, H, N, D]
      (\<lambda>idx. head_out y C D N (idx ! 0) (idx ! 1) (idx ! 2) (idx ! 3))"
  have av: "torch_matmul sm v = Inr av"
  proof -
    have "torch_matmul sm v = Inr (tabulate [B, H, N, D]
               (\<lambda>idx. sum_upto N (\<lambda>j. elem_at sm [idx ! 0, idx ! 1, idx ! 2, j]
                                       * elem_at v [idx ! 0, idx ! 1, j, idx ! 3])))"
      by (rule matmul_rank4) (simp_all add: sm_def v_def)
    also have "tabulate [B, H, N, D]
               (\<lambda>idx. sum_upto N (\<lambda>j. elem_at sm [idx ! 0, idx ! 1, idx ! 2, j]
                                       * elem_at v [idx ! 0, idx ! 1, j, idx ! 3])) = av"
      unfolding av_def sm_def v_def
      by (rule tabulate_cong) (auto simp: elem_at_tabulate head_out_def intro!: sum_upto_cong)
    finally show ?thesis .
  qed
  define avT where "avT = tabulate [B, N, H, D]
      (\<lambda>idx. head_out y C D N (idx ! 0) (idx ! 2) (idx ! 1) (idx ! 3))"
  have avT: "torch_transpose av 1 2 = Inr avT"
  proof -
    have "torch_transpose av 1 2 =
          Inr (tabulate [B, N, H, D] (\<lambda>idx. elem_at av [idx ! 0, idx ! 2, idx ! 1, idx ! 3]))"
      by (rule transpose_12_rank4) (simp add: av_def)
    also have "tabulate [B, N, H, D] (\<lambda>idx. elem_at av [idx ! 0, idx ! 2, idx ! 1, idx ! 3]) = avT"
      unfolding avT_def av_def by (rule tabulate_cong) (auto simp: elem_at_tabulate)
    finally show ?thesis .
  qed
  define z where "z = tabulate [B, N, C]
              (\<lambda>idx. head_out y C D N (idx ! 0) ((idx ! 2) div D) (idx ! 1) ((idx ! 2) mod D))"
  have z: "torch_reshape avT [int B, int N, int C] = Inr z"
  proof -
    have "torch_reshape avT [int B, int N, int C] = Inr (avT\<lparr>shape := [B, N, C]\<rparr>)"
      using reshape_nat [of "[B, N, C]" avT]
      by (simp add: avT_def CHD algebra_simps)
    also have "avT\<lparr>shape := [B, N, C]\<rparr> = z"
      unfolding avT_def z_def CHD by (simp add: merge_heads [OF D])
    finally show ?thesis .
  qed
  show ?thesis
    unfolding Attention_forward_def
    by (simp add: x y nh floordiv_heads [OF H] D_def [symmetric] r t ub kT qk attn sm av avT z
          del: One_nat_def) (simp add: z_def)
qed

section \<open>Attention: when construction succeeds\<close>

lemma float_overflow_pos: "0 < float_overflow"
  by (simp add: float_overflow_def)

lemma Attention_init_AssertionError:
  "n_heads \<noteq> 0 \<Longrightarrow> dimn mod n_heads \<noteq> 0 \<Longrightarrow> Attention_init init dimn n_heads b = Inl AssertionError"
  by (simp add: Attention_init_def py_mod_def)

lemma Attention_init_zero_heads:
  "Attention_init init dimn 0 b = Inl ZeroDivisionError"
  by (simp add: Attention_init_def py_mod_def)

lemma Attention_init_zero_dim:
  "n_heads \<noteq> 0 \<Longrightarrow> Attention_init init 0 n_heads b = Inl ZeroDivisionError"
  using float_overflow_pos
  by (simp add: Attention_init_def py_mod_def py_floordiv_def pow_neg_half_def)

lemma Attention_init_overflow:
  "n_heads \<noteq> 0 \<Longrightarrow> dimn mod n_heads = 0 \<Longrightarrow> float_overflow \<le> \<bar>dimn div n_heads\<bar> \<Longrightarrow>
   Attention_init init dimn n_heads b = Inl OverflowError"
  by (simp add: Attention_init_def py_mod_def py_floordiv_def pow_neg_half_def)

lemma Attention_init_layers:
  assumes "n_heads \<noteq> 0" "dimn mod n_heads = 0" "dimn \<noteq> 0" "\<bar>dimn div n_heads\<bar> < float_overflow"
  shows "Attention_init init dimn n_heads b =
         ebind (nn_Linear init dimn (dimn * 3) b) (\<lambda>l_qkv.
         ebind (nn_Linear init dimn dimn True) (\<lambda>l_proj.
         Inr \<lparr>num_heads = n_heads,
              scale = (if 0 < dimn div n_heads
                       then PyFloat (real_of_int (dimn div n_heads) powr (- 1 / 2))
                       else PyComplex (Complex 0 (- (real_of_int (- (dimn div n_heads)) powr (- 1 / 2))))),
              qkv = l_qkv, proj = l_proj\<rparr>))"
proof -
  have "dimn div n_heads \<noteq> 0"
    using assms(1-3) by (simp add: dvd_div_eq_0_iff mod_eq_0_iff_dvd)
  then show ?thesis
    using assms by (simp add: Attention_init_def py_mod_def py_floordiv_def pow_neg_half_def)
qed

lemma nn_Linear_negative: "n_in < 0 \<Longrightarrow> nn_Linear init n_in n_out b = Inl RuntimeError"
  by (simp add: nn_Linear_def)

text \<open>
  Claim C2, as the code has it: \<^verbatim>\<open>Attention.__init__\<close> does raise. It raises
  ZeroDivisionError when \<open>num_heads\<close> is zero (at \<^verbatim>\<open>dim % num_heads\<close>) and when \<open>dim\<close> is zero
  (at \<^verbatim>\<open>head_dim ** -0.5\<close>), AssertionError when a non-zero \<open>num_heads\<close> does not divide
  \<open>dim\<close>, and OverflowError when \<open>dim // num_heads\<close> is too large for a float. In every
  other case it raises nothing of its own: a negative \<open>dim\<close> is rejected by \<^verbatim>\<open>nn.Linear\<close>
  with RuntimeError, and for a positive \<open>dim\<close> the constructor raises what \<^verbatim>\<open>nn.Linear\<close>
  raises when the library cannot build one of the two layers, and returns the module
  with \<open>num_heads\<close>, the scale \<open>(dim // num_heads)\<^sup>-\<^sup>1\<^sup>/\<^sup>2\<close> and the two layers otherwise (for
  a negative \<open>num_heads\<close> that divides a positive \<open>dim\<close>, too: the scale is then a complex
  number).
\<close>

theorem Attention_init_raises_or_returns:
  "(n_heads = 0 \<longrightarrow> Attention_init init dimn n_heads b = Inl ZeroDivisionError) \<and>
   (n_heads \<noteq> 0 \<and> dimn mod n_heads \<noteq> 0 \<longrightarrow>
      Attention_init init dimn n_heads b = Inl AssertionError) \<and>
   (n_heads \<noteq> 0 \<and> dimn = 0 \<longrightarrow> Attention_init init dimn n_heads b = Inl ZeroDivisionError) \<and>
   (n_heads \<noteq> 0 \<and> dimn mod n_heads = 0 \<and> float_overflow \<le> \<bar>dimn div n_heads\<bar> \<longrightarrow>
      Attention_init init dimn n_heads b = Inl OverflowError) \<and>
   (n_heads \<noteq> 0 \<and> dimn mod n_heads = 0 \<and> dimn \<noteq> 0 \<and> \<bar>dimn div n_heads\<bar> < float_overflow \<longrightarrow>
      (dimn < 0 \<longrightarrow> Attention_init init dimn n_heads b = Inl RuntimeError) \<and>
      (\<forall>e. nn_Linear init dimn (dimn * 3) b = Inl e \<longrightarrow>
           Attention_init init dimn n_heads b = Inl e) \<and>
      (\<forall>l_qkv e. nn_Linear init dimn (dimn * 3) b = Inr l_qkv \<and>
                 nn_Linear init dimn dimn True = Inl e \<longrightarrow>
           Attention_init init dimn n_heads b = Inl e) \<and>
      (\<forall>l_qkv l_proj. nn_Linear init dimn (dimn * 3) b = Inr l_qkv \<and>
                      nn_Linear init dimn dimn True = Inr l_proj \<and> 0 < dimn div n_heads \<longrightarrow>
           Attention_init init dimn n_heads b =
             Inr \<lparr>num_heads = n_heads,
                  scale = PyFloat (real_of_int (dimn div n_heads) powr (- 1 / 2)),
                  qkv = l_qkv, proj = l_proj\<rparr>) \<and>
      (\<forall>l_qkv l_proj. nn_Linear init dimn (dimn * 3) b = Inr l_qkv \<and>
                      nn_Linear init dimn dimn True = Inr l_proj \<and> dimn div n_heads < 0 \<longrightarrow>
           Attention_init init dimn n_heads b =
             Inr \<lparr>num_heads = n_heads,
                  scale = PyComplex
                    (Complex 0 (- (real_of_int (- (dimn div n_heads)) powr (- 1 / 2)))),
                  qkv = l_qkv, proj = l_proj\<rparr>))"
proof (intro conjI impI allI)
  assume "n_heads = 0"
  then show "Attention_init init dimn n_heads b = Inl ZeroDivisionError"
    by (simp add: Attention_init_zero_heads)
next
  assume "n_heads \<noteq> 0 \<and> dimn mod n_heads \<noteq> 0"
  then show "Attention_init init dimn n_heads b = Inl AssertionError"
    by (simp add: Attention_init_AssertionError)
next
  assume "n_heads \<noteq> 0 \<and> dimn = 0"
  then show "Attention_init init dimn n_heads b = Inl ZeroDivisionError"
    by (simp add: Attention_init_zero_dim)
next
  assume "n_heads \<noteq> 0 \<and> dimn mod n_heads = 0 \<and> float_overflow \<le> \<bar>dimn div n_heads\<bar>"
  then show "Attention_init init dimn n_heads b = Inl OverflowError"
    by (simp add: Attention_init_overflow)
next
  assume a: "n_heads \<noteq> 0 \<and> dimn mod n_heads = 0 \<and> dimn \<noteq> 0 \<and> \<bar>dimn div n_heads\<bar> < float_overflow"
    and "dimn < 0"
  then show "Attention_init init dimn n_heads b = Inl RuntimeError"
    by (simp add: Attention_init_layers nn_Linear_negative)
next
  fix e
  assume a: "n_heads \<noteq> 0 \<and> dimn mod n_heads = 0 \<and> dimn \<noteq> 0 \<and> \<bar>dimn div n_heads\<bar> < float_overflow"
    and "nn_Linear init dimn (dimn * 3) b = Inl e"
  then show "Attention_init init dimn n_heads b = Inl e"
    by (simp add: Attention_init_layers)
next
  fix l_qkv e
  assume a: "n_heads \<noteq> 0 \<and> dimn mod n_heads = 0 \<and> dimn \<noteq> 0 \<and> \<bar>dimn div n_heads\<bar> < float_overflow"
    and "nn_Linear init dimn (dimn * 3) b = Inr l_qkv \<and> nn_Linear init dimn dimn True = Inl e"
  then show "Attention_init init dimn n_heads b = Inl e"
    by (simp add: Attention_init_layers)
next
  fix l_qkv l_proj
  assume a: "n_heads \<noteq> 0 \<and> dimn mod n_heads = 0 \<and> dimn \<noteq> 0 \<and> \<bar>dimn div n_heads\<bar> < float_overflow"
    and "nn_Linear init dimn (dimn * 3) b = Inr l_qkv \<and> nn_Linear init dimn dimn True = Inr l_proj \<and>
         0 < dimn div n_heads"
  then show "Attention_init init dimn n_heads b =
             Inr \<lparr>num_heads = n_heads,
                  scale = PyFloat (real_of_int (dimn div n_heads) powr (- 1 / 2)),
                  qkv = l_qkv, proj = l_proj\<rparr>"
    by (simp add: Attention_init_layers)
next
  fix l_qkv l_proj
  assume a: "n_heads \<noteq> 0 \<and> dimn mod n_heads = 0 \<and> dimn \<noteq> 0 \<and> \<bar>dimn div n_heads\<bar> < float_overflow"
    and "nn_Linear init dimn (dimn * 3) b = Inr l_qkv \<and> nn_Linear init dimn dimn True = Inr l_proj \<and>
         dimn div n_heads < 0"
  then show "Attention_init init dimn n_heads b =
             Inr \<lparr>num_heads = n_heads,
                  scale = PyComplex
                    (Complex 0 (- (real_of_int (- (dimn div n_heads)) powr (- 1 / 2)))),
                  qkv = l_qkv, proj = l_proj\<rparr>"
    by (simp add: Attention_init_layers)
qed

lemma shape_zeros [simp]: "shape (zeros sh) = sh"
  by (simp add: zeros_def)

lemma zeros_init_small: "prod_list sh < 9223372036854775808 \<Longrightarrow> zeros_init sh = Inr (zeros sh)"
  by (simp add: zeros_init_def)

lemma example_attention_built: "Attention_init zeros_init 4 2 False = Inr example_attention"
  by (simp add: Attention_init_def py_mod_def py_floordiv_def pow_neg_half_def nn_Linear_def
      zeros_init_small float_overflow_def example_attention_def)

theorem Attention_init_raises_or_returns_witness:
  "Attention_init zeros_init 4 0 False = Inl ZeroDivisionError \<and>
   Attention_init zeros_init 4 3 False = Inl AssertionError \<and>
   Attention_init zeros_init 0 2 False = Inl ZeroDivisionError \<and>
   Attention_init zeros_init (2 ^ 1024) 1 False = Inl OverflowError \<and>
   Attention_init zeros_init (- 4) (- 2) False = Inl RuntimeError \<and>
   Attention_init zeros_init (2 ^ 40) 1 False = Inl RuntimeError \<and>
   Attention_init zeros_init 4 (- 2) False =
     Inr \<lparr>num_heads = - 2,
          scale = PyComplex (Complex 0 (- (real_of_int (- (4 div - 2)) powr (- 1 / 2)))),
          qkv = \<lparr>in_features = 4, out_features = 12, weight = zeros [12, 4], bias = None\<rparr>,
          proj = \<lparr>in_features = 4, out_features = 4, weight = zeros [4, 4],
                  bias = Some (zeros [4])\<rparr>\<rparr> \<and>
   Attention_init zeros_init 4 2 False =
     Inr \<lparr>num_heads = 2, scale = PyFloat (real_of_int (4 div 2) powr (- 1 / 2)),
          qkv = \<lparr>in_features = 4, out_features = 12, weight = zeros [12, 4], bias = None\<rparr>,
          proj = \<lparr>in_features = 4, out_features = 4, weight = zeros [4, 4],
                  bias = Some (zeros [4])\<rparr>\<rparr>"
proof -
  have q: "nn_Linear zeros_init 4 (4 * 3) False =
           Inr \<lparr>in_features = 4, out_features = 12, weight = zeros [12, 4], bias = None\<rparr>"
    by (simp add: nn_Linear_def zeros_init_small)
  have p: "nn_Linear zeros_init 4 4 True =
           Inr \<lparr>in_features = 4, out_features = 4, weight = zeros [4, 4], bias = Some (zeros [4])\<rparr>"
    by (simp add: nn_Linear_def zeros_init_small)
  have big: "nn_Linear zeros_init (2 ^ 40) (2 ^ 40 * 3) False = Inl RuntimeError"
    by (simp add: nn_Linear_def zeros_init_def)
  have o1: "float_overflow \<le> \<bar>2 ^ 1024 div 1\<bar>"
    by (simp add: float_overflow_def)
  have o2: "\<bar>(- 4) div (- 2)\<bar> < float_overflow" "\<bar>2 ^ 40 div 1\<bar> < float_overflow"
    "\<bar>4 div 2\<bar> < float_overflow" "\<bar>4 div (- 2)\<bar> < float_overflow"
    by (simp_all add: float_overflow_def)
  from Attention_init_raises_or_returns [where n_heads = "0" and dimn = "4" and init = zeros_init and b = False]
  have 1: "Attention_init zeros_init 4 0 False = Inl ZeroDivisionError" by simp
  from Attention_init_raises_or_returns [where n_heads = "3" and dimn = "4" and init = zeros_init and b = False]
  have 2: "Attention_init zeros_init 4 3 False = Inl AssertionError" by simp
  from Attention_init_raises_or_returns [where n_heads = "2" and dimn = "0" and init = zeros_init and b = False]
  have 3: "Attention_init zeros_init 0 2 False = Inl ZeroDivisionError" by simp
  from Attention_init_raises_or_returns [where n_heads = "1" and dimn = "2 ^ 1024" and init = zeros_init and b = False] o1
  have 4: "Attention_init zeros_init (2 ^ 1024) 1 False = Inl OverflowError" by simp
  from Attention_init_raises_or_returns [where n_heads = "- 2" and dimn = "- 4" and init = zeros_init and b = False] o2(1)
  have 5: "Attention_init zeros_init (- 4) (- 2) False = Inl RuntimeError" by simp
  from Attention_init_raises_or_returns [where n_heads = "1" and dimn = "2 ^ 40" and init = zeros_init and b = False] o2(2) big
  have 6: "Attention_init zeros_init (2 ^ 40) 1 False = Inl RuntimeError" by simp
  from Attention_init_raises_or_returns [where n_heads = "2" and dimn = "4" and init = zeros_init and b = False] o2(3) q p
  have 7: "Attention_init zeros_init 4 2 False =
     Inr \<lparr>num_heads = 2, scale = PyFloat (real_of_int (4 div 2) powr (- 1 / 2)),
          qkv = \<lparr>in_features = 4, out_features = 12, weight = zeros [12, 4], bias = None\<rparr>,
          proj = \<lparr>in_features = 4, out_features = 4, weight = zeros [4, 4],
                  bias = Some (zeros [4])\<rparr>\<rparr>"
    by simp
  from Attention_init_raises_or_returns [where n_heads = "- 2" and dimn = "4" and init = zeros_init and b = False]
    o2(4) q p
  have 8: "Attention_init zeros_init 4 (- 2) False =
     Inr \<lparr>num_heads = - 2,
          scale = PyComplex (Complex 0 (- (real_of_int (- (4 div - 2)) powr (- 1 / 2)))),
          qkv = \<lparr>in_features = 4, out_features = 12, weight = zeros [12, 4], bias = None\<rparr>,
          proj = \<lparr>in_features = 4, out_features = 4, weight = zeros [4, 4],
                  bias = Some (zeros [4])\<rparr>\<rparr>"
    by simp
  from 1 2 3 4 5 6 7 8 show ?thesis by simp
qed

theorem Attention_init_raises_counterexample:
  "Attention_init zeros_init 10 3 False = Inl AssertionError"
  by (simp add: Attention_init_def py_mod_def)

lemma nn_Linear_ok:
  assumes "nn_Linear init (int n_in) (int n_out) b = Inr l" "\<forall>sh t. init sh = Inr t \<longrightarrow> shape t = sh"
  shows "Linear_ok l n_in n_out"
proof (cases b)
  case True
  with assms(1) obtain w bv where w: "init [n_out, n_in] = Inr w" and bv: "init [n_out] = Inr bv"
    and l: "l = \<lparr>in_features = int n_in, out_features = int n_out, weight = w, bias = Some bv\<rparr>"
    by (auto simp: nn_Linear_def ebind_def split: sum.splits)
  show ?thesis
    using assms(2) [rule_format, OF w] assms(2) [rule_format, OF bv] by (simp add: l Linear_ok_def)
next
  case False
  with assms(1) obtain w where w: "init [n_out, n_in] = Inr w"
    and l: "l = \<lparr>in_features = int n_in, out_features = int n_out, weight = w, bias = None\<rparr>"
    by (auto simp: nn_Linear_def ebind_def split: sum.splits)
  show ?thesis
    using assms(2) [rule_format, OF w] by (simp add: l Linear_ok_def)
qed


text \<open>
  Claim C1: for an input of shape \<open>(B, N, C)\<close> and a module built for \<open>dim = C\<close> and a
  positive number of heads dividing \<open>C\<close>, \<^verbatim>\<open>Attention.forward\<close> returns, and what it
  returns is the textbook's multi-head scaled dot-product attention: the reshape, permute,
  unbind and transpose steps of the code only route the entries of the qkv output to
  their heads and back, and the only scaling is the factor \<open>head_dim\<^sup>-\<^sup>1\<^sup>/\<^sup>2\<close>.
\<close>

theorem Attention_forward_textbook:
  assumes "shape x = [B, N, C]" and "Attention_ok self C H"
  shows "Attention_forward self x = textbook_attention (qkv self) (proj self) H x \<and>
         (\<exists>out. Attention_forward self x = Inr out)"
proof -
  from assms(2) have lq: "Linear_ok (qkv self) C (C * 3)" and lp: "Linear_ok (proj self) C C"
    by (simp_all add: Attention_ok_def)
  from Linear_forward_ok [OF lq, of x "[B, N]"] assms(1)
  obtain y where y: "Linear_forward (qkv self) x = Inr y" "shape y = [B, N, C * 3]"
    by auto
  note u = Attention_forward_unfold [OF assms y]
  have "Attention_forward self x = textbook_attention (qkv self) (proj self) H x"
    by (simp add: u textbook_attention_def assms(1) y)
  moreover have "\<exists>out. Attention_forward self x = Inr out"
  proof -
    have "shape (tabulate [B, N, C] f) = [B, N] @ [C]" for f :: "nat list \<Rightarrow> real"
      by simp
    from Linear_forward_ok [OF lp this] show ?thesis
      unfolding u by blast
  qed
  ultimately show ?thesis by simp
qed

lemma example_attention_ok: "Attention_ok example_attention 4 2"
  by (simp add: example_attention_def Attention_ok_def Linear_ok_def)

theorem Attention_forward_textbook_witness:
  "shape (zeros [1, 2, 4]) = [1, 2, 4] \<and> Attention_ok example_attention 4 2 \<and>
   Attention_forward example_attention (zeros [1, 2, 4]) =
     textbook_attention (qkv example_attention) (proj example_attention) 2 (zeros [1, 2, 4]) \<and>
   (\<exists>out. Attention_forward example_attention (zeros [1, 2, 4]) = Inr out)"
proof -
  have s: "shape (zeros [1, 2, 4]) = [1, 2, 4]" by simp
  from Attention_forward_textbook [OF s example_attention_ok] s example_attention_ok
  show ?thesis by blast
qed

subsection \<open>Shapes through the transformer encoder\<close>

lemma broadcast_rev_same: "broadcast_rev xs xs = Some xs"
  by (induction xs) auto

lemma broadcast_shapes_same: "broadcast_shapes sh sh = Some sh"
  by (simp add: broadcast_shapes_def broadcast_rev_same)

lemma torch_add_same_shape:
  "shape a = shape b \<Longrightarrow> \<exists>c. torch_add a b = Inr c \<and> shape c = shape a"
  by (simp add: torch_add_def broadcast_shapes_same)

lemma Attention_forward_shape:
  assumes "shape x = [B, N, C]" and "Attention_ok self C H"
  shows "\<exists>out. Attention_forward self x = Inr out \<and> shape out = [B, N, C]"
proof -
  from assms(2) have lq: "Linear_ok (qkv self) C (C * 3)" and lp: "Linear_ok (proj self) C C"
    by (simp_all add: Attention_ok_def)
  from Linear_forward_ok [OF lq, of x "[B, N]"] assms(1)
  obtain y where y: "Linear_forward (qkv self) x = Inr y" "shape y = [B, N, C * 3]"
    by auto
  have "shape (tabulate [B, N, C] f) = [B, N] @ [C]" for f :: "nat list \<Rightarrow> real"
    by simp
  from Linear_forward_ok [OF lp this] show ?thesis
    unfolding Attention_forward_unfold [OF assms y] by auto
qed

lemma LayerNorm_forward_shape:
  assumes "LayerNorm_ok l C" "shape x = bs @ [C]"
  shows "\<exists>y. LayerNorm_forward l x = Inr y \<and> shape y = shape x"
  using assms by (simp add: LayerNorm_forward_def LayerNorm_ok_def Let_def)

lemma Mlp_forward_shape:
  assumes "Mlp_ok m C" "shape x = bs @ [C]"
  shows "\<exists>y. Mlp_forward m x = Inr y \<and> shape y = shape x"
proof -
  from assms(1) obtain hidden where l1: "Linear_ok (Mlp.fc1 m) C hidden" and l2: "Linear_ok (Mlp.fc2 m) hidden C"
    by (auto simp: Mlp_ok_def split: list.splits)
  from Linear_forward_ok [OF l1 assms(2)]
  obtain x1 where x1: "Linear_forward (Mlp.fc1 m) x = Inr x1" "shape x1 = bs @ [hidden]" by auto
  have "shape (tmap (act m) x1) = bs @ [hidden]" by (simp add: x1)
  from Linear_forward_ok [OF l2 this] show ?thesis
    by (auto simp: Mlp_forward_def x1 assms(2))
qed

lemma Block_forward_shape:
  assumes "shape x = [B, N, C]" and "Block_ok b C H"
  shows "\<exists>y. Block_forward b x = Inr y \<and> shape y = [B, N, C]"
proof -
  from assms(2) have n1: "LayerNorm_ok (norm1 b) C" and a: "Attention_ok (attn b) C H"
    and n2: "LayerNorm_ok (norm2 b) C" and m: "Mlp_ok (mlp b) C"
    by (simp_all add: Block_ok_def)
  have sx: "shape x = [B, N] @ [C]" by (simp add: assms(1))
  from LayerNorm_forward_shape [OF n1 sx]
  obtain y1 where y1: "LayerNorm_forward (norm1 b) x = Inr y1" "shape y1 = [B, N, C]"
    by (auto simp: assms(1))
  from Attention_forward_shape [OF y1(2) a]
  obtain y2 where y2: "Attention_forward (attn b) y1 = Inr y2" "shape y2 = [B, N, C]" by auto
  from torch_add_same_shape [of x y2]
  obtain x1 where x1: "torch_add x y2 = Inr x1" "shape x1 = [B, N, C]"
    by (auto simp: assms(1) y2)
  have sx1: "shape x1 = [B, N] @ [C]" by (simp add: x1)
  from LayerNorm_forward_shape [OF n2 sx1]
  obtain y3 where y3: "LayerNorm_forward (norm2 b) x1 = Inr y3" "shape y3 = [B, N, C]"
    by (auto simp: x1)
  have sy3: "shape y3 = [B, N] @ [C]" by (simp add: y3)
  from Mlp_forward_shape [OF m sy3]
  obtain y4 where y4: "Mlp_forward (mlp b) y3 = Inr y4" "shape y4 = [B, N, C]"
    by (auto simp: y3)
  from torch_add_same_shape [of x1 y4]
  obtain x2 where x2: "torch_add x1 y4 = Inr x2" "shape x2 = [B, N, C]"
    by (auto simp: x1 y4)
  show ?thesis
    by (simp add: Block_forward_def y1 y2 x1 y3 y4 x2)
qed

lemma forward_blocks_shape:
  assumes "list_all (\<lambda>b. Block_ok b C H) bs" and "shape x = [B, N, C]"
  shows "\<exists>y. forward_blocks bs x = Inr y \<and> shape y = [B, N, C]"
  using assms
proof (induction bs arbitrary: x)
  case Nil
  then show ?case by simp
next
  case (Cons b bs)
  from Cons.prems have b: "Block_ok b C H" and rest: "list_all (\<lambda>b. Block_ok b C H) bs"
    by simp_all
  from Block_forward_shape [OF Cons.prems(2) b]
  obtain y where y: "Block_forward b x = Inr y" "shape y = [B, N, C]" by auto
  from Cons.IH [OF rest y(2)] show ?case by (simp add: y)
qed

text \<open>
  Claim C9: for an input of shape \<open>(B, N, C)\<close> and modules built for \<open>dim = C\<close> and a
  positive number of heads dividing \<open>C\<close>, \<^verbatim>\<open>Attention.forward\<close>, \<^verbatim>\<open>Block.forward\<close> and
  \<^verbatim>\<open>Transformer.forward\<close> each return a tensor, and it has the shape of the input. The
  two residual additions of a block therefore add tensors of one shape, for any number
  of blocks.
\<close>

theorem transformer_shape_preserved:
  assumes "shape x = [B, N, C]"
  shows "(Attention_ok a C H \<longrightarrow> (\<exists>y. Attention_forward a x = Inr y \<and> shape y = shape x)) \<and>
         (Block_ok b C H \<longrightarrow> (\<exists>y. Block_forward b x = Inr y \<and> shape y = shape x)) \<and>
         (Transformer_ok t C H \<longrightarrow> (\<exists>y. Transformer_forward t x = Inr y \<and> shape y = shape x))"
  using Attention_forward_shape [OF assms, of a H] Block_forward_shape [OF assms, of b H]
    forward_blocks_shape [OF _ assms, of H "blocks t"]
  by (simp add: assms Transformer_ok_def Transformer_forward_def)

lemma example_transformer_built:
  "Transformer_init zeros_init 4 2 2 4 False relu = Inr example_transformer"
proof -
  have two: "replicate 2 v = [v, v]" for v :: Block
    by (simp add: numeral_2_eq_2)
  show ?thesis
    by (simp add: Transformer_init_def Block_init_def Mlp_init_def nn_LayerNorm_def nn_Linear_def
      example_attention_built py_int_def zeros_init_small
      example_transformer_def example_block_def example_mlp_def example_norm_def two)
qed

lemma example_block_ok: "Block_ok example_block 4 2"
  by (simp add: Block_ok_def example_block_def example_attention_ok example_norm_def
      example_mlp_def LayerNorm_ok_def Mlp_ok_def Linear_ok_def)

lemma example_transformer_ok: "Transformer_ok example_transformer 4 2"
  by (simp add: Transformer_ok_def example_transformer_def example_block_ok)

theorem transformer_shape_preserved_witness:
  "shape (zeros [1, 2, 4]) = [1, 2, 4] \<and>
   Attention_ok example_attention 4 2 \<and> Block_ok example_block 4 2 \<and>
   Transformer_ok example_transformer 4 2 \<and>
   (\<exists>y. Attention_forward example_attention (zeros [1, 2, 4]) = Inr y \<and> shape y = [1, 2, 4]) \<and>
   (\<exists>y. Block_forward example_block (zeros [1, 2, 4]) = Inr y \<and> shape y = [1, 2, 4]) \<and>
   (\<exists>y. Transformer_forward example_transformer (zeros [1, 2, 4]) = Inr y \<and> shape y = [1, 2, 4])"
proof -
  have s: "shape (zeros [1, 2, 4]) = [1, 2, 4]" by simp
  from transformer_shape_preserved [OF s, of example_attention 2 example_block example_transformer]
    example_attention_ok example_block_ok example_transformer_ok s
  show ?thesis by simp
qed




subsection \<open>The two MLP implementations\<close>

lemma torch_T_rank2:
  assumes "shape w = [n, m]"
  shows "torch_T w = Inr (tabulate [m, n] (\<lambda>idx. elem_at w [idx ! 1, idx ! 0]))"
  using assms by (simp add: torch_T_def torch_permute_def index_of_def eval_nat_numeral)

lemma matmul_rank2:
  assumes "shape a = [n, m]" "shape b = [m, p]"
  shows "torch_matmul a b =
         Inr (tabulate [n, p] (\<lambda>idx. sum_upto m (\<lambda>k. elem_at a [idx ! 0, k] * elem_at b [k, idx ! 1])))"
  using assms by (simp add: torch_matmul_def Let_def eval_nat_numeral)

lemma broadcast_bias: "broadcast_shapes [n, p] [p] = Some [n, p]"
  by (simp add: broadcast_shapes_def)

lemma add_bias_rank2:
  assumes "shape a = [n, p]" "shape b = [p]"
  shows "torch_add a b = Inr (tabulate [n, p] (\<lambda>idx. elem_at a idx + elem_at b [idx ! 1]))"
proof -
  have "torch_add a b =
        Inr (tabulate [n, p] (\<lambda>idx. elem_at a (bcast_index [n, p] idx) + elem_at b (bcast_index [p] idx)))"
    by (simp add: torch_add_def assms broadcast_bias)
  also have "tabulate [n, p] (\<lambda>idx. elem_at a (bcast_index [n, p] idx) + elem_at b (bcast_index [p] idx))
           = tabulate [n, p] (\<lambda>idx. elem_at a idx + elem_at b [idx ! 1])"
    by (rule tabulate_cong) (auto simp: bcast_index_def)
  finally show ?thesis .
qed

lemma matmul_T_add_is_linear:
  assumes "shape y = [n, m]" "shape w = [p, m]" "shape b = [p]"
  shows "matmul_T_add y w b = F_linear y w (Some b)"
proof -
  define wT where "wT = tabulate [m, p] (\<lambda>idx. elem_at w [idx ! 1, idx ! 0])"
  define mm where "mm = tabulate [n, p] (\<lambda>idx. sum_upto m (\<lambda>k. elem_at y [idx ! 0, k] * elem_at w [idx ! 1, k]))"
  have wT: "torch_T w = Inr wT"
    unfolding wT_def by (rule torch_T_rank2 [OF assms(2)])
  have "torch_matmul y wT =
        Inr (tabulate [n, p] (\<lambda>idx. sum_upto m (\<lambda>k. elem_at y [idx ! 0, k] * elem_at wT [k, idx ! 1])))"
    by (rule matmul_rank2) (simp_all add: assms wT_def)
  also have "tabulate [n, p] (\<lambda>idx. sum_upto m (\<lambda>k. elem_at y [idx ! 0, k] * elem_at wT [k, idx ! 1])) = mm"
    unfolding mm_def wT_def
    by (rule tabulate_cong) (auto simp: elem_at_tabulate intro!: sum_upto_cong)
  finally have mm: "torch_matmul y wT = Inr mm" .
  have "torch_add mm b = Inr (tabulate [n, p] (\<lambda>idx. elem_at mm idx + elem_at b [idx ! 1]))"
    by (rule add_bias_rank2) (simp_all add: mm_def assms)
  also have "tabulate [n, p] (\<lambda>idx. elem_at mm idx + elem_at b [idx ! 1]) =
     tabulate ([n] @ [p])
       (\<lambda>idx. sum_upto m (\<lambda>k. elem_at y (butlast idx @ [k]) * elem_at w [last idx, k])
              + (case Some b of None \<Rightarrow> 0 | Some bv \<Rightarrow> elem_at bv [last idx]))"
    unfolding mm_def
    by (simp, rule tabulate_cong) (auto simp: elem_at_tabulate)
  also have "Inr \<dots> = F_linear y w (Some b)"
    by (rule F_linear_ok [symmetric]) (simp_all add: assms)
  finally have "torch_add mm b = F_linear y w (Some b)" .
  then show ?thesis by (simp add: matmul_T_add_def wT mm)
qed



text \<open>
  Claim C8: for an input of shape \<open>(B, c, h, w)\<close> (\<open>(B, 3, 32, 32)\<close> in the notebook), a
  \<^verbatim>\<open>TensorMLP\<close> whose parameters have the shapes its constructor gives them for
  \<open>n_features = c * h * w\<close>, and a \<^verbatim>\<open>SimpleMLP\<close> holding the same weights and biases in its
  three linear layers, both forward passes return, and return the same tensor, over exact
  reals: \<^verbatim>\<open>y @ w.T + b\<close>, computed by a transposition, a matrix product and a broadcast
  addition, is what the linear layer computes.
\<close>

theorem mlp_implementations_agree:
  assumes "shape x = [B, c, h, w]" and "TensorMLP_ok t (c * h * w) n_hidden n_classes"
    and "same_parameters s t"
  shows "SimpleMLP_forward gelu s x = TensorMLP_forward gelu t x \<and>
         (\<exists>y. SimpleMLP_forward gelu s x = Inr y \<and> shape y = [B, n_classes])"
proof -
  define F where "F = c * h * w"
  from assms(2) have sh: "shape (w1 t) = [n_hidden, F]" "shape (b1 t) = [n_hidden]"
      "shape (w2 t) = [n_hidden, n_hidden]" "shape (b2 t) = [n_hidden]"
      "shape (w3 t) = [n_classes, n_hidden]" "shape (b3 t) = [n_classes]"
    by (simp_all add: TensorMLP_ok_def F_def)
  from assms(3) have par: "weight (SimpleMLP.fc1 s) = w1 t" "bias (SimpleMLP.fc1 s) = Some (b1 t)"
      "weight (SimpleMLP.fc2 s) = w2 t" "bias (SimpleMLP.fc2 s) = Some (b2 t)"
      "weight (SimpleMLP.fc3 s) = w3 t" "bias (SimpleMLP.fc3 s) = Some (b3 t)"
    by (simp_all add: same_parameters_def)
  define y where "y = x\<lparr>shape := [B, F]\<rparr>"
  have fl: "rearrange_flatten x = Inr y"
    by (simp add: rearrange_flatten_def assms(1) y_def F_def)
  have l1: "Linear_ok (SimpleMLP.fc1 s) F n_hidden" and l2: "Linear_ok (SimpleMLP.fc2 s) n_hidden n_hidden"
    and l3: "Linear_ok (SimpleMLP.fc3 s) n_hidden n_classes"
    by (simp_all add: Linear_ok_def par sh)
  have sy: "shape y = [B] @ [F]" by (simp add: y_def)
  from Linear_forward_ok [OF l1 sy]
  obtain y1 where y1: "Linear_forward (SimpleMLP.fc1 s) y = Inr y1" "shape y1 = [B, n_hidden]" by auto
  have sg1: "shape (tmap gelu y1) = [B] @ [n_hidden]" by (simp add: y1)
  from Linear_forward_ok [OF l2 sg1]
  obtain y2 where y2: "Linear_forward (SimpleMLP.fc2 s) (tmap gelu y1) = Inr y2" "shape y2 = [B, n_hidden]"
    by auto
  have sg2: "shape (tmap gelu y2) = [B] @ [n_hidden]" by (simp add: y2)
  from Linear_forward_ok [OF l3 sg2]
  obtain y3 where y3: "Linear_forward (SimpleMLP.fc3 s) (tmap gelu y2) = Inr y3" "shape y3 = [B, n_classes]"
    by auto
  have s_eq: "SimpleMLP_forward gelu s x = Inr y3"
    by (simp add: SimpleMLP_forward_def fl y1 y2 y3)
  have t1: "matmul_T_add y (w1 t) (b1 t) = Inr y1"
    using matmul_T_add_is_linear [of y B F "w1 t" n_hidden "b1 t"] y1(1)
    by (simp add: sh y_def Linear_forward_def par)
  have t2: "matmul_T_add (tmap gelu y1) (w2 t) (b2 t) = Inr y2"
    using matmul_T_add_is_linear [of "tmap gelu y1" B n_hidden "w2 t" n_hidden "b2 t"] y2(1)
    by (simp add: sh y1 Linear_forward_def par)
  have t3: "matmul_T_add (tmap gelu y2) (w3 t) (b3 t) = Inr y3"
    using matmul_T_add_is_linear [of "tmap gelu y2" B n_hidden "w3 t" n_classes "b3 t"] y3(1)
    by (simp add: sh y2 Linear_forward_def par)
  have t_eq: "TensorMLP_forward gelu t x = Inr y3"
    by (simp add: TensorMLP_forward_def fl t1 t2 t3)
  show ?thesis by (simp add: s_eq t_eq y3)
qed

lemma example_tensor_mlp_ok: "TensorMLP_ok example_tensor_mlp (3 * 2 * 2) 5 2"
  by (simp add: TensorMLP_ok_def example_tensor_mlp_def)

lemma example_same_parameters: "same_parameters example_simple_mlp example_tensor_mlp"
  by (simp add: same_parameters_def example_simple_mlp_def example_tensor_mlp_def)

theorem mlp_implementations_agree_witness:
  "shape (zeros [2, 3, 2, 2]) = [2, 3, 2, 2] \<and> TensorMLP_ok example_tensor_mlp (3 * 2 * 2) 5 2 \<and>
   same_parameters example_simple_mlp example_tensor_mlp \<and>
   SimpleMLP_forward relu example_simple_mlp (zeros [2, 3, 2, 2]) =
     TensorMLP_forward relu example_tensor_mlp (zeros [2, 3, 2, 2]) \<and>
   (\<exists>y. SimpleMLP_forward relu example_simple_mlp (zeros [2, 3, 2, 2]) = Inr y \<and> shape y = [2, 2])"
proof -
  have s: "shape (zeros [2, 3, 2, 2]) = [2, 3, 2, 2]" by simp
  from mlp_implementations_agree [OF s example_tensor_mlp_ok example_same_parameters]
    s example_tensor_mlp_ok example_same_parameters
  show ?thesis by blast
qed

subsection \<open>The layers of the encoder and the decoder\<close>

lemma Conv2d_forward_shape:
  assumes "Conv2d_ok l c_in c_out k s" "shape x = [B, c_in, H, W]" "k \<le> H" "k \<le> W" "0 < s"
  shows "\<exists>y. Conv2d_forward l x = Inr y \<and> shape y = [B, c_out, (H - k) div s + 1, (W - k) div s + 1]"
  using assms by (simp add: Conv2d_forward_def Conv2d_ok_def)

lemma ConvTranspose2d_forward_shape:
  assumes "ConvTranspose2d_ok l c_in c_out k s p" "shape x = [B, c_in, H, W]" "0 < H" "0 < W" "0 < s"
    "2 * p < (H - 1) * s + k" "2 * p < (W - 1) * s + k"
  shows "\<exists>y. ConvTranspose2d_forward l x = Inr y \<and>
             shape y = [B, c_out, (H - 1) * s + k - 2 * p, (W - 1) * s + k - 2 * p]"
  using assms by (simp add: ConvTranspose2d_forward_def ConvTranspose2d_ok_def Let_def)

lemma Encoder_forward_layers:
  assumes "Encoder_ok e 1 3 64 256" "shape x = [B, 1, 32, 32]"
  shows "\<exists>y1 y2 y3 h.
           Conv2d_forward (Encoder.conv1 e) x = Inr y1 \<and> shape y1 = [B, 64, 15, 15] \<and>
           Conv2d_forward (Encoder.conv2 e) (tmap relu y1) = Inr y2 \<and> shape y2 = [B, 128, 7, 7] \<and>
           Conv2d_forward (Encoder.conv3 e) (tmap relu y2) = Inr y3 \<and> shape y3 = [B, 256, 3, 3] \<and>
           Linear_forward (Encoder.fc1 e) ((tmap relu y3)\<lparr>shape := [B, 2304]\<rparr>) = Inr h \<and>
           shape h = [B, 256] \<and>
           Encoder_forward e x = Inr h"
proof -
  from assms(1) have c1: "Conv2d_ok (Encoder.conv1 e) 1 64 3 2"
    and c2: "Conv2d_ok (Encoder.conv2 e) 64 128 3 2" and c3: "Conv2d_ok (Encoder.conv3 e) 128 256 3 2"
    and l: "Linear_ok (Encoder.fc1 e) 2304 256"
    by (simp_all add: Encoder_ok_def)
  from Conv2d_forward_shape [OF c1 assms(2)]
  obtain y1 where y1: "Conv2d_forward (Encoder.conv1 e) x = Inr y1" "shape y1 = [B, 64, 15, 15]"
    by auto
  have "shape (tmap relu y1) = [B, 64, 15, 15]" by (simp add: y1)
  from Conv2d_forward_shape [OF c2 this]
  obtain y2 where y2: "Conv2d_forward (Encoder.conv2 e) (tmap relu y1) = Inr y2" "shape y2 = [B, 128, 7, 7]"
    by auto
  have "shape (tmap relu y2) = [B, 128, 7, 7]" by (simp add: y2)
  from Conv2d_forward_shape [OF c3 this]
  obtain y3 where y3: "Conv2d_forward (Encoder.conv3 e) (tmap relu y2) = Inr y3" "shape y3 = [B, 256, 3, 3]"
    by auto
  define y4 where "y4 = (tmap relu y3)\<lparr>shape := [B, 2304]\<rparr>"
  have y4: "rearrange_flatten (tmap relu y3) = Inr y4"
    by (simp add: rearrange_flatten_def y3 y4_def)
  have "shape y4 = [B] @ [2304]" by (simp add: y4_def)
  from Linear_forward_ok [OF l this]
  obtain h where h: "Linear_forward (Encoder.fc1 e) y4 = Inr h" "shape h = [B, 256]" by auto
  have "Encoder_forward e x = Inr h"
    by (simp add: Encoder_forward_def y1 y2 y3 y4 h)
  with y1 y2 y3 h show ?thesis
    unfolding y4_def by blast
qed

lemma Decoder_forward_layers:
  assumes "Decoder_ok d 3 256 256 32 3" "shape z = [B, 256]"
  shows "\<exists>y y1 y2 y3 y4.
           Linear_forward (Decoder.fc1 d) z = Inr y \<and> shape y = [B, 16384] \<and>
           ConvTranspose2d_forward (Decoder.conv1 d) (y\<lparr>shape := [B, 256, 8, 8]\<rparr>) = Inr y1 \<and>
           shape y1 = [B, 128, 15, 15] \<and>
           ConvTranspose2d_forward (Decoder.conv2 d) (tmap relu y1) = Inr y2 \<and>
           shape y2 = [B, 64, 29, 29] \<and>
           ConvTranspose2d_forward (Decoder.conv3 d) (tmap relu y2) = Inr y3 \<and>
           shape y3 = [B, 64, 29, 29] \<and>
           ConvTranspose2d_forward (Decoder.conv4 d) (tmap relu y3) = Inr y4 \<and>
           shape y4 = [B, 3, 32, 32] \<and>
           Decoder_forward ar d z = Inr (tmap (nn_Sigmoid ar) y4)"
proof -
  from assms(1) have isz: "init_size d = 8" and l: "Linear_ok (Decoder.fc1 d) 256 16384"
    and c1: "ConvTranspose2d_ok (Decoder.conv1 d) 256 128 3 2 1"
    and c2: "ConvTranspose2d_ok (Decoder.conv2 d) 128 64 3 2 1"
    and c3: "ConvTranspose2d_ok (Decoder.conv3 d) 64 64 3 1 1"
    and c4: "ConvTranspose2d_ok (Decoder.conv4 d) 64 3 4 1 0"
    by (simp_all add: Decoder_ok_def)
  have "shape z = [B] @ [256]" by (simp add: assms(2))
  from Linear_forward_ok [OF l this]
  obtain y where y: "Linear_forward (Decoder.fc1 d) z = Inr y" "shape y = [B, 16384]" by auto
  define y0 where "y0 = y\<lparr>shape := [B, 256, 8, 8]\<rparr>"
  have y0: "rearrange_unflatten y B 8 8 = Inr y0"
    by (simp add: rearrange_unflatten_def y y0_def)
  have "shape y0 = [B, 256, 8, 8]" by (simp add: y0_def)
  from ConvTranspose2d_forward_shape [OF c1 this]
  obtain y1 where y1: "ConvTranspose2d_forward (Decoder.conv1 d) y0 = Inr y1" "shape y1 = [B, 128, 15, 15]"
    by auto
  have "shape (tmap relu y1) = [B, 128, 15, 15]" by (simp add: y1)
  from ConvTranspose2d_forward_shape [OF c2 this]
  obtain y2 where y2: "ConvTranspose2d_forward (Decoder.conv2 d) (tmap relu y1) = Inr y2"
      "shape y2 = [B, 64, 29, 29]"
    by auto
  have "shape (tmap relu y2) = [B, 64, 29, 29]" by (simp add: y2)
  from ConvTranspose2d_forward_shape [OF c3 this]
  obtain y3 where y3: "ConvTranspose2d_forward (Decoder.conv3 d) (tmap relu y2) = Inr y3"
      "shape y3 = [B, 64, 29, 29]"
    by auto
  have "shape (tmap relu y3) = [B, 64, 29, 29]" by (simp add: y3)
  from ConvTranspose2d_forward_shape [OF c4 this]
  obtain y4 where y4: "ConvTranspose2d_forward (Decoder.conv4 d) (tmap relu y3) = Inr y4"
      "shape y4 = [B, 3, 32, 32]"
    by auto
  have "Decoder_forward ar d z = Inr (tmap (nn_Sigmoid ar) y4)"
    by (simp add: Decoder_forward_def assms(2) isz y y0 y1 y2 y3 y4)
  with y y1 y2 y3 y4 show ?thesis
    unfolding y0_def by blast
qed



lemma nn_Conv2d_ok:
  assumes "nn_Conv2d init c_in c_out k s = Inr c" "\<forall>sh t. init sh = Inr t \<longrightarrow> shape t = sh"
  shows "Conv2d_ok c c_in c_out k s"
proof -
  from assms(1) obtain w b where w: "init [c_out, c_in, k, k] = Inr w" and b: "init [c_out] = Inr b"
    and c: "c = \<lparr>conv_weight = w, conv_bias = b, stride = s\<rparr>"
    by (auto simp: nn_Conv2d_def ebind_def split: sum.splits)
  show ?thesis
    using assms(2) [rule_format, OF w] assms(2) [rule_format, OF b] by (simp add: c Conv2d_ok_def)
qed

lemma nn_ConvTranspose2d_ok:
  assumes "nn_ConvTranspose2d init c_in c_out k s p = Inr c"
    "\<forall>sh t. init sh = Inr t \<longrightarrow> shape t = sh"
  shows "ConvTranspose2d_ok c c_in c_out k s p"
proof -
  from assms(1) obtain w b where w: "init [c_in, c_out, k, k] = Inr w" and b: "init [c_out] = Inr b"
    and c: "c = \<lparr>convT_weight = w, convT_bias = b, convT_stride = s, convT_padding = p\<rparr>"
    by (auto simp: nn_ConvTranspose2d_def ebind_def split: sum.splits)
  show ?thesis
    using assms(2) [rule_format, OF w] assms(2) [rule_format, OF b] by (simp add: c ConvTranspose2d_ok_def)
qed

lemma Encoder_init_ok:
  assumes "Encoder_init init nf k f fd = Inr e" "\<forall>sh t. init sh = Inr t \<longrightarrow> shape t = sh"
  shows "Encoder_ok e nf k f fd"
proof -
  from assms(1) obtain c1 c2 c3 l where
    c: "nn_Conv2d init nf f k 2 = Inr c1" "nn_Conv2d init f (f * 2) k 2 = Inr c2"
       "nn_Conv2d init (f * 2) (f * 4) k 2 = Inr c3"
    and l: "nn_Linear init (int 2304) (int fd) True = Inr l"
    and e: "e = \<lparr>Encoder.conv1 = c1, Encoder.conv2 = c2, Encoder.conv3 = c3, Encoder.fc1 = l\<rparr>"
    by (auto simp: Encoder_init_def ebind_def split: sum.splits)
  show ?thesis
    using c [THEN nn_Conv2d_ok, OF assms(2)] nn_Linear_ok [OF l assms(2)]
    by (simp add: e Encoder_ok_def)
qed

lemma Decoder_init_ok:
  assumes "Decoder_init init k f fd os oc = Inr d" "\<forall>sh t. init sh = Inr t \<longrightarrow> shape t = sh"
  shows "Decoder_ok d k f fd os oc"
proof -
  from assms(1) obtain l c1 c2 c3 c4 where
    l: "nn_Linear init (int fd) (int ((os div 2\<^sup>2)\<^sup>2 * f)) True = Inr l"
    and c: "nn_ConvTranspose2d init f (f div 2) k 2 1 = Inr c1"
       "nn_ConvTranspose2d init (f div 2) (f div 4) k 2 1 = Inr c2"
       "nn_ConvTranspose2d init (f div 4) (f div 4) k 1 1 = Inr c3"
       "nn_ConvTranspose2d init (f div 4) oc (k + 1) 1 0 = Inr c4"
    and d: "d = \<lparr>init_size = os div 2\<^sup>2, Decoder.fc1 = l, Decoder.conv1 = c1, Decoder.conv2 = c2,
                  Decoder.conv3 = c3, conv4 = c4\<rparr>"
    by (auto simp: Decoder_init_def Let_def ebind_def split: sum.splits)
  show ?thesis
    using c [THEN nn_ConvTranspose2d_ok, OF assms(2)] nn_Linear_ok [OF l assms(2)]
    by (simp add: d Decoder_ok_def)
qed

lemma zeros_init_shape: "\<forall>sh t. zeros_init sh = Inr t \<longrightarrow> shape t = sh"
  by (auto simp: zeros_init_def split: if_splits)

lemma example_encoder_built: "Encoder_init zeros_init 1 3 64 256 = Inr example_encoder"
  by (simp add: Encoder_init_def nn_Linear_def nn_Conv2d_def zeros_init_small example_encoder_def)

lemma example_decoder_built: "Decoder_init zeros_init 3 256 256 32 3 = Inr example_decoder"
  by (simp add: Decoder_init_def nn_Linear_def nn_ConvTranspose2d_def zeros_init_small
      example_decoder_def)

lemma example_encoder_ok: "Encoder_ok example_encoder 1 3 64 256"
  by (rule Encoder_init_ok [OF example_encoder_built]) (rule zeros_init_shape)

lemma example_decoder_ok: "Decoder_ok example_decoder 3 256 256 32 3"
  by (rule Decoder_init_ok [OF example_decoder_built]) (rule zeros_init_shape)

text \<open>
  Claim C3: with the default constructor arguments, and whatever the parameter values,
  \<^verbatim>\<open>Encoder.forward\<close> maps every tensor of shape \<open>(B, 1, 32, 32)\<close> to a latent vector of shape
  \<open>(B, 256)\<close>, and this vector is what the layers compute one after the other: the three
  convolutions of stride 2, each followed by ReLU, give shapes \<open>(B, 64, 15, 15)\<close>,
  \<open>(B, 128, 7, 7)\<close> and \<open>(B, 256, 3, 3)\<close>, the result is flattened to \<open>(B, 2304)\<close>, and the
  linear layer is applied. \<^verbatim>\<open>Decoder.forward\<close> maps every latent vector of shape \<open>(B, 256)\<close>
  to an image of shape \<open>(B, 3, 32, 32)\<close>, and this image is what its layers compute: the
  linear layer gives \<open>(B, 16384)\<close>, split into \<open>(B, 256, 8, 8)\<close>; three transposed
  convolutions, each followed by ReLU, give \<open>(B, 128, 15, 15)\<close>, \<open>(B, 64, 29, 29)\<close> and
  \<open>(B, 64, 29, 29)\<close>; the fourth gives \<open>(B, 3, 32, 32)\<close>, to which the sigmoid is applied.
\<close>

theorem encoder_decoder_layers:
  assumes "Encoder_ok e 1 3 64 256" and "Decoder_ok d 3 256 256 32 3"
  shows "(shape x = [B, 1, 32, 32] \<longrightarrow>
           (\<exists>y1 y2 y3 h.
              Conv2d_forward (Encoder.conv1 e) x = Inr y1 \<and> shape y1 = [B, 64, 15, 15] \<and>
              Conv2d_forward (Encoder.conv2 e) (tmap relu y1) = Inr y2 \<and> shape y2 = [B, 128, 7, 7] \<and>
              Conv2d_forward (Encoder.conv3 e) (tmap relu y2) = Inr y3 \<and> shape y3 = [B, 256, 3, 3] \<and>
              Linear_forward (Encoder.fc1 e) ((tmap relu y3)\<lparr>shape := [B, 2304]\<rparr>) = Inr h \<and>
              shape h = [B, 256] \<and>
              Encoder_forward e x = Inr h)) \<and>
         (shape z = [B, 256] \<longrightarrow>
           (\<exists>y y1 y2 y3 y4.
              Linear_forward (Decoder.fc1 d) z = Inr y \<and> shape y = [B, 16384] \<and>
              ConvTranspose2d_forward (Decoder.conv1 d) (y\<lparr>shape := [B, 256, 8, 8]\<rparr>) = Inr y1 \<and>
              shape y1 = [B, 128, 15, 15] \<and>
              ConvTranspose2d_forward (Decoder.conv2 d) (tmap relu y1) = Inr y2 \<and>
              shape y2 = [B, 64, 29, 29] \<and>
              ConvTranspose2d_forward (Decoder.conv3 d) (tmap relu y2) = Inr y3 \<and>
              shape y3 = [B, 64, 29, 29] \<and>
              ConvTranspose2d_forward (Decoder.conv4 d) (tmap relu y3) = Inr y4 \<and>
              shape y4 = [B, 3, 32, 32] \<and>
              Decoder_forward ar d z = Inr (tmap (nn_Sigmoid ar) y4) \<and>
              shape (tmap (nn_Sigmoid ar) y4) = [B, 3, 32, 32]))"
proof (intro conjI impI)
  assume "shape x = [B, 1, 32, 32]"
  from Encoder_forward_layers [OF assms(1) this] show
    "\<exists>y1 y2 y3 h.
       Conv2d_forward (Encoder.conv1 e) x = Inr y1 \<and> shape y1 = [B, 64, 15, 15] \<and>
       Conv2d_forward (Encoder.conv2 e) (tmap relu y1) = Inr y2 \<and> shape y2 = [B, 128, 7, 7] \<and>
       Conv2d_forward (Encoder.conv3 e) (tmap relu y2) = Inr y3 \<and> shape y3 = [B, 256, 3, 3] \<and>
       Linear_forward (Encoder.fc1 e) ((tmap relu y3)\<lparr>shape := [B, 2304]\<rparr>) = Inr h \<and>
       shape h = [B, 256] \<and>
       Encoder_forward e x = Inr h" .
next
  assume "shape z = [B, 256]"
  from Decoder_forward_layers [OF assms(2) this, of ar]
  obtain y y1 y2 y3 y4 where
    "Linear_forward (Decoder.fc1 d) z = Inr y" "shape y = [B, 16384]"
    "ConvTranspose2d_forward (Decoder.conv1 d) (y\<lparr>shape := [B, 256, 8, 8]\<rparr>) = Inr y1"
    "shape y1 = [B, 128, 15, 15]"
    "ConvTranspose2d_forward (Decoder.conv2 d) (tmap relu y1) = Inr y2" "shape y2 = [B, 64, 29, 29]"
    "ConvTranspose2d_forward (Decoder.conv3 d) (tmap relu y2) = Inr y3" "shape y3 = [B, 64, 29, 29]"
    "ConvTranspose2d_forward (Decoder.conv4 d) (tmap relu y3) = Inr y4" "shape y4 = [B, 3, 32, 32]"
    "Decoder_forward ar d z = Inr (tmap (nn_Sigmoid ar) y4)"
    by blast
  moreover from this have "shape (tmap (nn_Sigmoid ar) y4) = [B, 3, 32, 32]" by simp
  ultimately show
    "\<exists>y y1 y2 y3 y4.
       Linear_forward (Decoder.fc1 d) z = Inr y \<and> shape y = [B, 16384] \<and>
       ConvTranspose2d_forward (Decoder.conv1 d) (y\<lparr>shape := [B, 256, 8, 8]\<rparr>) = Inr y1 \<and>
       shape y1 = [B, 128, 15, 15] \<and>
       ConvTranspose2d_forward (Decoder.conv2 d) (tmap relu y1) = Inr y2 \<and>
       shape y2 = [B, 64, 29, 29] \<and>
       ConvTranspose2d_forward (Decoder.conv3 d) (tmap relu y2) = Inr y3 \<and>
       shape y3 = [B, 64, 29, 29] \<and>
       ConvTranspose2d_forward (Decoder.conv4 d) (tmap relu y3) = Inr y4 \<and>
       shape y4 = [B, 3, 32, 32] \<and>
       Decoder_forward ar d z = Inr (tmap (nn_Sigmoid ar) y4) \<and>
       shape (tmap (nn_Sigmoid ar) y4) = [B, 3, 32, 32]"
    by blast
qed

theorem encoder_decoder_layers_witness:
  "Encoder_ok example_encoder 1 3 64 256 \<and> Decoder_ok example_decoder 3 256 256 32 3 \<and>
   shape (zeros [2, 1, 32, 32]) = [2, 1, 32, 32] \<and>
   (\<exists>y1 y2 y3 h.
      Conv2d_forward (Encoder.conv1 example_encoder) (zeros [2, 1, 32, 32]) = Inr y1 \<and>
      shape y1 = [2, 64, 15, 15] \<and>
      Conv2d_forward (Encoder.conv2 example_encoder) (tmap relu y1) = Inr y2 \<and>
      shape y2 = [2, 128, 7, 7] \<and>
      Conv2d_forward (Encoder.conv3 example_encoder) (tmap relu y2) = Inr y3 \<and>
      shape y3 = [2, 256, 3, 3] \<and>
      Linear_forward (Encoder.fc1 example_encoder) ((tmap relu y3)\<lparr>shape := [2, 2304]\<rparr>) = Inr h \<and>
      shape h = [2, 256] \<and>
      Encoder_forward example_encoder (zeros [2, 1, 32, 32]) = Inr h) \<and>
   shape (zeros [2, 256]) = [2, 256] \<and>
   (\<exists>y y1 y2 y3 y4.
      Linear_forward (Decoder.fc1 example_decoder) (zeros [2, 256]) = Inr y \<and> shape y = [2, 16384] \<and>
      ConvTranspose2d_forward (Decoder.conv1 example_decoder) (y\<lparr>shape := [2, 256, 8, 8]\<rparr>) = Inr y1 \<and>
      shape y1 = [2, 128, 15, 15] \<and>
      ConvTranspose2d_forward (Decoder.conv2 example_decoder) (tmap relu y1) = Inr y2 \<and>
      shape y2 = [2, 64, 29, 29] \<and>
      ConvTranspose2d_forward (Decoder.conv3 example_decoder) (tmap relu y2) = Inr y3 \<and>
      shape y3 = [2, 64, 29, 29] \<and>
      ConvTranspose2d_forward (Decoder.conv4 example_decoder) (tmap relu y3) = Inr y4 \<and>
      shape y4 = [2, 3, 32, 32] \<and>
      Decoder_forward Float32 example_decoder (zeros [2, 256]) = Inr (tmap (nn_Sigmoid Float32) y4) \<and>
      shape (tmap (nn_Sigmoid Float32) y4) = [2, 3, 32, 32])"
proof -
  have s: "shape (zeros [2, 1, 32, 32]) = [2, 1, 32, 32]" "shape (zeros [2, 256]) = [2, 256]"
    by simp_all
  from encoder_decoder_layers [OF example_encoder_ok example_decoder_ok,
      of "zeros [2, 1, 32, 32]" 2 "zeros [2, 256]" Float32] s example_encoder_ok example_decoder_ok
  show ?thesis by blast
qed

subsection \<open>Collate functions\<close>

lemma mult_add_less: "a < A \<Longrightarrow> b < B \<Longrightarrow> a * B + b < A * (B::nat)"
proof -
  assume a: "a < A" and b: "b < B"
  have "a * B + b < (a + 1) * B" using b by simp
  also have "\<dots> \<le> A * B" using a by (intro mult_le_mono1) simp
  finally show ?thesis .
qed

lemma div_mult_add: "b < B \<Longrightarrow> (a * B + b) div B = (a::nat)"
  by simp

lemma mod_mult_add: "b < B \<Longrightarrow> (a * B + b) mod B = (b::nat)"
  by simp

lemma concat_nth_uniform:
  assumes "\<forall>ys\<in>set xss. length ys = m" "i < length xss" "j < m"
  shows "concat xss ! (i * m + j) = xss ! i ! j"
  using assms
proof (induction xss arbitrary: i)
  case Nil
  then show ?case by simp
next
  case (Cons xs xss)
  show ?case
  proof (cases i)
    case 0
    with Cons.prems show ?thesis by (simp add: nth_append)
  next
    case (Suc i')
    with Cons.prems have "concat xss ! (i' * m + j) = xss ! i' ! j"
      by (intro Cons.IH) auto
    with Suc Cons.prems show ?thesis by (simp add: nth_append)
  qed
qed

lemma unzip_batch_ok: "batch \<noteq> [] \<Longrightarrow> unzip_batch batch = Inr (map fst batch, map snd batch)"
  by (simp add: unzip_batch_def)

lemma torch_stack_ok:
  assumes "ts \<noteq> []" "\<forall>u\<in>set ts. shape u = sh"
  shows "torch_stack ts = Inr \<lparr>shape = length ts # sh, elems = concat (map elems ts)\<rparr>"
  using assms by (cases ts) (auto simp: torch_stack_def)

lemma elem_at_stack:
  assumes "\<forall>u\<in>set ts. shape u = sh \<and> wf_tensor u" "b < length ts" "valid_index sh idx"
  shows "elem_at \<lparr>shape = length ts # sh, elems = concat (map elems ts)\<rparr> (b # idx) = elem_at (ts ! b) idx"
proof -
  have "concat (map elems ts) ! (b * prod_list sh + ravel sh idx) = map elems ts ! b ! ravel sh idx"
    using assms by (intro concat_nth_uniform) (auto simp: wf_tensor_def ravel_less)
  then show ?thesis using assms by (simp add: elem_at_def)
qed

lemma gray_collate_fn_ok:
  assumes "batch_ok batch c h w"
  shows "\<exists>xn x. gray_collate_fn batch = Inr (xn, x) \<and>
           shape x = [length batch, c, h, w] \<and> shape xn = [length batch, 1, h, w] \<and>
           (\<forall>b ch i j. b < length batch \<and> ch < c \<and> i < h \<and> j < w \<longrightarrow>
               elem_at x [b, ch, i, j] = elem_at (fst (batch ! b)) [ch, i, j]) \<and>
           (\<forall>b i j. b < length batch \<and> i < h \<and> j < w \<longrightarrow>
               elem_at xn [b, 0, i, j] = sum_upto c (\<lambda>ch. elem_at x [b, ch, i, j]) / real c)"
proof -
  define xs where "xs = map fst batch"
  define x where "x = \<lparr>shape = length xs # [c, h, w], elems = concat (map elems xs)\<rparr>"
  define xn where "xn = tabulate [length batch, 1, h, w]
                 (\<lambda>idx. sum_upto c (\<lambda>ch. elem_at x [idx ! 0, ch, idx ! 2, idx ! 3]) / real c)"
  from assms have ne: "batch \<noteq> []" and all: "\<forall>u\<in>set xs. shape u = [c, h, w] \<and> wf_tensor u"
    by (auto simp: batch_ok_def xs_def list_all_iff)
  have st: "torch_stack xs = Inr x"
    unfolding x_def using ne all by (intro torch_stack_ok) (auto simp: xs_def)
  have rd: "reduce_mean_channels x = Inr xn"
    by (simp add: reduce_mean_channels_def x_def xn_def xs_def)
  have g: "gray_collate_fn batch = Inr (xn, x)"
    by (simp add: gray_collate_fn_def unzip_batch_ok [OF ne] xs_def [symmetric] st rd)
  have x_at: "elem_at x [b, ch, i, j] = elem_at (fst (batch ! b)) [ch, i, j]"
    if "b < length batch" "ch < c" "i < h" "j < w" for b ch i j
    unfolding x_def using elem_at_stack [OF all, of b "[ch, i, j]"] that by (simp add: xs_def)
  have xn_at: "elem_at xn [b, 0, i, j] = sum_upto c (\<lambda>ch. elem_at x [b, ch, i, j]) / real c"
    if "b < length batch" "i < h" "j < w" for b i j
    unfolding xn_def using that by (simp add: elem_at_tabulate)
  show ?thesis
    using g x_at xn_at by (intro exI [of _ xn] exI [of _ x]) (simp add: x_def xn_def xs_def)
qed

lemma rearrange_patches_ok:
  assumes "shape x = [b, c, P * h, P * w]" "0 < P"
  shows "rearrange_patches x (int P) (int P) =
         Inr (tabulate [b, P * P, c * h * w]
                  (\<lambda>idx. elem_at x [idx ! 0, idx ! 2 div (h * w),
                                     (idx ! 1 div P) * h + (idx ! 2 mod (h * w)) div w,
                                     (idx ! 1 mod P) * w + idx ! 2 mod w]))"
  using assms by (simp add: rearrange_patches_def)

lemma torch_LongTensor_ok:
  "list_all int64 ys \<Longrightarrow> torch_LongTensor ys = Inr \<lparr>shape = [length ys], elems = ys\<rparr>"
  by (simp add: torch_LongTensor_def)

lemma collate_fn_ok:
  assumes "batch_ok batch c (P * h) (P * w)" "patch_num self = int P" "0 < P" "labels_ok batch"
  shows "\<exists>x. collate_fn self batch = Inr (x, \<lparr>shape = [length batch], elems = map snd batch\<rparr>) \<and>
           shape x = [length batch, P * P, c * h * w] \<and>
           (\<forall>b p1 p2 ch i j. b < length batch \<and> p1 < P \<and> p2 < P \<and> ch < c \<and> i < h \<and> j < w \<longrightarrow>
               elem_at x [b, p1 * P + p2, (ch * h + i) * w + j] =
               elem_at (fst (batch ! b)) [ch, p1 * h + i, p2 * w + j])"
proof -
  define xs where "xs = map fst batch"
  define x where "x = \<lparr>shape = length xs # [c, P * h, P * w], elems = concat (map elems xs)\<rparr>"
  define x' where "x' = tabulate [length batch, P * P, c * h * w]
                  (\<lambda>idx. elem_at x [idx ! 0, idx ! 2 div (h * w),
                                     (idx ! 1 div P) * h + (idx ! 2 mod (h * w)) div w,
                                     (idx ! 1 mod P) * w + idx ! 2 mod w])"
  from assms(1) have ne: "batch \<noteq> []"
    and all: "\<forall>u\<in>set xs. shape u = [c, P * h, P * w] \<and> wf_tensor u"
    by (auto simp: batch_ok_def xs_def list_all_iff)
  have st: "torch_stack xs = Inr x"
    unfolding x_def using ne all by (intro torch_stack_ok) (auto simp: xs_def)
  have rp: "rearrange_patches x (int P) (int P) = Inr x'"
    unfolding x'_def using rearrange_patches_ok [of x "length batch" c P h w] assms(3)
    by (simp add: x_def xs_def)
  have lt: "torch_LongTensor (map snd batch) = Inr \<lparr>shape = [length batch], elems = map snd batch\<rparr>"
    using assms(4) torch_LongTensor_ok [of "map snd batch"]
    by (simp add: labels_ok_def list_all_iff)
  have c: "collate_fn self batch = Inr (x', \<lparr>shape = [length batch], elems = map snd batch\<rparr>)"
    by (simp add: collate_fn_def unzip_batch_ok [OF ne] xs_def [symmetric] st assms(2) rp lt)
  have at: "elem_at x' [b, p1 * P + p2, (ch * h + i) * w + j] =
            elem_at (fst (batch ! b)) [ch, p1 * h + i, p2 * w + j]"
    if "b < length batch" "p1 < P" "p2 < P" "ch < c" "i < h" "j < w" for b p1 p2 ch i j
  proof -
    have v1: "p1 * P + p2 < P * P" using that by (intro mult_add_less)
    have iw: "i * w + j < h * w" using that by (intro mult_add_less)
    have f: "(ch * h + i) * w + j = ch * (h * w) + (i * w + j)" by (simp add: algebra_simps)
    have v2: "(ch * h + i) * w + j < c * h * w"
      unfolding f using mult_add_less [OF that(4) iw] by (simp add: mult.assoc)
    have d1: "((ch * h + i) * w + j) div (h * w) = ch"
      unfolding f by (rule div_mult_add [OF iw])
    have m1: "((ch * h + i) * w + j) mod (h * w) = i * w + j"
      unfolding f by (rule mod_mult_add [OF iw])
    have d2: "(i * w + j) div w = i" "(i * w + j) mod w = j"
      using that by (simp_all add: div_mult_add mod_mult_add)
    have m2: "((ch * h + i) * w + j) mod w = j" by (rule mod_mult_add [OF that(6)])
    have d3: "(p1 * P + p2) div P = p1" "(p1 * P + p2) mod P = p2"
      using that by (simp_all add: div_mult_add mod_mult_add)
    have "elem_at x' [b, p1 * P + p2, (ch * h + i) * w + j] = elem_at x [b, ch, p1 * h + i, p2 * w + j]"
      unfolding x'_def using that v1 v2 by (simp add: elem_at_tabulate d1 m1 d2 m2 d3)
    also have "\<dots> = elem_at (fst (batch ! b)) [ch, p1 * h + i, p2 * w + j]"
      unfolding x_def
      using elem_at_stack [OF all, of b "[ch, p1 * h + i, p2 * w + j]"] that
        mult_add_less [of p1 P i h] mult_add_less [of p2 P j w]
      by (simp add: xs_def)
    finally show ?thesis .
  qed
  show ?thesis
    using c at by (intro exI [of _ x']) (simp add: x'_def)
qed

text \<open>
  Claim C4: from a non-empty batch of \<open>n\<close> samples whose images all have shape
  \<open>(c, h, w)\<close>, with at least one channel, \<^verbatim>\<open>gray_collate_fn\<close> returns the pair
  \<open>(xn, x)\<close>: \<open>x\<close> of shape \<open>(n, c, h, w)\<close> holds image \<open>b\<close> at position \<open>b\<close>, and \<open>xn\<close> of shape
  \<open>(n, 1, h, w)\<close> holds the mean over the channels of every pixel; the labels are not
  used. For a positive \<open>patch_num = P\<close>, images of shape \<open>(c, P * h, P * w)\<close> and labels
  that are 64-bit integers,
  \<^verbatim>\<open>LitCifar10.collate_fn\<close> returns \<open>(x, y)\<close>: \<open>y\<close> is the tensor of the \<open>n\<close> labels, and \<open>x\<close> of
  shape \<open>(n, P * P, c * h * w)\<close> holds, for image \<open>b\<close>, patch \<open>(p1, p2)\<close> as row \<open>p1 * P + p2\<close>,
  flattened channel by channel and row by row.
\<close>

theorem collate_functions:
  "(batch_ok batch c H W \<longrightarrow>
      (\<exists>xn x. gray_collate_fn batch = Inr (xn, x) \<and>
           shape x = [length batch, c, H, W] \<and> shape xn = [length batch, 1, H, W] \<and>
           (\<forall>b ch i j. b < length batch \<and> ch < c \<and> i < H \<and> j < W \<longrightarrow>
               elem_at x [b, ch, i, j] = elem_at (fst (batch ! b)) [ch, i, j]) \<and>
           (\<forall>b i j. b < length batch \<and> i < H \<and> j < W \<longrightarrow>
               elem_at xn [b, 0, i, j] = sum_upto c (\<lambda>ch. elem_at x [b, ch, i, j]) / real c))) \<and>
   (batch_ok batch c (P * h) (P * w) \<and> labels_ok batch \<and> patch_num self = int P \<and> 0 < P \<longrightarrow>
      (\<exists>x. collate_fn self batch = Inr (x, \<lparr>shape = [length batch], elems = map snd batch\<rparr>) \<and>
           shape x = [length batch, P * P, c * h * w] \<and>
           (\<forall>b p1 p2 ch i j. b < length batch \<and> p1 < P \<and> p2 < P \<and> ch < c \<and> i < h \<and> j < w \<longrightarrow>
               elem_at x [b, p1 * P + p2, (ch * h + i) * w + j] =
               elem_at (fst (batch ! b)) [ch, p1 * h + i, p2 * w + j])))"
  using gray_collate_fn_ok [of batch c H W] collate_fn_ok [of batch c P h w self] by blast

lemma example_batch_labels_ok: "labels_ok example_batch"
  by (simp add: labels_ok_def example_batch_def int64_def)

lemma example_batch_ok: "batch_ok example_batch 2 2 2"
  by (simp add: batch_ok_def example_batch_def example_image_def wf_tensor_def zeros_def)

theorem collate_functions_witness:
  "batch_ok example_batch 2 2 2 \<and>
   (\<exists>xn x. gray_collate_fn example_batch = Inr (xn, x) \<and>
        shape x = [2, 2, 2, 2] \<and> shape xn = [2, 1, 2, 2]) \<and>
   batch_ok example_batch 2 (2 * 1) (2 * 1) \<and> labels_ok example_batch \<and>
   patch_num (LitCifar10_init 32 32 2) = int 2 \<and> (0::nat) < 2 \<and>
   (\<exists>x. collate_fn (LitCifar10_init 32 32 2) example_batch = Inr (x, \<lparr>shape = [2], elems = [3, 7]\<rparr>) \<and>
        shape x = [2, 4, 2])"
proof -
  have b: "batch_ok example_batch 2 (2 * 1) (2 * 1)"
    using example_batch_ok by simp
  have p: "patch_num (LitCifar10_init 32 32 2) = int 2"
    by (simp add: LitCifar10_init_def)
  have l: "length example_batch = 2" "map snd example_batch = [3, 7]"
    by (simp_all add: example_batch_def)
  from collate_functions [of example_batch 2 2 2 2 1 1 "LitCifar10_init 32 32 2"]
    example_batch_ok example_batch_labels_ok b p l
  show ?thesis by simp blast
qed

subsection \<open>Optimizers\<close>

lemma example_lit_colorize_built:
  "LitColorizeCIFAR10Model_init zeros_init 256 (1 / 1000) 64 4 30 = Inr example_lit_colorize"
  by (simp add: LitColorizeCIFAR10Model_init_def example_encoder_built example_decoder_built
      example_lit_colorize_def del: One_nat_def)

lemma example_lit_transformer_built:
  "LitTransformer_init zeros_init relu 10 (1 / 1000) 30 2 4 2 3 2 = Inr example_lit_transformer"
  by (simp add: LitTransformer_init_def example_transformer_built nn_Linear_def zeros_init_small
      example_lit_transformer_def)

lemma example_lit_mlp_built:
  "LitCIFAR10Model_init zeros_init 10 (1 / 1000) 64 4 30 SimpleMLP_class = Inr example_lit_mlp"
  by (simp add: LitCIFAR10Model_init_def model_init_def SimpleMLP_init_def nn_Linear_def
      zeros_init_small example_lit_mlp_def example_cifar_mlp_def)

lemma torch_Adam_ok:
  "0 \<le> l \<Longrightarrow> ps \<noteq> [] \<Longrightarrow>
   torch_Adam ps l = Inr \<lparr>params = ps, adam_lr = l, betas = (9 / 10, 999 / 1000),
                          adam_eps = 1 / 100000000, weight_decay = 0\<rparr>"
  by (simp add: torch_Adam_def)

lemma torch_Adam_negative: "l < 0 \<Longrightarrow> torch_Adam ps l = Inl ValueError"
  by (simp add: torch_Adam_def)

lemma Block_parameters_built:
  assumes "bias (qkv (attn b)) = None" "bias (proj (attn b)) \<noteq> None"
    "bias (Mlp.fc1 (mlp b)) \<noteq> None" "bias (Mlp.fc2 (mlp b)) \<noteq> None"
  shows "Block_parameters b =
         [ln_weight (norm1 b), ln_bias (norm1 b),
          weight (qkv (attn b)), weight (proj (attn b)), the (bias (proj (attn b))),
          ln_weight (norm2 b), ln_bias (norm2 b),
          weight (Mlp.fc1 (mlp b)), the (bias (Mlp.fc1 (mlp b))),
          weight (Mlp.fc2 (mlp b)), the (bias (Mlp.fc2 (mlp b)))]"
  using assms by (auto simp: Block_parameters_def Attention_parameters_def Linear_parameters_def)

lemma LitColorizeCIFAR10Model_parameters_built:
  assumes "bias (Encoder.fc1 (LitColorizeCIFAR10Model.encoder m)) = Some be"
    "bias (Decoder.fc1 (LitColorizeCIFAR10Model.decoder m)) = Some bd"
  shows "LitColorizeCIFAR10Model_parameters m =
         [conv_weight (Encoder.conv1 (LitColorizeCIFAR10Model.encoder m)),
          conv_bias (Encoder.conv1 (LitColorizeCIFAR10Model.encoder m)),
          conv_weight (Encoder.conv2 (LitColorizeCIFAR10Model.encoder m)),
          conv_bias (Encoder.conv2 (LitColorizeCIFAR10Model.encoder m)),
          conv_weight (Encoder.conv3 (LitColorizeCIFAR10Model.encoder m)),
          conv_bias (Encoder.conv3 (LitColorizeCIFAR10Model.encoder m)),
          weight (Encoder.fc1 (LitColorizeCIFAR10Model.encoder m)), be,
          weight (Decoder.fc1 (LitColorizeCIFAR10Model.decoder m)), bd,
          convT_weight (Decoder.conv1 (LitColorizeCIFAR10Model.decoder m)),
          convT_bias (Decoder.conv1 (LitColorizeCIFAR10Model.decoder m)),
          convT_weight (Decoder.conv2 (LitColorizeCIFAR10Model.decoder m)),
          convT_bias (Decoder.conv2 (LitColorizeCIFAR10Model.decoder m)),
          convT_weight (Decoder.conv3 (LitColorizeCIFAR10Model.decoder m)),
          convT_bias (Decoder.conv3 (LitColorizeCIFAR10Model.decoder m)),
          convT_weight (conv4 (LitColorizeCIFAR10Model.decoder m)),
          convT_bias (conv4 (LitColorizeCIFAR10Model.decoder m))]"
  using assms
  by (simp add: LitColorizeCIFAR10Model_parameters_def Encoder_parameters_def Decoder_parameters_def
      Conv2d_parameters_def ConvTranspose2d_parameters_def Linear_parameters_def)

lemma LitTransformer_parameters_built:
  assumes "list_all (\<lambda>b. bias (qkv (attn b)) = None \<and> bias (proj (attn b)) \<noteq> None \<and>
                         bias (Mlp.fc1 (mlp b)) \<noteq> None \<and> bias (Mlp.fc2 (mlp b)) \<noteq> None)
             (blocks (LitTransformer.encoder m))"
    "bias (embed m) = Some be" "bias (fc m) = Some bf"
  shows "LitTransformer_parameters m =
         concat (map (\<lambda>b. [ln_weight (norm1 b), ln_bias (norm1 b),
                           weight (qkv (attn b)), weight (proj (attn b)), the (bias (proj (attn b))),
                           ln_weight (norm2 b), ln_bias (norm2 b),
                           weight (Mlp.fc1 (mlp b)), the (bias (Mlp.fc1 (mlp b))),
                           weight (Mlp.fc2 (mlp b)), the (bias (Mlp.fc2 (mlp b)))])
                     (blocks (LitTransformer.encoder m)))
         @ [weight (embed m), be, weight (fc m), bf]"
proof -
  have "map Block_parameters (blocks (LitTransformer.encoder m)) =
        map (\<lambda>b. [ln_weight (norm1 b), ln_bias (norm1 b),
                  weight (qkv (attn b)), weight (proj (attn b)), the (bias (proj (attn b))),
                  ln_weight (norm2 b), ln_bias (norm2 b),
                  weight (Mlp.fc1 (mlp b)), the (bias (Mlp.fc1 (mlp b))),
                  weight (Mlp.fc2 (mlp b)), the (bias (Mlp.fc2 (mlp b)))])
            (blocks (LitTransformer.encoder m))"
    using assms(1) by (intro map_cong refl Block_parameters_built) (auto simp: list_all_iff)
  then have "LitTransformer_parameters m =
        concat (map (\<lambda>b. [ln_weight (norm1 b), ln_bias (norm1 b),
                  weight (qkv (attn b)), weight (proj (attn b)), the (bias (proj (attn b))),
                  ln_weight (norm2 b), ln_bias (norm2 b),
                  weight (Mlp.fc1 (mlp b)), the (bias (Mlp.fc1 (mlp b))),
                  weight (Mlp.fc2 (mlp b)), the (bias (Mlp.fc2 (mlp b)))])
            (blocks (LitTransformer.encoder m)))
        @ Linear_parameters (embed m) @ Linear_parameters (fc m)"
    unfolding LitTransformer_parameters_def Transformer_parameters_def by (rule arg_cong2 [where f = "\<lambda>a b. concat a @ b"]) simp
  also have "Linear_parameters (embed m) @ Linear_parameters (fc m) = [weight (embed m), be, weight (fc m), bf]"
    by (simp add: Linear_parameters_def assms(2,3))
  finally show ?thesis .
qed

lemma LitCIFAR10Model_parameters_built:
  "model m = SimpleMLP_model s \<Longrightarrow> bias (SimpleMLP.fc1 s) = Some c1 \<Longrightarrow>
   bias (SimpleMLP.fc2 s) = Some c2 \<Longrightarrow> bias (fc3 s) = Some c3 \<Longrightarrow>
   LitCIFAR10Model_parameters m =
     [weight (SimpleMLP.fc1 s), c1, weight (SimpleMLP.fc2 s), c2, weight (fc3 s), c3]"
  "model m = TensorMLP_model t \<Longrightarrow>
   LitCIFAR10Model_parameters m = [w1 t, b1 t, w2 t, b2 t, w3 t, b3 t]"
  by (simp_all add: LitCIFAR10Model_parameters_def SimpleMLP_parameters_def TensorMLP_parameters_def
      Linear_parameters_def)

lemma LitColorizeCIFAR10Model_configure_optimizers_ok:
  assumes "0 \<le> lr (LitColorizeCIFAR10Model.hparams m)" "LitColorizeCIFAR10Model_parameters m = ps"
    "ps \<noteq> []"
  shows "\<exists>opt. LitColorizeCIFAR10Model_configure_optimizers m =
           Inr ([opt], [\<lparr>optimizer = opt, T_max = max_epochs (LitColorizeCIFAR10Model.hparams m),
                          eta_min = 0\<rparr>]) \<and>
           params opt = ps \<and> adam_lr opt = lr (LitColorizeCIFAR10Model.hparams m)"
  using assms
  by (simp add: LitColorizeCIFAR10Model_configure_optimizers_def torch_Adam_ok
      torch_CosineAnnealingLR_def)

lemma LitTransformer_configure_optimizers_ok:
  assumes "0 \<le> lr (LitTransformer.hparams m)" "LitTransformer_parameters m = ps" "ps \<noteq> []"
  shows "\<exists>opt. LitTransformer_configure_optimizers m =
           Inr ([opt], [\<lparr>optimizer = opt, T_max = max_epochs (LitTransformer.hparams m),
                          eta_min = 0\<rparr>]) \<and>
           params opt = ps \<and> adam_lr opt = lr (LitTransformer.hparams m)"
  using assms
  by (simp add: LitTransformer_configure_optimizers_def torch_Adam_ok torch_CosineAnnealingLR_def)

lemma LitCIFAR10Model_configure_optimizers_ok:
  assumes "0 \<le> lr (hparams m)" "LitCIFAR10Model_parameters m = ps" "ps \<noteq> []"
  shows "\<exists>opt. LitCIFAR10Model_configure_optimizers m =
           Inr ([opt], [\<lparr>optimizer = opt, T_max = max_epochs (hparams m), eta_min = 0\<rparr>]) \<and>
           params opt = ps \<and> adam_lr opt = lr (hparams m)"
  using assms
  by (simp add: LitCIFAR10Model_configure_optimizers_def torch_Adam_ok torch_CosineAnnealingLR_def)

text \<open>
  Claim C6: in each of the three Lightning modules, for a learning rate that is not
  negative, \<^verbatim>\<open>configure_optimizers\<close> returns one Adam optimizer and one cosine-annealing
  scheduler. The optimizer has the learning rate \<^verbatim>\<open>hparams.lr\<close> and holds the parameters
  of the module: every weight and bias of the encoder and the decoder; of every
  transformer block, of the embedding and of the output layer; of the three layers of
  the MLP. The scheduler is on that optimizer, with \<^verbatim>\<open>T_max = hparams.max_epochs\<close>. The two
  hyperparameters are the \<open>lr\<close> and \<open>max_epochs\<close> the module was constructed with. For a
  negative learning rate \<^verbatim>\<open>Adam\<close> raises ValueError, and so does \<^verbatim>\<open>configure_optimizers\<close>.
\<close>

theorem configure_optimizers_adam_cosine:
  "(bias (Encoder.fc1 (LitColorizeCIFAR10Model.encoder m1)) = Some be1 \<and>
    bias (Decoder.fc1 (LitColorizeCIFAR10Model.decoder m1)) = Some bd1 \<and>
    0 \<le> lr (LitColorizeCIFAR10Model.hparams m1) \<longrightarrow>
      (\<exists>opt. LitColorizeCIFAR10Model_configure_optimizers m1 =
           Inr ([opt], [\<lparr>optimizer = opt, T_max = max_epochs (LitColorizeCIFAR10Model.hparams m1),
                          eta_min = 0\<rparr>]) \<and>
         adam_lr opt = lr (LitColorizeCIFAR10Model.hparams m1) \<and>
         params opt =
           [conv_weight (Encoder.conv1 (LitColorizeCIFAR10Model.encoder m1)),
            conv_bias (Encoder.conv1 (LitColorizeCIFAR10Model.encoder m1)),
            conv_weight (Encoder.conv2 (LitColorizeCIFAR10Model.encoder m1)),
            conv_bias (Encoder.conv2 (LitColorizeCIFAR10Model.encoder m1)),
            conv_weight (Encoder.conv3 (LitColorizeCIFAR10Model.encoder m1)),
            conv_bias (Encoder.conv3 (LitColorizeCIFAR10Model.encoder m1)),
            weight (Encoder.fc1 (LitColorizeCIFAR10Model.encoder m1)), be1,
            weight (Decoder.fc1 (LitColorizeCIFAR10Model.decoder m1)), bd1,
            convT_weight (Decoder.conv1 (LitColorizeCIFAR10Model.decoder m1)),
            convT_bias (Decoder.conv1 (LitColorizeCIFAR10Model.decoder m1)),
            convT_weight (Decoder.conv2 (LitColorizeCIFAR10Model.decoder m1)),
            convT_bias (Decoder.conv2 (LitColorizeCIFAR10Model.decoder m1)),
            convT_weight (Decoder.conv3 (LitColorizeCIFAR10Model.decoder m1)),
            convT_bias (Decoder.conv3 (LitColorizeCIFAR10Model.decoder m1)),
            convT_weight (conv4 (LitColorizeCIFAR10Model.decoder m1)),
            convT_bias (conv4 (LitColorizeCIFAR10Model.decoder m1))])) \<and>
   (lr (LitColorizeCIFAR10Model.hparams m1) < 0 \<longrightarrow>
      LitColorizeCIFAR10Model_configure_optimizers m1 = Inl ValueError) \<and>
   (LitColorizeCIFAR10Model_init init fd l1 bs1 nw1 me1 = Inr m1 \<longrightarrow>
      lr (LitColorizeCIFAR10Model.hparams m1) = l1 \<and>
      max_epochs (LitColorizeCIFAR10Model.hparams m1) = me1) \<and>
   (list_all (\<lambda>b. bias (qkv (attn b)) = None \<and> bias (proj (attn b)) \<noteq> None \<and>
                  bias (Mlp.fc1 (mlp b)) \<noteq> None \<and> bias (Mlp.fc2 (mlp b)) \<noteq> None)
      (blocks (LitTransformer.encoder m2)) \<and>
    bias (embed m2) = Some be2 \<and> bias (fc m2) = Some bf2 \<and> 0 \<le> lr (LitTransformer.hparams m2) \<longrightarrow>
      (\<exists>opt. LitTransformer_configure_optimizers m2 =
           Inr ([opt], [\<lparr>optimizer = opt, T_max = max_epochs (LitTransformer.hparams m2),
                          eta_min = 0\<rparr>]) \<and>
         adam_lr opt = lr (LitTransformer.hparams m2) \<and>
         params opt =
           concat (map (\<lambda>b. [ln_weight (norm1 b), ln_bias (norm1 b),
                             weight (qkv (attn b)), weight (proj (attn b)), the (bias (proj (attn b))),
                             ln_weight (norm2 b), ln_bias (norm2 b),
                             weight (Mlp.fc1 (mlp b)), the (bias (Mlp.fc1 (mlp b))),
                             weight (Mlp.fc2 (mlp b)), the (bias (Mlp.fc2 (mlp b)))])
                       (blocks (LitTransformer.encoder m2)))
           @ [weight (embed m2), be2, weight (fc m2), bf2])) \<and>
   (lr (LitTransformer.hparams m2) < 0 \<longrightarrow>
      LitTransformer_configure_optimizers m2 = Inl ValueError) \<and>
   (LitTransformer_init init gelu nc2 l2 me2 dp ed nh pd sl = Inr m2 \<longrightarrow>
      lr (LitTransformer.hparams m2) = l2 \<and> max_epochs (LitTransformer.hparams m2) = me2) \<and>
   (model m3 = SimpleMLP_model s \<and> bias (SimpleMLP.fc1 s) = Some c1 \<and>
    bias (SimpleMLP.fc2 s) = Some c2 \<and> bias (fc3 s) = Some c3 \<and> 0 \<le> lr (hparams m3) \<longrightarrow>
      (\<exists>opt. LitCIFAR10Model_configure_optimizers m3 =
           Inr ([opt], [\<lparr>optimizer = opt, T_max = max_epochs (hparams m3), eta_min = 0\<rparr>]) \<and>
         adam_lr opt = lr (hparams m3) \<and>
         params opt = [weight (SimpleMLP.fc1 s), c1, weight (SimpleMLP.fc2 s), c2, weight (fc3 s), c3])) \<and>
   (model m3 = TensorMLP_model t \<and> 0 \<le> lr (hparams m3) \<longrightarrow>
      (\<exists>opt. LitCIFAR10Model_configure_optimizers m3 =
           Inr ([opt], [\<lparr>optimizer = opt, T_max = max_epochs (hparams m3), eta_min = 0\<rparr>]) \<and>
         adam_lr opt = lr (hparams m3) \<and>
         params opt = [w1 t, b1 t, w2 t, b2 t, w3 t, b3 t])) \<and>
   (lr (hparams m3) < 0 \<longrightarrow> LitCIFAR10Model_configure_optimizers m3 = Inl ValueError) \<and>
   (LitCIFAR10Model_init init nc3 l3 bs3 nw3 me3 cls = Inr m3 \<longrightarrow>
      lr (hparams m3) = l3 \<and> max_epochs (hparams m3) = me3)"
proof -
  have a1: "bias (Encoder.fc1 (LitColorizeCIFAR10Model.encoder m1)) = Some be1 \<and>
    bias (Decoder.fc1 (LitColorizeCIFAR10Model.decoder m1)) = Some bd1 \<and>
    0 \<le> lr (LitColorizeCIFAR10Model.hparams m1) \<longrightarrow>
      (\<exists>opt. LitColorizeCIFAR10Model_configure_optimizers m1 =
           Inr ([opt], [\<lparr>optimizer = opt, T_max = max_epochs (LitColorizeCIFAR10Model.hparams m1),
                          eta_min = 0\<rparr>]) \<and>
         adam_lr opt = lr (LitColorizeCIFAR10Model.hparams m1) \<and>
         params opt =
           [conv_weight (Encoder.conv1 (LitColorizeCIFAR10Model.encoder m1)),
            conv_bias (Encoder.conv1 (LitColorizeCIFAR10Model.encoder m1)),
            conv_weight (Encoder.conv2 (LitColorizeCIFAR10Model.encoder m1)),
            conv_bias (Encoder.conv2 (LitColorizeCIFAR10Model.encoder m1)),
            conv_weight (Encoder.conv3 (LitColorizeCIFAR10Model.encoder m1)),
            conv_bias (Encoder.conv3 (LitColorizeCIFAR10Model.encoder m1)),
            weight (Encoder.fc1 (LitColorizeCIFAR10Model.encoder m1)), be1,
            weight (Decoder.fc1 (LitColorizeCIFAR10Model.decoder m1)), bd1,
            convT_weight (Decoder.conv1 (LitColorizeCIFAR10Model.decoder m1)),
            convT_bias (Decoder.conv1 (LitColorizeCIFAR10Model.decoder m1)),
            convT_weight (Decoder.conv2 (LitColorizeCIFAR10Model.decoder m1)),
            convT_bias (Decoder.conv2 (LitColorizeCIFAR10Model.decoder m1)),
            convT_weight (Decoder.conv3 (LitColorizeCIFAR10Model.decoder m1)),
            convT_bias (Decoder.conv3 (LitColorizeCIFAR10Model.decoder m1)),
            convT_weight (conv4 (LitColorizeCIFAR10Model.decoder m1)),
            convT_bias (conv4 (LitColorizeCIFAR10Model.decoder m1))])"
    using LitColorizeCIFAR10Model_configure_optimizers_ok [of m1, OF _ LitColorizeCIFAR10Model_parameters_built]
    by blast
  have b1: "lr (LitColorizeCIFAR10Model.hparams m1) < 0 \<longrightarrow>
      LitColorizeCIFAR10Model_configure_optimizers m1 = Inl ValueError"
    by (simp add: LitColorizeCIFAR10Model_configure_optimizers_def torch_Adam_negative)
  have c1: "LitColorizeCIFAR10Model_init init fd l1 bs1 nw1 me1 = Inr m1 \<longrightarrow>
      lr (LitColorizeCIFAR10Model.hparams m1) = l1 \<and>
      max_epochs (LitColorizeCIFAR10Model.hparams m1) = me1"
    by (auto simp: LitColorizeCIFAR10Model_init_def ebind_def split: sum.splits)
  have a2: "list_all (\<lambda>b. bias (qkv (attn b)) = None \<and> bias (proj (attn b)) \<noteq> None \<and>
                  bias (Mlp.fc1 (mlp b)) \<noteq> None \<and> bias (Mlp.fc2 (mlp b)) \<noteq> None)
      (blocks (LitTransformer.encoder m2)) \<and>
    bias (embed m2) = Some be2 \<and> bias (fc m2) = Some bf2 \<and> 0 \<le> lr (LitTransformer.hparams m2) \<longrightarrow>
      (\<exists>opt. LitTransformer_configure_optimizers m2 =
           Inr ([opt], [\<lparr>optimizer = opt, T_max = max_epochs (LitTransformer.hparams m2),
                          eta_min = 0\<rparr>]) \<and>
         adam_lr opt = lr (LitTransformer.hparams m2) \<and>
         params opt =
           concat (map (\<lambda>b. [ln_weight (norm1 b), ln_bias (norm1 b),
                             weight (qkv (attn b)), weight (proj (attn b)), the (bias (proj (attn b))),
                             ln_weight (norm2 b), ln_bias (norm2 b),
                             weight (Mlp.fc1 (mlp b)), the (bias (Mlp.fc1 (mlp b))),
                             weight (Mlp.fc2 (mlp b)), the (bias (Mlp.fc2 (mlp b)))])
                       (blocks (LitTransformer.encoder m2)))
           @ [weight (embed m2), be2, weight (fc m2), bf2])"
    using LitTransformer_configure_optimizers_ok [of m2, OF _ LitTransformer_parameters_built]
    by blast
  have b2: "lr (LitTransformer.hparams m2) < 0 \<longrightarrow>
      LitTransformer_configure_optimizers m2 = Inl ValueError"
    by (simp add: LitTransformer_configure_optimizers_def torch_Adam_negative)
  have c2: "LitTransformer_init init gelu nc2 l2 me2 dp ed nh pd sl = Inr m2 \<longrightarrow>
      lr (LitTransformer.hparams m2) = l2 \<and> max_epochs (LitTransformer.hparams m2) = me2"
    by (auto simp: LitTransformer_init_def ebind_def split: sum.splits)
  have a3: "model m3 = SimpleMLP_model s \<and> bias (SimpleMLP.fc1 s) = Some c1 \<and>
    bias (SimpleMLP.fc2 s) = Some c2 \<and> bias (fc3 s) = Some c3 \<and> 0 \<le> lr (hparams m3) \<longrightarrow>
      (\<exists>opt. LitCIFAR10Model_configure_optimizers m3 =
           Inr ([opt], [\<lparr>optimizer = opt, T_max = max_epochs (hparams m3), eta_min = 0\<rparr>]) \<and>
         adam_lr opt = lr (hparams m3) \<and>
         params opt = [weight (SimpleMLP.fc1 s), c1, weight (SimpleMLP.fc2 s), c2, weight (fc3 s), c3])"
    using LitCIFAR10Model_configure_optimizers_ok [of m3, OF _ LitCIFAR10Model_parameters_built(1)]
    by blast
  have a4: "model m3 = TensorMLP_model t \<and> 0 \<le> lr (hparams m3) \<longrightarrow>
      (\<exists>opt. LitCIFAR10Model_configure_optimizers m3 =
           Inr ([opt], [\<lparr>optimizer = opt, T_max = max_epochs (hparams m3), eta_min = 0\<rparr>]) \<and>
         adam_lr opt = lr (hparams m3) \<and>
         params opt = [w1 t, b1 t, w2 t, b2 t, w3 t, b3 t])"
    using LitCIFAR10Model_configure_optimizers_ok [of m3, OF _ LitCIFAR10Model_parameters_built(2)]
    by blast
  have b3: "lr (hparams m3) < 0 \<longrightarrow> LitCIFAR10Model_configure_optimizers m3 = Inl ValueError"
    by (simp add: LitCIFAR10Model_configure_optimizers_def torch_Adam_negative)
  have c3: "LitCIFAR10Model_init init nc3 l3 bs3 nw3 me3 cls = Inr m3 \<longrightarrow>
      lr (hparams m3) = l3 \<and> max_epochs (hparams m3) = me3"
    by (auto simp: LitCIFAR10Model_init_def ebind_def split: sum.splits)
  show ?thesis
    by (intro conjI a1 b1 c1 a2 b2 c2 a3 a4 b3 c3)
qed

theorem configure_optimizers_adam_cosine_witness:
  "(\<exists>opt. LitColorizeCIFAR10Model_configure_optimizers example_lit_colorize =
       Inr ([opt], [\<lparr>optimizer = opt, T_max = 30, eta_min = 0\<rparr>]) \<and>
     adam_lr opt = 1 / 1000 \<and>
     params opt =
       [zeros [64, 1, 3, 3], zeros [64], zeros [128, 64, 3, 3], zeros [128],
        zeros [256, 128, 3, 3], zeros [256], zeros [256, 2304], zeros [256],
        zeros [16384, 256], zeros [16384], zeros [256, 128, 3, 3], zeros [128],
        zeros [128, 64, 3, 3], zeros [64], zeros [64, 64, 3, 3], zeros [64],
        zeros [64, 3, 4, 4], zeros [3]]) \<and>
   LitColorizeCIFAR10Model_configure_optimizers
     (example_lit_colorize\<lparr>LitColorizeCIFAR10Model.hparams :=
        (LitColorizeCIFAR10Model.hparams example_lit_colorize)\<lparr>lr := - 1\<rparr>\<rparr>) = Inl ValueError \<and>
   LitColorizeCIFAR10Model_init zeros_init 256 (1 / 1000) 64 4 30 = Inr example_lit_colorize \<and>
   (\<exists>opt. LitTransformer_configure_optimizers example_lit_transformer =
       Inr ([opt], [\<lparr>optimizer = opt, T_max = 30, eta_min = 0\<rparr>]) \<and>
     adam_lr opt = 1 / 1000 \<and>
     params opt =
       [zeros [4], zeros [4], zeros [12, 4], zeros [4, 4], zeros [4], zeros [4], zeros [4],
        zeros [16, 4], zeros [16], zeros [4, 16], zeros [4],
        zeros [4], zeros [4], zeros [12, 4], zeros [4, 4], zeros [4], zeros [4], zeros [4],
        zeros [16, 4], zeros [16], zeros [4, 16], zeros [4],
        zeros [4, 3], zeros [4], zeros [10, 8], zeros [10]]) \<and>
   LitTransformer_configure_optimizers
     (example_lit_transformer\<lparr>LitTransformer.hparams :=
        (LitTransformer.hparams example_lit_transformer)\<lparr>lr := - 1\<rparr>\<rparr>) = Inl ValueError \<and>
   LitTransformer_init zeros_init relu 10 (1 / 1000) 30 2 4 2 3 2 = Inr example_lit_transformer \<and>
   (\<exists>opt. LitCIFAR10Model_configure_optimizers example_lit_mlp =
       Inr ([opt], [\<lparr>optimizer = opt, T_max = 30, eta_min = 0\<rparr>]) \<and>
     adam_lr opt = 1 / 1000 \<and>
     params opt =
       [zeros [512, 3072], zeros [512], zeros [512, 512], zeros [512], zeros [10, 512], zeros [10]]) \<and>
   (\<exists>opt. LitCIFAR10Model_configure_optimizers
           (example_lit_mlp\<lparr>model := TensorMLP_model example_tensor_mlp\<rparr>) =
       Inr ([opt], [\<lparr>optimizer = opt, T_max = 30, eta_min = 0\<rparr>]) \<and>
     adam_lr opt = 1 / 1000 \<and>
     params opt = [zeros [5, 12], zeros [5], zeros [5, 5], zeros [5], zeros [2, 5], zeros [2]]) \<and>
   LitCIFAR10Model_configure_optimizers
     (example_lit_mlp\<lparr>hparams := (hparams example_lit_mlp)\<lparr>lr := - 1\<rparr>\<rparr>) = Inl ValueError \<and>
   LitCIFAR10Model_init zeros_init 10 (1 / 1000) 64 4 30 SimpleMLP_class = Inr example_lit_mlp"
proof -
  note t = configure_optimizers_adam_cosine [where ?m1.0 = example_lit_colorize
      and ?be1.0 = "zeros [256]" and ?bd1.0 = "zeros [16384]"
      and ?m2.0 = example_lit_transformer and ?be2.0 = "zeros [4]" and ?bf2.0 = "zeros [10]"
      and ?m3.0 = example_lit_mlp and s = example_cifar_mlp
      and ?c1.0 = "zeros [512]" and ?c2.0 = "zeros [512]" and ?c3.0 = "zeros [10]"
      and init = zeros_init and fd = 256 and ?l1.0 = "1 / 1000" and ?bs1.0 = 64 and ?nw1.0 = 4
      and ?me1.0 = 30 and gelu = relu and ?nc2.0 = 10 and ?l2.0 = "1 / 1000" and ?me2.0 = 30
      and dp = 2 and ed = 4 and nh = 2 and pd = 3 and sl = 2 and ?nc3.0 = 10 and ?l3.0 = "1 / 1000"
      and ?bs3.0 = 64 and ?nw3.0 = 4 and ?me3.0 = 30 and cls = SimpleMLP_class]
  note n1 = configure_optimizers_adam_cosine [where ?m1.0 =
      "example_lit_colorize\<lparr>LitColorizeCIFAR10Model.hparams :=
        (LitColorizeCIFAR10Model.hparams example_lit_colorize)\<lparr>lr := - 1\<rparr>\<rparr>"
      and ?m2.0 = "example_lit_transformer\<lparr>LitTransformer.hparams :=
        (LitTransformer.hparams example_lit_transformer)\<lparr>lr := - 1\<rparr>\<rparr>"
      and ?m3.0 = "example_lit_mlp\<lparr>hparams := (hparams example_lit_mlp)\<lparr>lr := - 1\<rparr>\<rparr>"]
  note n2 = configure_optimizers_adam_cosine [where
      ?m3.0 = "example_lit_mlp\<lparr>model := TensorMLP_model example_tensor_mlp\<rparr>"
      and t = example_tensor_mlp]
  have 1: "\<exists>opt. LitColorizeCIFAR10Model_configure_optimizers example_lit_colorize =
       Inr ([opt], [\<lparr>optimizer = opt, T_max = 30, eta_min = 0\<rparr>]) \<and>
     adam_lr opt = 1 / 1000 \<and>
     params opt =
       [zeros [64, 1, 3, 3], zeros [64], zeros [128, 64, 3, 3], zeros [128],
        zeros [256, 128, 3, 3], zeros [256], zeros [256, 2304], zeros [256],
        zeros [16384, 256], zeros [16384], zeros [256, 128, 3, 3], zeros [128],
        zeros [128, 64, 3, 3], zeros [64], zeros [64, 64, 3, 3], zeros [64],
        zeros [64, 3, 4, 4], zeros [3]]"
    using t [THEN conjunct1]
    by (simp add: example_lit_colorize_def example_encoder_def example_decoder_def)
  have 2: "LitColorizeCIFAR10Model_configure_optimizers
     (example_lit_colorize\<lparr>LitColorizeCIFAR10Model.hparams :=
        (LitColorizeCIFAR10Model.hparams example_lit_colorize)\<lparr>lr := - 1\<rparr>\<rparr>) = Inl ValueError"
    using n1 [THEN conjunct2, THEN conjunct1] by simp
  have 3: "\<exists>opt. LitTransformer_configure_optimizers example_lit_transformer =
       Inr ([opt], [\<lparr>optimizer = opt, T_max = 30, eta_min = 0\<rparr>]) \<and>
     adam_lr opt = 1 / 1000 \<and>
     params opt =
       [zeros [4], zeros [4], zeros [12, 4], zeros [4, 4], zeros [4], zeros [4], zeros [4],
        zeros [16, 4], zeros [16], zeros [4, 16], zeros [4],
        zeros [4], zeros [4], zeros [12, 4], zeros [4, 4], zeros [4], zeros [4], zeros [4],
        zeros [16, 4], zeros [16], zeros [4, 16], zeros [4],
        zeros [4, 3], zeros [4], zeros [10, 8], zeros [10]]"
    using t [THEN conjunct2, THEN conjunct2, THEN conjunct2, THEN conjunct1]
    by (simp add: example_lit_transformer_def example_transformer_def example_block_def
        example_attention_def example_norm_def example_mlp_def)
  have 4: "LitTransformer_configure_optimizers
     (example_lit_transformer\<lparr>LitTransformer.hparams :=
        (LitTransformer.hparams example_lit_transformer)\<lparr>lr := - 1\<rparr>\<rparr>) = Inl ValueError"
    using n1 [THEN conjunct2, THEN conjunct2, THEN conjunct2, THEN conjunct2, THEN conjunct1] by simp
  have 5: "\<exists>opt. LitCIFAR10Model_configure_optimizers example_lit_mlp =
       Inr ([opt], [\<lparr>optimizer = opt, T_max = 30, eta_min = 0\<rparr>]) \<and>
     adam_lr opt = 1 / 1000 \<and>
     params opt =
       [zeros [512, 3072], zeros [512], zeros [512, 512], zeros [512], zeros [10, 512], zeros [10]]"
    using t [THEN conjunct2, THEN conjunct2, THEN conjunct2, THEN conjunct2, THEN conjunct2,
        THEN conjunct2, THEN conjunct1]
    by (simp add: example_lit_mlp_def example_cifar_mlp_def)
  have 6: "\<exists>opt. LitCIFAR10Model_configure_optimizers
           (example_lit_mlp\<lparr>model := TensorMLP_model example_tensor_mlp\<rparr>) =
       Inr ([opt], [\<lparr>optimizer = opt, T_max = 30, eta_min = 0\<rparr>]) \<and>
     adam_lr opt = 1 / 1000 \<and>
     params opt = [zeros [5, 12], zeros [5], zeros [5, 5], zeros [5], zeros [2, 5], zeros [2]]"
    using n2 [THEN conjunct2, THEN conjunct2, THEN conjunct2, THEN conjunct2, THEN conjunct2,
        THEN conjunct2, THEN conjunct2, THEN conjunct1]
    by (simp add: example_lit_mlp_def example_tensor_mlp_def)
  have 7: "LitCIFAR10Model_configure_optimizers
     (example_lit_mlp\<lparr>hparams := (hparams example_lit_mlp)\<lparr>lr := - 1\<rparr>\<rparr>) = Inl ValueError"
    using n1 [THEN conjunct2, THEN conjunct2, THEN conjunct2, THEN conjunct2, THEN conjunct2,
        THEN conjunct2, THEN conjunct2, THEN conjunct2, THEN conjunct1] by simp
  show ?thesis
    using 1 2 3 4 5 6 7 example_lit_colorize_built example_lit_transformer_built example_lit_mlp_built
    by simp
qed

subsection \<open>Training steps\<close>



















lemma example_labels_ok:
  "shape example_labels = [2]" "length (elems example_labels) = 2"
  "list_all (\<lambda>t. 0 \<le> t \<and> t < int 10) (elems example_labels)"
  by (simp_all add: example_labels_def)




subsection \<open>Callbacks\<close>

lemma tensor_rows_select:
  "shape t = d # ds \<Longrightarrow> tensor_rows t = Inr (map (select0 t) [0..<d])"
  by (simp add: tensor_rows_def torch_unbind0_def select0_def)

lemma take_upt0: "take n [0..<B] = [0..<min n B]"
  by (cases "n \<le> B") (simp_all add: min_def)

lemma zip3_take_map:
  "zip (take n (map f [0..<B])) (zip (take n (map g [0..<B])) (take n (map h [0..<B]))) =
   map (\<lambda>k. (f k, g k, h k)) [0..<min n B]"
  by (simp add: take_map take_upt0 zip_map_map zip_same_conv_map)

lemma zip3_take_nth:
  assumes "length ys = B"
  shows "zip (take n (map f [0..<B])) (zip (take n ys) (take n (map h [0..<B]))) =
         map (\<lambda>k. (f k, ys ! k, h k)) [0..<min n B]"
proof -
  have e: "map (\<lambda>k. ys ! k) [0..<B] = ys"
    unfolding assms [symmetric] by (rule map_nth)
  show ?thesis
    using zip3_take_map [of n f B "\<lambda>k. ys ! k" h] by (simp only: e)
qed

lemma emap_map_ok:
  "(\<And>k. k \<in> set ks \<Longrightarrow> f (g k) = Inr (r k)) \<Longrightarrow> emap f (map g ks) = Inr (map r ks)"
  by (induction ks) simp_all

lemma emap_first_error: "f z = Inl e \<Longrightarrow> emap f (z # zs) = Inl e"
  by simp

lemma py_slice_to_nonneg: "0 \<le> n \<Longrightarrow> py_slice_to xs n = take (nat n) xs"
  by (simp add: py_slice_to_def)

lemma foldr_max_in: "foldr max xs (a::real) \<in> insert a (set xs)"
  by (induction xs) (auto simp: max_def)

lemma takeWhile_stops: "x \<in> set xs \<Longrightarrow> \<not> P x \<Longrightarrow> length (takeWhile P xs) < length xs"
  by (induction xs) auto

lemma argmax_list_less: "xs \<noteq> [] \<Longrightarrow> argmax_list xs < length xs"
proof -
  assume ne: "xs \<noteq> []"
  then have "hd xs \<in> set xs" by simp
  with foldr_max_in [of xs "hd xs"] have "foldr max xs (hd xs) \<in> set xs" by auto
  then show ?thesis unfolding argmax_list_def by (rule takeWhile_stops) simp
qed

lemma py_list_get_label:
  "j < 10 \<Longrightarrow> py_list_get label_human (int j) = Inr (label_human ! j)"
  by (simp add: py_list_get_def label_human_def Let_def)

lemma colorize_callback_other_batches:
  "batch_idx \<noteq> 0 \<Longrightarrow>
   colorize_on_validation_batch_end wandb_Image logger m outputs batch batch_idx dl = Inr logger"
  by (simp add: colorize_on_validation_batch_end_def)

lemma mlp_callback_other_batches:
  "batch_idx \<noteq> 0 \<Longrightarrow>
   mlp_on_validation_batch_end wandb_Image logger m outputs batch batch_idx dl = Inr logger"
  by (simp add: mlp_on_validation_batch_end_def)

lemma colorize_callback_rows:
  assumes "py_getitem outputs ''x_tilde'' = Inr (PyTensor xt)"
    "shape x = B # sx" "shape c = B # sc" "shape xt = B # so"
    "0 \<le> colorize_hparams.hp_batch_size (LitColorizeCIFAR10Model.hparams m)"
  shows "colorize_on_validation_batch_end wandb_Image logger m outputs (x, c) 0 dl =
         ebind (emap (colorize_row wandb_Image)
                  (map (\<lambda>k. (select0 c k, select0 x k, select0 xt k))
                     [0..<min (nat (colorize_hparams.hp_batch_size (LitColorizeCIFAR10Model.hparams m) div 4)) B]))
           (\<lambda>rows. Inr (logger @ [\<lparr>key = ''cifar10-colorize-ae'',
                                    columns = [''gt color'', ''gray'', ''colorized''], data = rows\<rparr>]))"
proof -
  have n: "0 \<le> colorize_hparams.hp_batch_size (LitColorizeCIFAR10Model.hparams m) div 4"
    using assms(5) by simp
  show ?thesis
    by (simp add: colorize_on_validation_batch_end_def assms(1) tensor_rows_select [OF assms(2)]
        tensor_rows_select [OF assms(3)] tensor_rows_select [OF assms(4)] Let_def
        py_slice_to_nonneg [OF n] zip3_take_map log_table_def)
qed

lemma colorize_callback_first_batch:
  assumes "py_getitem outputs ''x_tilde'' = Inr (PyTensor xt)"
    "shape x = B # sx" "shape c = B # sc" "shape xt = B # so"
    "0 \<le> colorize_hparams.hp_batch_size (LitColorizeCIFAR10Model.hparams m)"
    "n = min (nat (colorize_hparams.hp_batch_size (LitColorizeCIFAR10Model.hparams m) div 4)) B"
    "\<forall>k<n. wandb_Image (select0 c k) = Inr (ic k) \<and> wandb_Image (select0 x k) = Inr (ix k) \<and>
            wandb_Image (select0 xt k) = Inr (io k)"
  shows "colorize_on_validation_batch_end wandb_Image logger m outputs (x, c) 0 dl =
           Inr (logger @ [\<lparr>key = ''cifar10-colorize-ae'',
                           columns = [''gt color'', ''gray'', ''colorized''],
                           data = map (\<lambda>k. [Image (ic k), Image (ix k), Image (io k)]) [0..<n]\<rparr>])"
proof -
  have "emap (colorize_row wandb_Image)
          (map (\<lambda>k. (select0 c k, select0 x k, select0 xt k)) [0..<n]) =
        Inr (map (\<lambda>k. [Image (ic k), Image (ix k), Image (io k)]) [0..<n])"
    using assms(7) by (intro emap_map_ok) (simp add: colorize_row_def)
  then show ?thesis
    unfolding colorize_callback_rows [OF assms(1-5)] assms(6) [symmetric] by simp
qed

lemma colorize_callback_image_error:
  assumes "py_getitem outputs ''x_tilde'' = Inr (PyTensor xt)"
    "shape x = B # sx" "shape c = B # sc" "shape xt = B # so"
    "4 \<le> colorize_hparams.hp_batch_size (LitColorizeCIFAR10Model.hparams m)" "0 < B"
    "wandb_Image (select0 c 0) = Inl e"
  shows "colorize_on_validation_batch_end wandb_Image logger m outputs (x, c) 0 dl = Inl e"
proof -
  have p: "0 \<le> colorize_hparams.hp_batch_size (LitColorizeCIFAR10Model.hparams m)"
    using assms(5) by simp
  have "0 < nat (colorize_hparams.hp_batch_size (LitColorizeCIFAR10Model.hparams m) div 4)"
    using assms(5) by (simp add: pos_imp_zdiv_pos_iff)
  then have "0 < min (nat (colorize_hparams.hp_batch_size (LitColorizeCIFAR10Model.hparams m) div 4)) B"
    using assms(6) by simp
  then have u: "[0..<min (nat (colorize_hparams.hp_batch_size (LitColorizeCIFAR10Model.hparams m) div 4)) B]
      = 0 # [1..<min (nat (colorize_hparams.hp_batch_size (LitColorizeCIFAR10Model.hparams m) div 4)) B]"
    by (simp add: upt_conv_Cons)
  show ?thesis
    unfolding colorize_callback_rows [OF assms(1-4) p] u
    by (simp add: colorize_row_def assms(7))
qed

lemma int_rows_elems: "shape t = [B] \<Longrightarrow> length (elems t) = B \<Longrightarrow> int_rows t = Inr (elems t)"
  by (simp add: int_rows_def)

lemma mlp_callback_rows:
  assumes "py_getitem outputs ''y_hat'' = Inr (PyTensor y_hat)" "shape y_hat = [B, K]" "0 < K"
    "shape x = B # sx" "shape y = [B]" "length (elems y) = B"
  shows "mlp_on_validation_batch_end wandb_Image logger m outputs (x, y) 0 dl =
         ebind (emap (prediction_row wandb_Image)
                  (map (\<lambda>k. (select0 x k, elems y ! k,
                              int (argmax_list (map (\<lambda>j. elem_at y_hat [k, j]) [0..<K]))))
                     [0..<min 10 B]))
           (\<lambda>rows. Inr (logger @ [\<lparr>key = model_class_name (model m),
                                    columns = [''image'', ''ground truth'', ''prediction''],
                                    data = rows\<rparr>]))"
proof -
  define p where "p = (\<lambda>b. int (argmax_list (map (\<lambda>j. elem_at y_hat [b, j]) [0..<K])))"
  have am: "torch_argmax1 y_hat = Inr \<lparr>shape = [B], elems = map p [0..<B]\<rparr>"
    using assms(2,3) by (simp add: torch_argmax1_def p_def)
  have ir: "int_rows \<lparr>shape = [B], elems = map p [0..<B]\<rparr> = Inr (map p [0..<B])"
    by (simp add: int_rows_def)
  have z: "zip (take 10 (map (select0 x) [0..<B])) (zip (take 10 (elems y)) (take 10 (map p [0..<B])))
         = map (\<lambda>k. (select0 x k, elems y ! k, p k)) [0..<min 10 B]"
    by (rule zip3_take_nth [OF assms(6)])
  have "mlp_on_validation_batch_end wandb_Image logger m outputs (x, y) 0 dl =
         ebind (emap (prediction_row wandb_Image)
                  (map (\<lambda>k. (select0 x k, elems y ! k, p k)) [0..<min 10 B]))
           (\<lambda>rows. Inr (logger @ [\<lparr>key = model_class_name (model m),
                                    columns = [''image'', ''ground truth'', ''prediction''],
                                    data = rows\<rparr>]))"
    by (simp add: mlp_on_validation_batch_end_def assms(1) am tensor_rows_select [OF assms(4)]
        int_rows_elems [OF assms(5,6)] ir py_slice_to_def z log_table_def)
  then show ?thesis
    unfolding p_def .
qed

lemma mlp_callback_first_batch:
  assumes "py_getitem outputs ''y_hat'' = Inr (PyTensor y_hat)" "shape y_hat = [B, K]" "0 < K" "K \<le> 10"
    "shape x = B # sx" "shape y = [B]" "length (elems y) = B"
    "list_all (\<lambda>t. 0 \<le> t \<and> t < 10) (elems y)" "n = min 10 B"
    "\<forall>k<n. wandb_Image (select0 x k) = Inr (ix k)"
  shows "mlp_on_validation_batch_end wandb_Image logger m outputs (x, y) 0 dl =
           Inr (logger @ [\<lparr>key = model_class_name (model m),
                           columns = [''image'', ''ground truth'', ''prediction''],
                           data = map (\<lambda>k. [Image (ix k), Text (label_human ! nat (elems y ! k)),
                                             Text (label_human !
                                               argmax_list (map (\<lambda>j. elem_at y_hat [k, j]) [0..<K]))])
                                    [0..<n]\<rparr>])"
proof -
  have row: "prediction_row wandb_Image
               (select0 x k, elems y ! k, int (argmax_list (map (\<lambda>j. elem_at y_hat [k, j]) [0..<K]))) =
             Inr [Image (ix k), Text (label_human ! nat (elems y ! k)),
                  Text (label_human ! argmax_list (map (\<lambda>j. elem_at y_hat [k, j]) [0..<K]))]"
    if "k \<in> set [0..<n]" for k
  proof -
    from that have kn: "k < n" by simp
    then have kB: "k < B" using assms(9) by simp
    then have "elems y ! k \<in> set (elems y)" using assms(7) by simp
    with assms(8) have r: "0 \<le> elems y ! k" "elems y ! k < 10" by (auto simp: list_all_iff)
    then have g: "py_list_get label_human (elems y ! k) = Inr (label_human ! nat (elems y ! k))"
      using py_list_get_label [of "nat (elems y ! k)"] by simp
    have "argmax_list (map (\<lambda>j. elem_at y_hat [k, j]) [0..<K]) < K"
      using argmax_list_less [of "map (\<lambda>j. elem_at y_hat [k, j]) [0..<K]"] assms(3) by simp
    then have "argmax_list (map (\<lambda>j. elem_at y_hat [k, j]) [0..<K]) < 10"
      using assms(4) by simp
    note pr = py_list_get_label [OF this]
    show ?thesis
      using assms(10) kn by (simp add: prediction_row_def g pr)
  qed
  have "emap (prediction_row wandb_Image)
          (map (\<lambda>k. (select0 x k, elems y ! k,
                      int (argmax_list (map (\<lambda>j. elem_at y_hat [k, j]) [0..<K])))) [0..<n]) =
        Inr (map (\<lambda>k. [Image (ix k), Text (label_human ! nat (elems y ! k)),
                        Text (label_human ! argmax_list (map (\<lambda>j. elem_at y_hat [k, j]) [0..<K]))])
               [0..<n])"
    by (intro emap_map_ok row)
  then show ?thesis
    unfolding mlp_callback_rows [OF assms(1,2,3,5,6,7)] assms(9) [symmetric] by simp
qed

lemma mlp_callback_image_error:
  assumes "py_getitem outputs ''y_hat'' = Inr (PyTensor y_hat)" "shape y_hat = [B, K]" "0 < K"
    "shape x = B # sx" "shape y = [B]" "length (elems y) = B" "0 < B"
    "wandb_Image (select0 x 0) = Inl e"
  shows "mlp_on_validation_batch_end wandb_Image logger m outputs (x, y) 0 dl = Inl e"
proof -
  have u: "[0..<min 10 B] = 0 # [1..<min 10 B]"
    using assms(7) by (simp add: upt_conv_Cons)
  show ?thesis
    unfolding mlp_callback_rows [OF assms(1-6)] u
    by (simp add: prediction_row_def assms(8))
qed

lemma validation_batches_rest:
  assumes "\<And>st outputs batch j. j \<noteq> 0 \<Longrightarrow> hook st outputs batch j 0 = Inr st" "0 < i"
  shows "validation_batches hook st rest i = Inr st"
  using assms(2)
proof (induction rest arbitrary: i)
  case Nil
  then show ?case by simp
next
  case (Cons ob rest)
  obtain outputs batch where ob: "ob = (outputs, batch)" by (cases ob) auto
  have "hook st outputs batch i 0 = Inr st" using Cons.prems by (intro assms(1)) simp
  moreover have "validation_batches hook st rest (i + 1) = Inr st"
    using Cons.prems by (intro Cons.IH) simp
  ultimately show ?case by (simp add: ob)
qed

lemma validation_batches_once:
  assumes "\<And>st outputs batch j. j \<noteq> 0 \<Longrightarrow> hook st outputs batch j 0 = Inr st"
    "hook st outputs batch 0 0 = Inr st'"
  shows "validation_batches hook st ((outputs, batch) # rest) 0 = Inr st'"
  using validation_batches_rest [where hook = hook and st = st' and rest = rest and i = 1, OF assms(1)]
    assms(2) by simp

text \<open>
  Claim C7: both callbacks log on the first batch of a validation pass and on no other.
  For every \<open>batch_idx\<close> other than 0 the hook returns the logger as it was. For
  \<open>batch_idx = 0\<close> it adds exactly one table, with one row per sample for the first \<open>n\<close>
  samples of the batch, provided \<^verbatim>\<open>wandb.Image\<close> accepts the slices it is given. The
  colorization callback logs, for \<open>n\<close> the smaller of \<open>batch_size // 4\<close> and the batch length,
  the images of the color slice, the gray slice and the slice of \<^verbatim>\<open>outputs["x_tilde"]\<close>. The
  classifier callback logs, for \<open>n\<close> the smaller of 10 and the batch length, the image of
  the input slice, the name of the label and the name of the class with the largest score
  in \<^verbatim>\<open>outputs["y_hat"]\<close>. A validation pass that starts with such a batch ends with exactly
  this one table added, however many batches follow. When \<^verbatim>\<open>wandb.Image\<close> raises on the first
  slice, the hook raises and logs nothing.
\<close>

theorem callbacks_log_on_first_batch_only:
  "(batch_idx \<noteq> 0 \<longrightarrow>
      colorize_on_validation_batch_end wandb_Image logger m1 outputs1 batch1 batch_idx dl = Inr logger) \<and>
   (batch_idx \<noteq> 0 \<longrightarrow>
      mlp_on_validation_batch_end wandb_Image logger m3 outputs3 batch3 batch_idx dl = Inr logger) \<and>
   (py_getitem outputs1 ''x_tilde'' = Inr (PyTensor xt) \<and>
    shape x1 = B1 # sx1 \<and> shape c1 = B1 # sc1 \<and> shape xt = B1 # so1 \<and>
    0 \<le> colorize_hparams.hp_batch_size (LitColorizeCIFAR10Model.hparams m1) \<and>
    n1 = min (nat (colorize_hparams.hp_batch_size (LitColorizeCIFAR10Model.hparams m1) div 4)) B1 \<and>
    (\<forall>k<n1. wandb_Image (select0 c1 k) = Inr (ic k) \<and> wandb_Image (select0 x1 k) = Inr (ix1 k) \<and>
             wandb_Image (select0 xt k) = Inr (io k)) \<longrightarrow>
      colorize_on_validation_batch_end wandb_Image logger m1 outputs1 (x1, c1) 0 dl =
        Inr (logger @ [\<lparr>key = ''cifar10-colorize-ae'',
                        columns = [''gt color'', ''gray'', ''colorized''],
                        data = map (\<lambda>k. [Image (ic k), Image (ix1 k), Image (io k)]) [0..<n1]\<rparr>]) \<and>
      validation_batches (\<lambda>st. colorize_on_validation_batch_end wandb_Image st m1) logger
          ((outputs1, (x1, c1)) # rest1) 0 =
        Inr (logger @ [\<lparr>key = ''cifar10-colorize-ae'',
                        columns = [''gt color'', ''gray'', ''colorized''],
                        data = map (\<lambda>k. [Image (ic k), Image (ix1 k), Image (io k)]) [0..<n1]\<rparr>])) \<and>
   (py_getitem outputs1 ''x_tilde'' = Inr (PyTensor xt) \<and>
    shape x1 = B1 # sx1 \<and> shape c1 = B1 # sc1 \<and> shape xt = B1 # so1 \<and>
    4 \<le> colorize_hparams.hp_batch_size (LitColorizeCIFAR10Model.hparams m1) \<and> 0 < B1 \<and>
    wandb_Image (select0 c1 0) = Inl e \<longrightarrow>
      colorize_on_validation_batch_end wandb_Image logger m1 outputs1 (x1, c1) 0 dl = Inl e) \<and>
   (py_getitem outputs3 ''y_hat'' = Inr (PyTensor y_hat) \<and> shape y_hat = [B3, K] \<and> 0 < K \<and> K \<le> 10 \<and>
    shape x3 = B3 # sx3 \<and> shape y3 = [B3] \<and> length (elems y3) = B3 \<and>
    list_all (\<lambda>t. 0 \<le> t \<and> t < 10) (elems y3) \<and> n3 = min 10 B3 \<and>
    (\<forall>k<n3. wandb_Image (select0 x3 k) = Inr (ix3 k)) \<longrightarrow>
      mlp_on_validation_batch_end wandb_Image logger m3 outputs3 (x3, y3) 0 dl =
        Inr (logger @ [\<lparr>key = model_class_name (model m3),
                        columns = [''image'', ''ground truth'', ''prediction''],
                        data = map (\<lambda>k. [Image (ix3 k), Text (label_human ! nat (elems y3 ! k)),
                                          Text (label_human !
                                            argmax_list (map (\<lambda>j. elem_at y_hat [k, j]) [0..<K]))])
                                 [0..<n3]\<rparr>]) \<and>
      validation_batches (\<lambda>st. mlp_on_validation_batch_end wandb_Image st m3) logger
          ((outputs3, (x3, y3)) # rest3) 0 =
        Inr (logger @ [\<lparr>key = model_class_name (model m3),
                        columns = [''image'', ''ground truth'', ''prediction''],
                        data = map (\<lambda>k. [Image (ix3 k), Text (label_human ! nat (elems y3 ! k)),
                                          Text (label_human !
                                            argmax_list (map (\<lambda>j. elem_at y_hat [k, j]) [0..<K]))])
                                 [0..<n3]\<rparr>])) \<and>
   (py_getitem outputs3 ''y_hat'' = Inr (PyTensor y_hat) \<and> shape y_hat = [B3, K] \<and> 0 < K \<and>
    shape x3 = B3 # sx3 \<and> shape y3 = [B3] \<and> length (elems y3) = B3 \<and> 0 < B3 \<and>
    wandb_Image (select0 x3 0) = Inl e \<longrightarrow>
      mlp_on_validation_batch_end wandb_Image logger m3 outputs3 (x3, y3) 0 dl = Inl e)"
proof -
  have o1: "batch_idx \<noteq> 0 \<longrightarrow>
      colorize_on_validation_batch_end wandb_Image logger m1 outputs1 batch1 batch_idx dl = Inr logger"
    by (simp add: colorize_callback_other_batches)
  have o3: "batch_idx \<noteq> 0 \<longrightarrow>
      mlp_on_validation_batch_end wandb_Image logger m3 outputs3 batch3 batch_idx dl = Inr logger"
    by (simp add: mlp_callback_other_batches)
  have f1: "py_getitem outputs1 ''x_tilde'' = Inr (PyTensor xt) \<and>
    shape x1 = B1 # sx1 \<and> shape c1 = B1 # sc1 \<and> shape xt = B1 # so1 \<and>
    0 \<le> colorize_hparams.hp_batch_size (LitColorizeCIFAR10Model.hparams m1) \<and>
    n1 = min (nat (colorize_hparams.hp_batch_size (LitColorizeCIFAR10Model.hparams m1) div 4)) B1 \<and>
    (\<forall>k<n1. wandb_Image (select0 c1 k) = Inr (ic k) \<and> wandb_Image (select0 x1 k) = Inr (ix1 k) \<and>
             wandb_Image (select0 xt k) = Inr (io k)) \<longrightarrow>
      colorize_on_validation_batch_end wandb_Image logger m1 outputs1 (x1, c1) 0 dl =
        Inr (logger @ [\<lparr>key = ''cifar10-colorize-ae'',
                        columns = [''gt color'', ''gray'', ''colorized''],
                        data = map (\<lambda>k. [Image (ic k), Image (ix1 k), Image (io k)]) [0..<n1]\<rparr>]) \<and>
      validation_batches (\<lambda>st. colorize_on_validation_batch_end wandb_Image st m1) logger
          ((outputs1, (x1, c1)) # rest1) 0 =
        Inr (logger @ [\<lparr>key = ''cifar10-colorize-ae'',
                        columns = [''gt color'', ''gray'', ''colorized''],
                        data = map (\<lambda>k. [Image (ic k), Image (ix1 k), Image (io k)]) [0..<n1]\<rparr>])"
  proof (intro impI, elim conjE)
    assume h: "py_getitem outputs1 ''x_tilde'' = Inr (PyTensor xt)"
      "shape x1 = B1 # sx1" "shape c1 = B1 # sc1" "shape xt = B1 # so1"
      "0 \<le> colorize_hparams.hp_batch_size (LitColorizeCIFAR10Model.hparams m1)"
      "n1 = min (nat (colorize_hparams.hp_batch_size (LitColorizeCIFAR10Model.hparams m1) div 4)) B1"
      "\<forall>k<n1. wandb_Image (select0 c1 k) = Inr (ic k) \<and> wandb_Image (select0 x1 k) = Inr (ix1 k) \<and>
             wandb_Image (select0 xt k) = Inr (io k)"
    note first = colorize_callback_first_batch [OF h, of logger]
    have "validation_batches (\<lambda>st. colorize_on_validation_batch_end wandb_Image st m1) logger
          ((outputs1, (x1, c1)) # rest1) 0 =
        Inr (logger @ [\<lparr>key = ''cifar10-colorize-ae'',
                        columns = [''gt color'', ''gray'', ''colorized''],
                        data = map (\<lambda>k. [Image (ic k), Image (ix1 k), Image (io k)]) [0..<n1]\<rparr>])"
      by (rule validation_batches_once) (simp_all add: colorize_callback_other_batches first)
    with first [of dl] show
      "colorize_on_validation_batch_end wandb_Image logger m1 outputs1 (x1, c1) 0 dl =
        Inr (logger @ [\<lparr>key = ''cifar10-colorize-ae'',
                        columns = [''gt color'', ''gray'', ''colorized''],
                        data = map (\<lambda>k. [Image (ic k), Image (ix1 k), Image (io k)]) [0..<n1]\<rparr>]) \<and>
      validation_batches (\<lambda>st. colorize_on_validation_batch_end wandb_Image st m1) logger
          ((outputs1, (x1, c1)) # rest1) 0 =
        Inr (logger @ [\<lparr>key = ''cifar10-colorize-ae'',
                        columns = [''gt color'', ''gray'', ''colorized''],
                        data = map (\<lambda>k. [Image (ic k), Image (ix1 k), Image (io k)]) [0..<n1]\<rparr>])"
      by simp
  qed
  have e1: "py_getitem outputs1 ''x_tilde'' = Inr (PyTensor xt) \<and>
    shape x1 = B1 # sx1 \<and> shape c1 = B1 # sc1 \<and> shape xt = B1 # so1 \<and>
    4 \<le> colorize_hparams.hp_batch_size (LitColorizeCIFAR10Model.hparams m1) \<and> 0 < B1 \<and>
    wandb_Image (select0 c1 0) = Inl e \<longrightarrow>
      colorize_on_validation_batch_end wandb_Image logger m1 outputs1 (x1, c1) 0 dl = Inl e"
    using colorize_callback_image_error [of outputs1 xt x1 B1 sx1 c1 sc1 so1 m1 wandb_Image e logger dl]
    by blast
  have f3: "py_getitem outputs3 ''y_hat'' = Inr (PyTensor y_hat) \<and> shape y_hat = [B3, K] \<and> 0 < K \<and> K \<le> 10 \<and>
    shape x3 = B3 # sx3 \<and> shape y3 = [B3] \<and> length (elems y3) = B3 \<and>
    list_all (\<lambda>t. 0 \<le> t \<and> t < 10) (elems y3) \<and> n3 = min 10 B3 \<and>
    (\<forall>k<n3. wandb_Image (select0 x3 k) = Inr (ix3 k)) \<longrightarrow>
      mlp_on_validation_batch_end wandb_Image logger m3 outputs3 (x3, y3) 0 dl =
        Inr (logger @ [\<lparr>key = model_class_name (model m3),
                        columns = [''image'', ''ground truth'', ''prediction''],
                        data = map (\<lambda>k. [Image (ix3 k), Text (label_human ! nat (elems y3 ! k)),
                                          Text (label_human !
                                            argmax_list (map (\<lambda>j. elem_at y_hat [k, j]) [0..<K]))])
                                 [0..<n3]\<rparr>]) \<and>
      validation_batches (\<lambda>st. mlp_on_validation_batch_end wandb_Image st m3) logger
          ((outputs3, (x3, y3)) # rest3) 0 =
        Inr (logger @ [\<lparr>key = model_class_name (model m3),
                        columns = [''image'', ''ground truth'', ''prediction''],
                        data = map (\<lambda>k. [Image (ix3 k), Text (label_human ! nat (elems y3 ! k)),
                                          Text (label_human !
                                            argmax_list (map (\<lambda>j. elem_at y_hat [k, j]) [0..<K]))])
                                 [0..<n3]\<rparr>])"
  proof (intro impI, elim conjE)
    assume h: "py_getitem outputs3 ''y_hat'' = Inr (PyTensor y_hat)" "shape y_hat = [B3, K]" "0 < K"
      "K \<le> 10" "shape x3 = B3 # sx3" "shape y3 = [B3]" "length (elems y3) = B3"
      "list_all (\<lambda>t. 0 \<le> t \<and> t < 10) (elems y3)" "n3 = min 10 B3"
      "\<forall>k<n3. wandb_Image (select0 x3 k) = Inr (ix3 k)"
    note first = mlp_callback_first_batch [OF h, of logger m3]
    have "validation_batches (\<lambda>st. mlp_on_validation_batch_end wandb_Image st m3) logger
          ((outputs3, (x3, y3)) # rest3) 0 =
        Inr (logger @ [\<lparr>key = model_class_name (model m3),
                        columns = [''image'', ''ground truth'', ''prediction''],
                        data = map (\<lambda>k. [Image (ix3 k), Text (label_human ! nat (elems y3 ! k)),
                                          Text (label_human !
                                            argmax_list (map (\<lambda>j. elem_at y_hat [k, j]) [0..<K]))])
                                 [0..<n3]\<rparr>])"
      by (rule validation_batches_once) (simp_all add: mlp_callback_other_batches first)
    with first [of dl] show
      "mlp_on_validation_batch_end wandb_Image logger m3 outputs3 (x3, y3) 0 dl =
        Inr (logger @ [\<lparr>key = model_class_name (model m3),
                        columns = [''image'', ''ground truth'', ''prediction''],
                        data = map (\<lambda>k. [Image (ix3 k), Text (label_human ! nat (elems y3 ! k)),
                                          Text (label_human !
                                            argmax_list (map (\<lambda>j. elem_at y_hat [k, j]) [0..<K]))])
                                 [0..<n3]\<rparr>]) \<and>
      validation_batches (\<lambda>st. mlp_on_validation_batch_end wandb_Image st m3) logger
          ((outputs3, (x3, y3)) # rest3) 0 =
        Inr (logger @ [\<lparr>key = model_class_name (model m3),
                        columns = [''image'', ''ground truth'', ''prediction''],
                        data = map (\<lambda>k. [Image (ix3 k), Text (label_human ! nat (elems y3 ! k)),
                                          Text (label_human !
                                            argmax_list (map (\<lambda>j. elem_at y_hat [k, j]) [0..<K]))])
                                 [0..<n3]\<rparr>])"
      by simp
  qed
  have e3: "py_getitem outputs3 ''y_hat'' = Inr (PyTensor y_hat) \<and> shape y_hat = [B3, K] \<and> 0 < K \<and>
    shape x3 = B3 # sx3 \<and> shape y3 = [B3] \<and> length (elems y3) = B3 \<and> 0 < B3 \<and>
    wandb_Image (select0 x3 0) = Inl e \<longrightarrow>
      mlp_on_validation_batch_end wandb_Image logger m3 outputs3 (x3, y3) 0 dl = Inl e"
    using mlp_callback_image_error [of outputs3 y_hat B3 K x3 sx3 y3 wandb_Image e logger m3 dl]
    by blast
  show ?thesis
    by (intro conjI o1 o3 f1 e1 f3 e3)
qed

lemma chw_Image_select0:
  "shape t = [B, c, h, w] \<Longrightarrow> (c = 1 \<or> c = 3) \<Longrightarrow> 0 < h \<Longrightarrow> 0 < w \<Longrightarrow>
   chw_Image (select0 t k) = Inr (select0 t k)"
  by (auto simp: chw_Image_def select0_def)

theorem callbacks_log_on_first_batch_only_witness:
  "colorize_on_validation_batch_end chw_Image [] example_lit_colorize
       (PyDict [(''x_tilde'', PyTensor (zeros [2, 3, 32, 32]))])
       (zeros [2, 1, 32, 32], zeros [2, 3, 32, 32]) 1 0 = Inr [] \<and>
   mlp_on_validation_batch_end chw_Image [] example_lit_mlp
       (PyDict [(''y_hat'', PyTensor (zeros [2, 10]))])
       (zeros [2, 3, 32, 32], example_labels) 1 0 = Inr [] \<and>
   colorize_on_validation_batch_end chw_Image [] example_lit_colorize
       (PyDict [(''x_tilde'', PyTensor (zeros [2, 3, 32, 32]))])
       (zeros [2, 1, 32, 32], zeros [2, 3, 32, 32]) 0 0 =
     Inr [\<lparr>key = ''cifar10-colorize-ae'', columns = [''gt color'', ''gray'', ''colorized''],
           data = map (\<lambda>k. [Image (select0 (zeros [2, 3, 32, 32]) k),
                             Image (select0 (zeros [2, 1, 32, 32]) k),
                             Image (select0 (zeros [2, 3, 32, 32]) k)]) [0..<2]\<rparr>] \<and>
   validation_batches (\<lambda>st. colorize_on_validation_batch_end chw_Image st example_lit_colorize) []
       [(PyDict [(''x_tilde'', PyTensor (zeros [2, 3, 32, 32]))],
         (zeros [2, 1, 32, 32], zeros [2, 3, 32, 32])),
        (PyDict [(''x_tilde'', PyTensor (zeros [2, 3, 32, 32]))],
         (zeros [2, 1, 32, 32], zeros [2, 3, 32, 32]))] 0 =
     Inr [\<lparr>key = ''cifar10-colorize-ae'', columns = [''gt color'', ''gray'', ''colorized''],
           data = map (\<lambda>k. [Image (select0 (zeros [2, 3, 32, 32]) k),
                             Image (select0 (zeros [2, 1, 32, 32]) k),
                             Image (select0 (zeros [2, 3, 32, 32]) k)]) [0..<2]\<rparr>] \<and>
   colorize_on_validation_batch_end chw_Image [] example_lit_colorize
       (PyDict [(''x_tilde'', PyTensor (zeros [2, 3, 32, 32]))])
       (zeros [2, 1, 32, 32], zeros [2, 5, 32, 32]) 0 0 = Inl TypeError \<and>
   mlp_on_validation_batch_end chw_Image [] example_lit_mlp
       (PyDict [(''y_hat'', PyTensor (zeros [2, 10]))])
       (zeros [2, 3, 32, 32], example_labels) 0 0 =
     Inr [\<lparr>key = ''SimpleMLP'', columns = [''image'', ''ground truth'', ''prediction''],
           data = map (\<lambda>k. [Image (select0 (zeros [2, 3, 32, 32]) k),
                             Text (label_human ! nat (elems example_labels ! k)),
                             Text (label_human !
                               argmax_list (map (\<lambda>j. elem_at (zeros [2, 10]) [k, j]) [0..<10]))])
                    [0..<2]\<rparr>] \<and>
   mlp_on_validation_batch_end chw_Image [] example_lit_mlp
       (PyDict [(''y_hat'', PyTensor (zeros [2, 10]))])
       (zeros [2, 5, 32, 32], example_labels) 0 0 = Inl TypeError"
proof -
  have g1: "py_getitem (PyDict [(''x_tilde'', PyTensor (zeros [2, 3, 32, 32]))]) ''x_tilde''
     = Inr (PyTensor (zeros [2, 3, 32, 32]))"
    by simp
  have g3: "py_getitem (PyDict [(''y_hat'', PyTensor (zeros [2, 10]))]) ''y_hat''
     = Inr (PyTensor (zeros [2, 10]))"
    by simp
  have s: "shape (zeros [2, 1, 32, 32]) = 2 # [1, 32, 32]" "shape (zeros [2, 3, 32, 32]) = 2 # [3, 32, 32]"
    "shape (zeros [2, 5, 32, 32]) = 2 # [5, 32, 32]" "shape (zeros [2, 10]) = [2, 10]"
    by simp_all
  have bs: "0 \<le> colorize_hparams.hp_batch_size (LitColorizeCIFAR10Model.hparams example_lit_colorize)"
    "4 \<le> colorize_hparams.hp_batch_size (LitColorizeCIFAR10Model.hparams example_lit_colorize)"
    "(2::nat) = min (nat (colorize_hparams.hp_batch_size
        (LitColorizeCIFAR10Model.hparams example_lit_colorize) div 4)) 2"
    by (simp_all add: example_lit_colorize_def)
  have im: "\<forall>k<2. chw_Image (select0 (zeros [2, 3, 32, 32]) k) = Inr (select0 (zeros [2, 3, 32, 32]) k) \<and>
      chw_Image (select0 (zeros [2, 1, 32, 32]) k) = Inr (select0 (zeros [2, 1, 32, 32]) k) \<and>
      chw_Image (select0 (zeros [2, 3, 32, 32]) k) = Inr (select0 (zeros [2, 3, 32, 32]) k)"
    by (simp add: chw_Image_select0 [of _ 2 _ 32 32])
  have im3: "\<forall>k<2. chw_Image (select0 (zeros [2, 3, 32, 32]) k) = Inr (select0 (zeros [2, 3, 32, 32]) k)"
    by (simp add: chw_Image_select0 [of _ 2 _ 32 32])
  have er: "chw_Image (select0 (zeros [2, 5, 32, 32]) 0) = Inl TypeError"
    by (simp add: chw_Image_def select0_def)
  have k: "model_class_name (model example_lit_mlp) = ''SimpleMLP''"
    by (simp add: example_lit_mlp_def)
  have n3: "(2::nat) = min 10 2" "(0::nat) < 10" "(10::nat) \<le> 10" "(0::nat) < 2"
    by simp_all
  have lb: "list_all (\<lambda>t. 0 \<le> t \<and> t < 10) (elems example_labels)"
    by (simp add: example_labels_def)
  note t = callbacks_log_on_first_batch_only [where wandb_Image = chw_Image and logger = "[]"
      and batch_idx = 1 and dl = 0 and ?m1.0 = example_lit_colorize
      and ?outputs1.0 = "PyDict [(''x_tilde'', PyTensor (zeros [2, 3, 32, 32]))]"
      and ?batch1.0 = "(zeros [2, 1, 32, 32], zeros [2, 3, 32, 32])"
      and xt = "zeros [2, 3, 32, 32]" and ?x1.0 = "zeros [2, 1, 32, 32]"
      and ?c1.0 = "zeros [2, 3, 32, 32]" and ?B1.0 = 2 and ?sx1.0 = "[1, 32, 32]"
      and ?sc1.0 = "[3, 32, 32]" and ?so1.0 = "[3, 32, 32]" and ?n1.0 = 2
      and ic = "select0 (zeros [2, 3, 32, 32])" and ?ix1.0 = "select0 (zeros [2, 1, 32, 32])"
      and io = "select0 (zeros [2, 3, 32, 32])"
      and ?rest1.0 = "[(PyDict [(''x_tilde'', PyTensor (zeros [2, 3, 32, 32]))],
                        (zeros [2, 1, 32, 32], zeros [2, 3, 32, 32]))]"
      and ?m3.0 = example_lit_mlp
      and ?outputs3.0 = "PyDict [(''y_hat'', PyTensor (zeros [2, 10]))]"
      and ?batch3.0 = "(zeros [2, 3, 32, 32], example_labels)"
      and y_hat = "zeros [2, 10]" and ?B3.0 = 2 and K = 10 and ?x3.0 = "zeros [2, 3, 32, 32]"
      and ?sx3.0 = "[3, 32, 32]" and ?y3.0 = example_labels and ?n3.0 = 2
      and ?ix3.0 = "select0 (zeros [2, 3, 32, 32])"]
  note u = callbacks_log_on_first_batch_only [where wandb_Image = chw_Image and logger = "[]"
      and dl = 0 and ?m1.0 = example_lit_colorize
      and ?outputs1.0 = "PyDict [(''x_tilde'', PyTensor (zeros [2, 3, 32, 32]))]"
      and xt = "zeros [2, 3, 32, 32]" and ?x1.0 = "zeros [2, 1, 32, 32]"
      and ?c1.0 = "zeros [2, 5, 32, 32]" and ?B1.0 = 2 and ?sx1.0 = "[1, 32, 32]"
      and ?sc1.0 = "[5, 32, 32]" and ?so1.0 = "[3, 32, 32]" and e = TypeError
      and ?m3.0 = example_lit_mlp
      and ?outputs3.0 = "PyDict [(''y_hat'', PyTensor (zeros [2, 10]))]"
      and y_hat = "zeros [2, 10]" and ?B3.0 = 2 and K = 10 and ?x3.0 = "zeros [2, 5, 32, 32]"
      and ?sx3.0 = "[5, 32, 32]" and ?y3.0 = example_labels]
  have 1: "colorize_on_validation_batch_end chw_Image [] example_lit_colorize
       (PyDict [(''x_tilde'', PyTensor (zeros [2, 3, 32, 32]))])
       (zeros [2, 1, 32, 32], zeros [2, 3, 32, 32]) 1 0 = Inr []"
    using t [THEN conjunct1] by simp
  have 2: "mlp_on_validation_batch_end chw_Image [] example_lit_mlp
       (PyDict [(''y_hat'', PyTensor (zeros [2, 10]))])
       (zeros [2, 3, 32, 32], example_labels) 1 0 = Inr []"
    using t [THEN conjunct2, THEN conjunct1] by simp
  note 3 = t [THEN conjunct2, THEN conjunct2, THEN conjunct1, rule_format,
      OF conjI [OF g1 conjI [OF s(1) conjI [OF s(2) conjI [OF s(2) conjI [OF bs(1) conjI [OF bs(3) im]]]]]],
      unfolded append_Nil]
  note 4 = u [THEN conjunct2, THEN conjunct2, THEN conjunct2, THEN conjunct1, rule_format,
      OF conjI [OF g1 conjI [OF s(1) conjI [OF s(3) conjI [OF s(2) conjI [OF bs(2) conjI [OF n3(4) er]]]]]]]
  note 5 = t [THEN conjunct2, THEN conjunct2, THEN conjunct2, THEN conjunct2, THEN conjunct1, rule_format,
      OF conjI [OF g3 conjI [OF s(4) conjI [OF n3(2) conjI [OF n3(3) conjI [OF s(2)
        conjI [OF example_labels_ok(1) conjI [OF example_labels_ok(2) conjI [OF lb conjI [OF n3(1) im3]]]]]]]]],
      unfolded append_Nil k]
  note 6 = u [THEN conjunct2, THEN conjunct2, THEN conjunct2, THEN conjunct2, THEN conjunct2, rule_format,
      OF conjI [OF g3 conjI [OF s(4) conjI [OF n3(2) conjI [OF s(3)
        conjI [OF example_labels_ok(1) conjI [OF example_labels_ok(2) conjI [OF n3(4) er]]]]]]]]
  from 1 2 3 4 5 6 show ?thesis
    by (simp del: validation_batches.simps)
qed

subsection \<open>The range of the decoder's output\<close>

lemma sigmoid_unit_interval: "0 < sigmoid v \<and> sigmoid v < 1"
proof -
  have "0 < exp (- v)" by simp
  then show ?thesis by (simp add: sigmoid_def add_pos_pos)
qed

lemma round_half_even_nonneg: "0 \<le> r \<Longrightarrow> 0 \<le> round_half_even r"
  by (auto simp: round_half_even_def Let_def)

lemma round_half_even_le: "r < of_int m \<Longrightarrow> round_half_even r \<le> m"
proof -
  assume "r < of_int m"
  then have "\<lfloor>r\<rfloor> < m" by (simp add: floor_less_iff)
  then show ?thesis by (auto simp: round_half_even_def Let_def)
qed

lemma two_powr_24: "(2::real) powr 24 = 16777216"
proof -
  have "(2::real) powr 24 = 2 ^ 24" by (simp add: powr_numeral)
  then show ?thesis by simp
qed

lemma round_f32_unit_interval:
  assumes "0 < x" "x < 1"
  shows "0 \<le> round_f32 x \<and> round_f32 x \<le> 1"
proof -
  define L :: int where "L = \<lfloor>log 2 \<bar>x\<bar>\<rfloor>"
  define e where "e = max L (- 126)"
  define ulp :: real where "ulp = 2 powr (of_int e - 23)"
  have r: "round_f32 x = of_int (round_half_even (x / ulp)) * ulp"
    using assms(1) by (simp add: round_f32_def Let_def L_def e_def ulp_def)
  have up: "0 < ulp" by (simp add: ulp_def)
  have "log 2 x < 0" using assms by simp
  then have "L < 0" using assms(1) by (simp add: L_def floor_less_iff)
  then have e1: "e \<le> - 1" by (simp add: e_def)
  have Le: "L \<le> e" by (simp add: e_def)
  have "log 2 x < of_int L + 1"
    using assms(1) by (simp add: L_def)
  then have "2 powr (log 2 x) < 2 powr (of_int L + 1)"
    by simp
  then have x1: "x < 2 powr (of_int L + 1)"
    using assms(1) by simp
  have "2 powr (of_int L + 1) \<le> (2::real) powr (of_int e + 1)"
    using Le by (simp add: powr_mono)
  with x1 have x2: "x < 2 powr (of_int e + 1)" by (rule less_le_trans)
  have sp: "(2::real) powr (of_int e + 1) = 16777216 * ulp"
  proof -
    have "of_int e + 1 = 24 + (of_int e - 23 :: real)" by simp
    then have "(2::real) powr (of_int e + 1) = 2 powr (24 + (of_int e - 23))" by (rule arg_cong)
    also have "\<dots> = 2 powr 24 * 2 powr (of_int e - 23)" by (rule powr_add)
    finally show ?thesis by (simp add: two_powr_24 ulp_def)
  qed
  have "x / ulp < 16777216"
    using x2 up unfolding sp by (simp add: pos_divide_less_eq)
  then have "x / ulp < of_int 16777216" by simp
  then have hi: "round_half_even (x / ulp) \<le> 16777216"
    by (rule round_half_even_le)
  have lo: "0 \<le> round_half_even (x / ulp)"
    using assms(1) up by (intro round_half_even_nonneg) simp
  have "round_f32 x \<le> 16777216 * ulp"
    unfolding r using hi up by (intro mult_right_mono) (simp_all add: of_int_le_iff [symmetric] del: of_int_le_iff)
  also have "\<dots> = 2 powr (of_int e + 1)" by (simp add: sp)
  also have "\<dots> \<le> 2 powr 0"
    using e1 by (intro powr_mono) simp_all
  finally have "round_f32 x \<le> 1" by simp
  moreover have "0 \<le> round_f32 x"
    unfolding r using lo up by simp
  ultimately show ?thesis by simp
qed

lemma nn_Sigmoid_range:
  "0 \<le> nn_Sigmoid ar v \<and> nn_Sigmoid ar v \<le> 1 \<and> (ar = Exact \<longrightarrow> 0 < nn_Sigmoid ar v \<and> nn_Sigmoid ar v < 1)"
  using sigmoid_unit_interval [of v] round_f32_unit_interval [of "sigmoid v"]
  by (cases ar) simp_all

lemma exp_minus_100: "exp (- 100 :: real) \<le> 1 / 2 ^ 100"
proof -
  have "(2::real) \<le> exp 1" using exp_ge_add_one_self [of "1::real"] by simp
  then have "(2::real) ^ 100 \<le> exp 1 ^ 100" by (intro power_mono) simp_all
  also have "\<dots> = exp (real 100 * 1)" by (simp only: exp_of_nat_mult)
  finally have "(2::real) ^ 100 \<le> exp 100" by simp
  then have "1 / exp (100::real) \<le> 1 / 2 ^ 100"
    by (intro divide_left_mono) simp_all
  then show ?thesis by (simp add: exp_minus inverse_eq_divide)
qed

lemma sigmoid_100: "1 - 1 / 2 ^ 30 \<le> sigmoid 100 \<and> sigmoid 100 < 1"
proof -
  define q where "q = exp (- 100 :: real)"
  have q: "0 < q" "q \<le> 1 / 2 ^ 100" using exp_minus_100 by (simp_all add: q_def)
  have "(1 - q) * (1 + q) \<le> 1" by (simp add: algebra_simps)
  then have "1 - q \<le> 1 / (1 + q)" using q(1) by (simp add: pos_le_divide_eq)
  moreover have "(1::real) / 2 ^ 100 \<le> 1 / 2 ^ 30" by simp
  ultimately have "1 - 1 / 2 ^ 30 \<le> 1 / (1 + q)" using q(2) by linarith
  then show ?thesis
    using sigmoid_unit_interval [of 100] by (simp add: sigmoid_def q_def)
qed

lemma round_f32_sigmoid_100: "round_f32 (sigmoid 100) = 1"
proof -
  define s where "s = sigmoid 100"
  have s: "1 - 1 / 2 ^ 30 \<le> s" "s < 1" using sigmoid_100 by (simp_all add: s_def)
  have sp: "0 < s" "1 / 2 \<le> s" using s(1) by simp_all
  have "log 2 (1 / 2) \<le> log 2 s" using sp by simp
  moreover have "log 2 (1 / 2 :: real) = - 1" by (simp add: log_divide)
  moreover have "log 2 s < 0" using sp(1) s(2) by simp
  ultimately have L: "\<lfloor>log 2 s\<rfloor> = - 1"
    by (simp add: floor_eq_iff)
  have ulp: "(2::real) powr (- 24) = 1 / 16777216"
  proof -
    have "(2::real) powr (- 24) = 1 / 2 powr 24" by (simp add: powr_minus_divide)
    then show ?thesis by (simp add: two_powr_24)
  qed
  have r: "round_f32 s = of_int (round_half_even (s * 16777216)) / 16777216"
    using sp(1) by (simp add: round_f32_def Let_def L ulp)
  have b: "16777215 + 1 / 2 < s * 16777216" "s * 16777216 < 16777216"
    using s by simp_all
  then have f: "\<lfloor>s * 16777216\<rfloor> = 16777215"
    by (simp add: floor_eq_iff)
  have "round_half_even (s * 16777216) = 16777216"
    using b by (simp add: round_half_even_def Let_def f)
  then show ?thesis
    unfolding s_def [symmetric] r by simp
qed

lemma elem_at_zeros: "valid_index sh idx \<Longrightarrow> elem_at (zeros sh) idx = 0"
  using ravel_less [of sh idx] by (simp add: elem_at_def zeros_def)

lemma sum_upto_zero: "sum_upto n (\<lambda>k. 0) = 0"
  by (simp add: sum_upto_def)

lemma ConvTranspose2d_forward_wf:
  "ConvTranspose2d_forward l x = Inr y \<Longrightarrow> wf_tensor y"
  by (auto simp: ConvTranspose2d_forward_def Let_def split: list.splits if_splits)

lemma ConvTranspose2d_forward_zero_weight:
  assumes "shape x = [B, C, H, W]" "convT_weight l = zeros [C, out, kh, kw]"
    "shape (convT_bias l) = [out]" "0 < H" "0 < W" "0 < convT_stride l"
    "2 * convT_padding l < (H - 1) * convT_stride l + kh"
    "2 * convT_padding l < (W - 1) * convT_stride l + kw"
  shows "ConvTranspose2d_forward l x =
         Inr (tabulate [B, out, (H - 1) * convT_stride l + kh - 2 * convT_padding l,
                        (W - 1) * convT_stride l + kw - 2 * convT_padding l]
                (\<lambda>idx. elem_at (convT_bias l) [idx ! 1]))"
proof -
  define Ho where "Ho = (H - 1) * convT_stride l + kh - 2 * convT_padding l"
  define Wo where "Wo = (W - 1) * convT_stride l + kw - 2 * convT_padding l"
  have z: "sum_upto C (\<lambda>c. sum_upto H (\<lambda>hi. sum_upto W (\<lambda>wi.
             sum_upto kh (\<lambda>ki. sum_upto kw (\<lambda>kj.
               if hi * convT_stride l + ki = idx ! 2 + convT_padding l \<and>
                  wi * convT_stride l + kj = idx ! 3 + convT_padding l
               then elem_at x [idx ! 0, c, hi, wi] * elem_at (convT_weight l) [c, idx ! 1, ki, kj]
               else 0))))) = 0"
    if "valid_index [B, out, Ho, Wo] idx" for idx
  proof -
    from that have o: "idx ! 1 < out" by auto
    have "sum_upto C (\<lambda>c. sum_upto H (\<lambda>hi. sum_upto W (\<lambda>wi.
             sum_upto kh (\<lambda>ki. sum_upto kw (\<lambda>kj.
               if hi * convT_stride l + ki = idx ! 2 + convT_padding l \<and>
                  wi * convT_stride l + kj = idx ! 3 + convT_padding l
               then elem_at x [idx ! 0, c, hi, wi] * elem_at (convT_weight l) [c, idx ! 1, ki, kj]
               else 0))))) =
          sum_upto C (\<lambda>c. sum_upto H (\<lambda>hi. sum_upto W (\<lambda>wi.
             sum_upto kh (\<lambda>ki. sum_upto kw (\<lambda>kj. 0)))))"
      using o by (intro sum_upto_cong) (auto simp: assms(2) elem_at_zeros)
    then show ?thesis by (simp add: sum_upto_zero)
  qed
  have t: "tabulate [B, out, Ho, Wo]
          (\<lambda>idx. elem_at (convT_bias l) [idx ! 1] +
             sum_upto C (\<lambda>c. sum_upto H (\<lambda>hi. sum_upto W (\<lambda>wi.
             sum_upto kh (\<lambda>ki. sum_upto kw (\<lambda>kj.
               if hi * convT_stride l + ki = idx ! 2 + convT_padding l \<and>
                  wi * convT_stride l + kj = idx ! 3 + convT_padding l
               then elem_at x [idx ! 0, c, hi, wi]
                    * elem_at (convT_weight l) [c, idx ! 1, ki, kj]
               else 0)))))) =
        tabulate [B, out, Ho, Wo] (\<lambda>idx. elem_at (convT_bias l) [idx ! 1])"
    by (rule tabulate_cong) (simp only: z add_0_right)
  have sw: "shape (convT_weight l) = [C, out, kh, kw]" by (simp add: assms(2))
  have "ConvTranspose2d_forward l x =
        Inr (tabulate [B, out, Ho, Wo]
          (\<lambda>idx. elem_at (convT_bias l) [idx ! 1] +
             sum_upto C (\<lambda>c. sum_upto H (\<lambda>hi. sum_upto W (\<lambda>wi.
             sum_upto kh (\<lambda>ki. sum_upto kw (\<lambda>kj.
               if hi * convT_stride l + ki = idx ! 2 + convT_padding l \<and>
                  wi * convT_stride l + kj = idx ! 3 + convT_padding l
               then elem_at x [idx ! 0, c, hi, wi]
                    * elem_at (convT_weight l) [c, idx ! 1, ki, kj]
               else 0)))))))"
    unfolding ConvTranspose2d_forward_def Ho_def Wo_def
    using assms(1,3-8) sw by (simp add: Let_def del: One_nat_def)
  then have "ConvTranspose2d_forward l x =
        Inr (tabulate [B, out, Ho, Wo] (\<lambda>idx. elem_at (convT_bias l) [idx ! 1]))"
    by (simp only: t)
  then show ?thesis
    unfolding Ho_def Wo_def .
qed

lemma saturated_decoder_ok: "Decoder_ok saturated_decoder 3 256 256 32 3"
  using example_decoder_ok
  by (simp add: saturated_decoder_def Decoder_ok_def ConvTranspose2d_ok_def)

lemma saturated_decoder_output:
  "Decoder_forward ar saturated_decoder (zeros [1, 256]) =
   Inr \<lparr>shape = [1, 3, 32, 32], elems = replicate 3072 (nn_Sigmoid ar 100)\<rparr>"
proof -
  have "shape (zeros [1, 256]) = [1, 256]" by simp
  from Decoder_forward_layers [OF saturated_decoder_ok this, of ar]
  obtain y3 y4 where y3: "shape y3 = [1, 64, 29, 29]"
    and y4: "ConvTranspose2d_forward (conv4 saturated_decoder) (tmap relu y3) = Inr y4"
    and out: "Decoder_forward ar saturated_decoder (zeros [1, 256]) = Inr (tmap (nn_Sigmoid ar) y4)"
    by blast
  have "ConvTranspose2d_forward (conv4 saturated_decoder) (tmap relu y3) =
        Inr (tabulate [1, 3, (29 - 1) * 1 + 4 - 2 * 0, (29 - 1) * 1 + 4 - 2 * 0]
               (\<lambda>idx. elem_at \<lparr>shape = [3], elems = [100, 100, 100]\<rparr> [idx ! 1]))"
    using ConvTranspose2d_forward_zero_weight [of "tmap relu y3" 1 64 29 29 "conv4 saturated_decoder" 3 4 4]
    by (simp add: y3 saturated_decoder_def)
  also have "tabulate [1, 3, (29 - 1) * 1 + 4 - 2 * 0, (29 - 1) * 1 + 4 - 2 * 0]
               (\<lambda>idx. elem_at \<lparr>shape = [3], elems = [100, 100, 100]\<rparr> [idx ! 1]) =
             tabulate [1, 3, 32, 32] (\<lambda>idx. 100 :: real)"
  proof -
    have "elem_at \<lparr>shape = [3], elems = [100, 100, 100 :: real]\<rparr> [j] = 100" if "j < 3" for j
      using that by (auto simp: elem_at_def less_Suc_eq numeral_3_eq_3)
    then have "tabulate [1, 3, 32, 32] (\<lambda>idx. elem_at \<lparr>shape = [3], elems = [100, 100, 100 :: real]\<rparr> [idx ! 1])
               = tabulate [1, 3, 32, 32] (\<lambda>idx. 100)"
      by (intro tabulate_cong) auto
    then show ?thesis by simp
  qed
  finally have "y4 = tabulate [1, 3, 32, 32] (\<lambda>idx. 100)"
    using y4 by simp
  then have "tmap (nn_Sigmoid ar) y4 = tabulate [1, 3, 32, 32] (\<lambda>idx. nn_Sigmoid ar 100)"
    by (simp add: tmap_tabulate)
  also have "\<dots> = \<lparr>shape = [1, 3, 32, 32], elems = replicate 3072 (nn_Sigmoid ar 100)\<rparr>"
    by (simp add: tabulate_def map_replicate_const)
  finally have "tmap (nn_Sigmoid ar) y4 =
      \<lparr>shape = [1, 3, 32, 32], elems = replicate 3072 (nn_Sigmoid ar 100)\<rparr>" .
  then show ?thesis unfolding out by simp
qed

lemma Decoder_forward_is_sigmoid:
  assumes "Decoder_forward ar d z = Inr y"
  shows "\<exists>y4. y = tmap (nn_Sigmoid ar) y4"
  using assms
  by (auto simp: Decoder_forward_def ebind_def split: list.splits sum.splits)

lemma Decoder_forward_wf:
  assumes "Decoder_ok d 3 256 256 32 3" "shape z = [B, 256]"
  shows "\<exists>y. Decoder_forward ar d z = Inr y \<and> shape y = [B, 3, 32, 32] \<and>
             length (elems y) = B * 3072"
proof -
  from Decoder_forward_layers [OF assms, of ar]
  obtain y3 y4 where y4: "ConvTranspose2d_forward (conv4 d) (tmap relu y3) = Inr y4"
    "shape y4 = [B, 3, 32, 32]" and out: "Decoder_forward ar d z = Inr (tmap (nn_Sigmoid ar) y4)"
    by blast
  from ConvTranspose2d_forward_wf [OF y4(1)] have "length (elems y4) = B * 3072"
    by (simp add: wf_tensor_def y4(2))
  then show ?thesis
    by (simp add: out y4(2) tmap_def)
qed

text \<open>
  Claim C10, as the code has it. The library computes the sigmoid in float32, where its
  value is rounded: for a pre-activation of 100 the result is exactly 1, so the bound is
  not strict.
\<close>

theorem Decoder_forward_saturates_counterexample:
  "Decoder_forward Float32 saturated_decoder (zeros [1, 256]) =
   Inr \<lparr>shape = [1, 3, 32, 32], elems = replicate 3072 1\<rparr>"
  using saturated_decoder_output [of Float32] by (simp add: round_f32_sigmoid_100)

text \<open>
  Claim C10, amended: for every input and every parameter assignment, every entry of what
  \<^verbatim>\<open>Decoder.forward\<close> returns lies between 0 and 1, both included; in exact arithmetic it
  lies strictly between them. With the default sizes and a latent input of shape
  \<open>(B, 256)\<close> the decoder returns, and its output has \<open>B * 3 * 32 * 32\<close> such entries.
\<close>

theorem Decoder_forward_unit_interval:
  "(Decoder_forward ar d z = Inr y \<and> v \<in> set (elems y) \<longrightarrow>
      0 \<le> v \<and> v \<le> 1 \<and> (ar = Exact \<longrightarrow> 0 < v \<and> v < 1)) \<and>
   (Decoder_ok d 3 256 256 32 3 \<and> shape z = [B, 256] \<longrightarrow>
      (\<exists>y. Decoder_forward ar d z = Inr y \<and> shape y = [B, 3, 32, 32] \<and>
           length (elems y) = B * 3072))"
proof -
  have r: "Decoder_forward ar d z = Inr y \<and> v \<in> set (elems y) \<longrightarrow>
      0 \<le> v \<and> v \<le> 1 \<and> (ar = Exact \<longrightarrow> 0 < v \<and> v < 1)"
  proof
    assume a: "Decoder_forward ar d z = Inr y \<and> v \<in> set (elems y)"
    with Decoder_forward_is_sigmoid [of ar d z y] obtain y4 where "y = tmap (nn_Sigmoid ar) y4"
      by auto
    with a obtain u where "v = nn_Sigmoid ar u" by (auto simp: tmap_def)
    then show "0 \<le> v \<and> v \<le> 1 \<and> (ar = Exact \<longrightarrow> 0 < v \<and> v < 1)"
      using nn_Sigmoid_range [of ar u] by simp
  qed
  have w: "Decoder_ok d 3 256 256 32 3 \<and> shape z = [B, 256] \<longrightarrow>
      (\<exists>y. Decoder_forward ar d z = Inr y \<and> shape y = [B, 3, 32, 32] \<and>
           length (elems y) = B * 3072)"
    using Decoder_forward_wf [of d z B ar] by blast
  show ?thesis
    by (intro conjI r w)
qed

theorem Decoder_forward_unit_interval_witness:
  "Decoder_forward Exact saturated_decoder (zeros [1, 256]) =
     Inr \<lparr>shape = [1, 3, 32, 32], elems = replicate 3072 (sigmoid 100)\<rparr> \<and>
   0 < sigmoid 100 \<and> sigmoid 100 < 1 \<and>
   Decoder_forward Float32 saturated_decoder (zeros [1, 256]) =
     Inr \<lparr>shape = [1, 3, 32, 32], elems = replicate 3072 (round_f32 (sigmoid 100))\<rparr> \<and>
   0 \<le> round_f32 (sigmoid 100) \<and> round_f32 (sigmoid 100) \<le> 1 \<and>
   (\<exists>y. Decoder_forward Float32 example_decoder (zeros [2, 256]) = Inr y \<and>
        shape y = [2, 3, 32, 32] \<and> length (elems y) = 2 * 3072)"
proof -
  have e: "Decoder_forward Exact saturated_decoder (zeros [1, 256]) =
     Inr \<lparr>shape = [1, 3, 32, 32], elems = replicate 3072 (sigmoid 100)\<rparr>"
    using saturated_decoder_output [of Exact] by simp
  have f: "Decoder_forward Float32 saturated_decoder (zeros [1, 256]) =
     Inr \<lparr>shape = [1, 3, 32, 32], elems = replicate 3072 (round_f32 (sigmoid 100))\<rparr>"
    using saturated_decoder_output [of Float32] by simp
  have m: "sigmoid 100 \<in> set (elems \<lparr>shape = [1, 3, 32, 32], elems = replicate 3072 (sigmoid 100)\<rparr>)"
    "round_f32 (sigmoid 100) \<in>
       set (elems \<lparr>shape = [1, 3, 32, 32], elems = replicate 3072 (round_f32 (sigmoid 100))\<rparr>)"
    by simp_all
  have s: "shape (zeros [2, 256]) = [2, 256]" by simp
  from Decoder_forward_unit_interval [THEN conjunct1, rule_format, OF conjI [OF e m(1)]]
  have 1: "0 < sigmoid 100 \<and> sigmoid 100 < 1" by simp
  from Decoder_forward_unit_interval [THEN conjunct1, rule_format, OF conjI [OF f m(2)]]
  have 2: "0 \<le> round_f32 (sigmoid 100) \<and> round_f32 (sigmoid 100) \<le> 1" by simp
  from Decoder_forward_unit_interval [THEN conjunct2, rule_format, OF conjI [OF example_decoder_ok s],
      of Float32]
  have 3: "\<exists>y. Decoder_forward Float32 example_decoder (zeros [2, 256]) = Inr y \<and>
        shape y = [2, 3, 32, 32] \<and> length (elems y) = 2 * 3072" .
  from e f 1 2 3 show ?thesis by blast
qed

end
